theory Spec2Isabelle
  imports Complex_Main
begin

section \<open>The transaction lifecycle of the marginfi client (client.ts)\<close>

text \<open>
  The methods of \<open>MarginfiClient\<close> are asynchronous and talk to a ledger node, a wallet
  and a relay. Each method is embedded as a function on an explicit state: the client
  object (\<open>this\<close>) and the trace of every external call made so far, each recorded with
  the answer it received. A thrown exception is the \<open>Inl\<close> of a sum, a returned value
  the \<open>Inr\<close>. The environment answers every call as a function of the whole history and
  of the call's arguments, so no assumption is made about the network. Values of
  library classes whose contents the client never inspects (compiled messages,
  instructions, lookup tables, decoded banks) are opaque and represented by strings.
  \<open>console.log\<close> and \<open>debug\<close> output is not modelled. An \<open>await\<close> is sequential.
\<close>

subsection \<open>Errors\<close>

datatype ProcessTransactionErrorType =
  TransactionBuildingError | SimulationError | FallthroughError | TimeoutError

text \<open>
  What a \<open>catch (error: any)\<close> can receive. The exceptions: web3.js's
  \<open>SendTransactionError(message, logs?)\<close>, the client's own
  \<open>ProcessTransactionError(message, type, logs?)\<close>, and every other exception class
  (\<open>Error\<close>, \<open>TypeError\<close>, \<open>RangeError\<close>, wallet and HTTP errors), which the code tells
  apart only by \<open>instanceof SendTransactionError\<close>. And, since a \<open>throw\<close> or a rejected
  promise can carry any value: \<open>Nullish\<close>, which is \<open>undefined\<close> or \<open>null\<close>, and \<open>NonError m\<close>,
  any other value that is not an exception object (a string, a plain object such as the
  rejection of a wallet), \<open>m\<close> being its \<open>message\<close> property if it has one.
\<close>

datatype nullish = js_undefined | js_null

datatype exn =
    SendTransactionError string "string list option"
  | ProcessTransactionError string ProcessTransactionErrorType "string list option"
  | Error string
  | Nullish nullish
  | NonError "string option"

text \<open>
  The expression \<open>error.message\<close>: the message, \<open>None\<close> for \<open>undefined\<close>, or the
  \<open>TypeError\<close> that reading a property of \<open>undefined\<close> or \<open>null\<close> throws.
\<close>

definition unreadable :: "nullish \<Rightarrow> exn" where
  "unreadable n =
     Error (''Cannot read properties of '' @
            (case n of js_undefined \<Rightarrow> ''undefined'' | js_null \<Rightarrow> ''null'') @
            '' (reading '' @ [CHR 0x27] @ ''message'' @ [CHR 0x27] @ '')'')"

fun read_message :: "exn \<Rightarrow> exn + string option" where
  "read_message (SendTransactionError m logs) = Inr (Some m)"
| "read_message (ProcessTransactionError m k logs) = Inr (Some m)"
| "read_message (Error m) = Inr (Some m)"
| "read_message (Nullish n) = Inl (unreadable n)"
| "read_message (NonError m) = Inr m"

subsection \<open>Data\<close>

type_synonym PublicKey = string
type_synonym TransactionInstruction = string
type_synonym AddressLookupTableAccount = string
type_synonym Signer = string

text \<open>\<open>TransactionOptions = ConfirmOptions & { dryRun?: boolean }\<close>; a missing field is \<open>None\<close>.\<close>

record TransactionOptions =
  dryRun :: "bool option"
  skipPreflight :: "bool option"
  commitment :: "string option"
  preflightCommitment :: "string option"
  maxRetries :: "int option"
  minContextSlot :: "int option"

text \<open>The options object handed to \<open>sendTransaction\<close> / \<open>sendRawTransaction\<close>.\<close>

record SendOptions =
  so_skipPreflight :: "bool option"
  so_preflightCommitment :: "string option"
  so_maxRetries :: "int option"

text \<open>
  The second argument of \<open>connection.simulateTransaction\<close>: the caller's options object
  as it is, or a configuration literal written in the method.
\<close>

record SimulateConfig =
  sc_minContextSlot :: "int option"
  sc_sigVerify :: "bool option"
  sc_accounts :: "string list option"

datatype sim_arg = PassedOpts TransactionOptions | Config SimulateConfig

fun arg_minContextSlot :: "sim_arg \<Rightarrow> int option" where
  "arg_minContextSlot (PassedOpts opts) = minContextSlot opts"
| "arg_minContextSlot (Config c) = sc_minContextSlot c"

record Connection =
  rpcEndpoint :: string
  conn_commitment :: "string option"

record VersionedTransaction =
  message :: string
  signatures :: "string list"

datatype transaction = Transaction "TransactionInstruction list" | Versioned VersionedTransaction

text \<open>\<open>getLatestBlockhashAndContext\<close>: \<open>context.slot\<close>, \<open>value.blockhash\<close>, \<open>value.lastValidBlockHeight\<close>.\<close>

record BlockhashAndContext =
  slot :: int
  blockhash :: string
  lastValidBlockHeight :: int

text \<open>A \<open>TransactionError\<close> is an object or a string; only a string can be falsy.\<close>

datatype TransactionError = ErrObject string | ErrString string

fun truthy_err :: "TransactionError option \<Rightarrow> bool" where
  "truthy_err None = False"
| "truthy_err (Some (ErrObject j)) = True"
| "truthy_err (Some (ErrString s)) = (s \<noteq> [])"

record SimulatedAccount =
  acc_data :: "string list"

record SimulatedResponse =
  sim_err :: "TransactionError option"
  sim_logs :: "string list option"
  unitsConsumed :: "nat option"
  sim_accounts :: "SimulatedAccount option list option"

datatype TransactionConfirmationStatus = processed | confirmed | finalized

record SignatureStatus =
  status_err :: "TransactionError option"
  confirmationStatus :: "TransactionConfirmationStatus option"

text \<open>
  A raw bank account as the program's coder returns it; of its \<open>config\<close> the client reads
  \<open>oracleKeys[0]\<close> (the IDL fixes the array's length, so the entry exists) and
  \<open>oracleSetup\<close>. An \<open>AccountInfo\<close> is read for its \<open>data\<close> only.
\<close>

record BankRaw =
  oracleKeys0 :: PublicKey
  oracleSetup :: string
  bank_payload :: string

record AccountInfo =
  ai_data :: string

subsection \<open>External calls and their trace\<close>

datatype event =
    GetLatestBlockhashAndContext Connection "exn + BlockhashAndContext"
  | GetLatestBlockhash Connection "exn + BlockhashAndContext"
  | SimulateTransaction Connection VersionedTransaction sim_arg "exn + SimulatedResponse"
  | WalletSignTransaction VersionedTransaction "exn + VersionedTransaction"
  | SendTransaction Connection VersionedTransaction SendOptions "exn + string"
  | SendRawTransaction Connection string SendOptions "exn + string"
  | GetSignatureStatus Connection "string option" "bool option" "exn + SignatureStatus option"
  | Sleep nat
  | GetBlockHeight Connection "string option" "exn + int"
  | ConfirmTransaction Connection string int string string "exn + unit"
  | JitoPost string "exn + string option"
  | LoadBankMetadatas "exn + (string \<times> string) list"
  | BankFetchMultiple "PublicKey list" "exn + BankRaw option list"
  | BankAll PublicKey "exn + (PublicKey \<times> BankRaw) list"
  | GetMultipleAccountsInfo "PublicKey list" "string option" "exn + AccountInfo option list"
  | GetAddressLookupTable Connection PublicKey "exn + AddressLookupTableAccount option"

record env =
  rpc_getLatestBlockhashAndContext :: "event list \<Rightarrow> Connection \<Rightarrow> exn + BlockhashAndContext"
  rpc_getLatestBlockhash :: "event list \<Rightarrow> Connection \<Rightarrow> exn + BlockhashAndContext"
  rpc_simulateTransaction ::
    "event list \<Rightarrow> Connection \<Rightarrow> VersionedTransaction \<Rightarrow> sim_arg \<Rightarrow> exn + SimulatedResponse"
  wallet_signTransaction :: "event list \<Rightarrow> VersionedTransaction \<Rightarrow> exn + VersionedTransaction"
  rpc_sendTransaction ::
    "event list \<Rightarrow> Connection \<Rightarrow> VersionedTransaction \<Rightarrow> SendOptions \<Rightarrow> exn + string"
  rpc_sendRawTransaction :: "event list \<Rightarrow> Connection \<Rightarrow> string \<Rightarrow> SendOptions \<Rightarrow> exn + string"
  rpc_getSignatureStatus ::
    "event list \<Rightarrow> Connection \<Rightarrow> string option \<Rightarrow> bool option \<Rightarrow> exn + SignatureStatus option"
  rpc_getBlockHeight :: "event list \<Rightarrow> Connection \<Rightarrow> string option \<Rightarrow> exn + int"
  rpc_confirmTransaction ::
    "event list \<Rightarrow> Connection \<Rightarrow> string \<Rightarrow> int \<Rightarrow> string \<Rightarrow> string \<Rightarrow> exn + unit"
  jito_post :: "event list \<Rightarrow> string \<Rightarrow> exn + string option"
  http_loadBankMetadatas :: "event list \<Rightarrow> exn + (string \<times> string) list"
  rpc_bankFetchMultiple :: "event list \<Rightarrow> PublicKey list \<Rightarrow> exn + BankRaw option list"
  rpc_bankAll :: "event list \<Rightarrow> PublicKey \<Rightarrow> exn + (PublicKey \<times> BankRaw) list"
  rpc_getMultipleAccountsInfo ::
    "event list \<Rightarrow> PublicKey list \<Rightarrow> string option \<Rightarrow> exn + AccountInfo option list"
  rpc_getAddressLookupTable ::
    "event list \<Rightarrow> Connection \<Rightarrow> PublicKey \<Rightarrow> exn + AddressLookupTableAccount option"


subsection \<open>Library functions the client calls\<close>

text \<open>
  Functions of web3.js, anchor and the sibling modules (\<open>./errors\<close>, \<open>./models\<close>,
  \<open>@mrgnlabs/mrgn-common\<close>) are parameters; those that can throw return a sum.
  \<open>encoding_length m\<close> is the number of bytes the wire encoding of the message \<open>m\<close>
  takes (see \<open>message_serialize\<close> below), \<open>account_keys_length m luts\<close> is
  \<open>message.getAccountKeys({addressLookupTableAccounts: luts}).length\<close>,
  \<open>default_signatures m\<close> the placeholder signatures of \<open>new VersionedTransaction(m)\<close>,
  \<open>parseErrorFromLogs\<close> yields the \<open>description\<close> of the parsed error or \<open>None\<close> for
  \<open>null\<close>, \<open>String_of_error\<close> is JavaScript's \<open>String(error)\<close>, \<open>message_of_undefined\<close> is
  the message of a \<open>ProcessTransactionError\<close> constructed with the message \<open>undefined\<close>
  (the class is in \<open>./errors\<close>). The two instruction builders of the relay path take
  the amounts as the caller gave them (the products with \<open>LAMPORTS_PER_SOL\<close> are
  floating-point and stay inside the parameter); both throw on an amount they cannot
  encode, a negative one for instance.
\<close>

record lib =
  compileToV0Message ::
    "PublicKey \<Rightarrow> TransactionInstruction list \<Rightarrow> string \<Rightarrow> AddressLookupTableAccount list
      \<Rightarrow> exn + string"
  default_signatures :: "string \<Rightarrow> string list"
  sign :: "VersionedTransaction \<Rightarrow> Signer list \<Rightarrow> exn + VersionedTransaction"
  encoding_length :: "string \<Rightarrow> nat"
  account_keys_length :: "string \<Rightarrow> AddressLookupTableAccount list option \<Rightarrow> nat"
  serialize_transaction :: "VersionedTransaction \<Rightarrow> string"
  bs58_encode :: "string \<Rightarrow> string"
  base64_decode :: "string \<Rightarrow> string"
  parseErrorFromLogs :: "string list \<Rightarrow> PublicKey \<Rightarrow> string option"
  JSON_stringify :: "TransactionError \<Rightarrow> string"
  String_of_error :: "exn \<Rightarrow> string"
  message_of_undefined :: string
  DEFAULT_CONFIRM_OPTS :: TransactionOptions
  AnchorProvider_defaultOptions :: TransactionOptions
  setComputeUnitPrice :: "real \<Rightarrow> exn + TransactionInstruction"
  tip_transfer :: "PublicKey \<Rightarrow> real \<Rightarrow> exn + TransactionInstruction"
  ADDRESS_LOOKUP_TABLE_FOR_GROUP :: "string \<Rightarrow> PublicKey list option"
  MarginfiGroup_fromBuffer :: "PublicKey \<Rightarrow> string \<Rightarrow> exn + string"
  Bank_fromAccountParsed :: "PublicKey \<Rightarrow> BankRaw \<Rightarrow> string option \<Rightarrow> exn + string"
  parseOracleSetup :: "string \<Rightarrow> exn + string"
  parsePriceInfo :: "string \<Rightarrow> string \<Rightarrow> exn + string"

subsection \<open>The client object\<close>

record MarginfiConfig =
  environment :: string
  cluster :: string
  programId :: PublicKey
  groupPk :: PublicKey

text \<open>
  An \<open>AnchorProvider\<close> holds its connection, its options and the wallet, whose public key
  is \<open>provider.publicKey\<close>; a \<open>Program\<close> holds its provider.
\<close>

record AnchorProvider =
  connection :: Connection
  opts :: TransactionOptions
  publicKey :: PublicKey

record MarginfiProgram =
  program_programId :: PublicKey
  provider :: AnchorProvider

text \<open>A JavaScript \<open>Map\<close> with string keys: its entries in insertion order.\<close>

type_synonym 'v js_map = "(string \<times> 'v) list"

record MarginfiClient =
  config :: MarginfiConfig
  program :: MarginfiProgram
  wallet :: PublicKey
  isReadOnly :: bool
  group :: string
  banks :: "string js_map"
  oraclePrices :: "string js_map"
  addressLookupTables :: "AddressLookupTableAccount list"
  preloadedBankAddresses :: "PublicKey list option"
  bankMetadataMap :: "(string \<times> string) list option"
  sendEndpoint :: "string option"
  spamSendTx :: bool
  skipPreflightInSpam :: bool

record 't state =
  this :: 't
  trace :: "event list"

definition emit :: "event \<Rightarrow> 't state \<Rightarrow> 't state" where
  "emit ev st = st\<lparr>trace := trace st @ [ev]\<rparr>"

text \<open>
  \<open>new Connection(endpoint, opts)\<close> throws a \<open>TypeError\<close> unless the endpoint matches
  \<open>/^https?:/\<close>; the object it constructs keeps the endpoint and the commitment of the
  options. The \<open>rpcEndpoint\<close> of a connection is the endpoint it was constructed with, so
  a connection constructed from the \<open>rpcEndpoint\<close> of another one is \<open>Connection_at\<close>.
\<close>

definition endpoint_ok :: "string \<Rightarrow> bool" where
  "endpoint_ok endpoint = (take 5 endpoint = ''http:'' \<or> take 6 endpoint = ''https:'')"

definition Connection_at :: "string \<Rightarrow> TransactionOptions \<Rightarrow> Connection" where
  "Connection_at endpoint os = \<lparr>rpcEndpoint = endpoint, conn_commitment = commitment os\<rparr>"

definition endpoint_error :: exn where
  "endpoint_error =
     Error (''Endpoint URL must start with '' @ [CHR 0x60] @ ''http:'' @ [CHR 0x60] @ '' or '' @
            [CHR 0x60] @ ''https:'' @ [CHR 0x60] @ ''.'')"

definition new_Connection :: "string \<Rightarrow> TransactionOptions \<Rightarrow> exn + Connection" where
  "new_Connection endpoint os =
     (if endpoint_ok endpoint then Inr (Connection_at endpoint os) else Inl endpoint_error)"

text \<open>
  \<open>message.serialize()\<close>, of which the client reads the length: web3.js encodes the
  message into a buffer of 1232 bytes (\<open>PACKET_DATA_SIZE\<close>) and throws a \<open>RangeError\<close> when
  the encoding takes more.
\<close>

definition message_serialize :: "lib \<Rightarrow> string \<Rightarrow> exn + nat" where
  "message_serialize lb m =
     (if 1232 < encoding_length lb m then Inl (Error ''encoding overruns Uint8Array'')
      else Inr (encoding_length lb m))"

subsection \<open>One definition per external call\<close>

definition getLatestBlockhashAndContext ::
  "env \<Rightarrow> Connection \<Rightarrow> 't state \<Rightarrow> (exn + BlockhashAndContext) \<times> 't state" where
  "getLatestBlockhashAndContext env c st =
     (let r = rpc_getLatestBlockhashAndContext env (trace st) c
      in (r, emit (GetLatestBlockhashAndContext c r) st))"

definition getLatestBlockhash ::
  "env \<Rightarrow> Connection \<Rightarrow> 't state \<Rightarrow> (exn + BlockhashAndContext) \<times> 't state" where
  "getLatestBlockhash env c st =
     (let r = rpc_getLatestBlockhash env (trace st) c in (r, emit (GetLatestBlockhash c r) st))"

definition connection_simulateTransaction ::
  "env \<Rightarrow> Connection \<Rightarrow> VersionedTransaction \<Rightarrow> sim_arg \<Rightarrow> 't state
    \<Rightarrow> (exn + SimulatedResponse) \<times> 't state" where
  "connection_simulateTransaction env c vtx a st =
     (let r = rpc_simulateTransaction env (trace st) c vtx a
      in (r, emit (SimulateTransaction c vtx a r) st))"

definition wallet_sign ::
  "env \<Rightarrow> VersionedTransaction \<Rightarrow> 't state \<Rightarrow> (exn + VersionedTransaction) \<times> 't state" where
  "wallet_sign env vtx st =
     (let r = wallet_signTransaction env (trace st) vtx in (r, emit (WalletSignTransaction vtx r) st))"

definition sendTransaction ::
  "env \<Rightarrow> Connection \<Rightarrow> VersionedTransaction \<Rightarrow> SendOptions \<Rightarrow> 't state \<Rightarrow> (exn + string) \<times> 't state"
  where
  "sendTransaction env c vtx so st =
     (let r = rpc_sendTransaction env (trace st) c vtx so in (r, emit (SendTransaction c vtx so r) st))"

definition sendRawTransaction ::
  "env \<Rightarrow> Connection \<Rightarrow> string \<Rightarrow> SendOptions \<Rightarrow> 't state \<Rightarrow> (exn + string) \<times> 't state" where
  "sendRawTransaction env c raw so st =
     (let r = rpc_sendRawTransaction env (trace st) c raw so
      in (r, emit (SendRawTransaction c raw so r) st))"

definition getSignatureStatus ::
  "env \<Rightarrow> Connection \<Rightarrow> string option \<Rightarrow> bool option \<Rightarrow> 't state
    \<Rightarrow> (exn + SignatureStatus option) \<times> 't state" where
  "getSignatureStatus env c sg search st =
     (let r = rpc_getSignatureStatus env (trace st) c sg search
      in (r, emit (GetSignatureStatus c sg search r) st))"

definition sleep :: "nat \<Rightarrow> 't state \<Rightarrow> 't state" where
  "sleep ms st = emit (Sleep ms) st"

definition getBlockHeight ::
  "env \<Rightarrow> Connection \<Rightarrow> string option \<Rightarrow> 't state \<Rightarrow> (exn + int) \<times> 't state" where
  "getBlockHeight env c cm st =
     (let r = rpc_getBlockHeight env (trace st) c cm in (r, emit (GetBlockHeight c cm r) st))"

definition confirmTransaction ::
  "env \<Rightarrow> Connection \<Rightarrow> string \<Rightarrow> int \<Rightarrow> string \<Rightarrow> string \<Rightarrow> 't state \<Rightarrow> (exn + unit) \<times> 't state"
  where
  "confirmTransaction env c bh lvbh sg cm st =
     (let r = rpc_confirmTransaction env (trace st) c bh lvbh sg cm
      in (r, emit (ConfirmTransaction c bh lvbh sg cm r) st))"

definition axios_post :: "env \<Rightarrow> string \<Rightarrow> 't state \<Rightarrow> (exn + string option) \<times> 't state" where
  "axios_post env encodedTx st =
     (let r = jito_post env (trace st) encodedTx in (r, emit (JitoPost encodedTx r) st))"

definition loadBankMetadatas :: "env \<Rightarrow> 't state \<Rightarrow> (exn + (string \<times> string) list) \<times> 't state" where
  "loadBankMetadatas env st =
     (let r = http_loadBankMetadatas env (trace st) in (r, emit (LoadBankMetadatas r) st))"

definition bank_fetchMultiple ::
  "env \<Rightarrow> PublicKey list \<Rightarrow> 't state \<Rightarrow> (exn + BankRaw option list) \<times> 't state" where
  "bank_fetchMultiple env addrs st =
     (let r = rpc_bankFetchMultiple env (trace st) addrs in (r, emit (BankFetchMultiple addrs r) st))"

definition bank_all ::
  "env \<Rightarrow> PublicKey \<Rightarrow> 't state \<Rightarrow> (exn + (PublicKey \<times> BankRaw) list) \<times> 't state" where
  "bank_all env g st = (let r = rpc_bankAll env (trace st) g in (r, emit (BankAll g r) st))"

definition getMultipleAccountsInfo ::
  "env \<Rightarrow> PublicKey list \<Rightarrow> string option \<Rightarrow> 't state \<Rightarrow> (exn + AccountInfo option list) \<times> 't state"
  where
  "getMultipleAccountsInfo env keys cm st =
     (let r = rpc_getMultipleAccountsInfo env (trace st) keys cm
      in (r, emit (GetMultipleAccountsInfo keys cm r) st))"

definition getAddressLookupTable ::
  "env \<Rightarrow> Connection \<Rightarrow> PublicKey \<Rightarrow> 't state
    \<Rightarrow> (exn + AddressLookupTableAccount option) \<times> 't state" where
  "getAddressLookupTable env c a st =
     (let r = rpc_getAddressLookupTable env (trace st) c a
      in (r, emit (GetAddressLookupTable c a r) st))"


subsection \<open>Option merging and the error handler shared by the submission methods\<close>

text \<open>Object spread \<open>{...base, ...over}\<close>: a field present in \<open>over\<close> wins.\<close>

definition field_or :: "'a option \<Rightarrow> 'a option \<Rightarrow> 'a option" where
  "field_or over base = (case over of Some x \<Rightarrow> Some x | None \<Rightarrow> base)"

definition spread_opts :: "TransactionOptions \<Rightarrow> TransactionOptions option \<Rightarrow> TransactionOptions"
  where
  "spread_opts base over =
     (case over of
        None \<Rightarrow> base
      | Some p \<Rightarrow>
          \<lparr>dryRun = field_or (dryRun p) (dryRun base),
           skipPreflight = field_or (skipPreflight p) (skipPreflight base),
           commitment = field_or (commitment p) (commitment base),
           preflightCommitment = field_or (preflightCommitment p) (preflightCommitment base),
           maxRetries = field_or (maxRetries p) (maxRetries base),
           minContextSlot = field_or (minContextSlot p) (minContextSlot base)\<rparr>)"

text \<open>
  \<open>{...DEFAULT_CONFIRM_OPTS, commitment: connection.commitment ?? DEFAULT_CONFIRM_OPTS.commitment,
  preflightCommitment: (the same), minContextSlot, ...opts}\<close>
\<close>

definition mergedOpts ::
  "lib \<Rightarrow> Connection \<Rightarrow> int \<Rightarrow> TransactionOptions option \<Rightarrow> TransactionOptions" where
  "mergedOpts lb c mcs os =
     spread_opts
       ((DEFAULT_CONFIRM_OPTS lb)
          \<lparr>commitment := field_or (conn_commitment c) (commitment (DEFAULT_CONFIRM_OPTS lb)),
           preflightCommitment := field_or (conn_commitment c) (commitment (DEFAULT_CONFIRM_OPTS lb)),
           minContextSlot := Some mcs\<rparr>)
       os"

text \<open>\<open>opts ?? { minContextSlot, sigVerify: false }\<close>\<close>

definition sim_arg_of :: "TransactionOptions option \<Rightarrow> int \<Rightarrow> sim_arg" where
  "sim_arg_of os mcs =
     (case os of
        Some p \<Rightarrow> PassedOpts p
      | None \<Rightarrow> Config \<lparr>sc_minContextSlot = Some mcs, sc_sigVerify = Some False, sc_accounts = None\<rparr>)"

text \<open>
  \<open>if (response.value.err) throw new SendTransactionError(JSON.stringify(response.value.err),
  response.value.logs ?? [])\<close>: the exception to throw, if any.
\<close>

definition simulation_failure :: "lib \<Rightarrow> SimulatedResponse \<Rightarrow> exn option" where
  "simulation_failure lb response =
     (case sim_err response of
        None \<Rightarrow> None
      | Some err \<Rightarrow>
          if truthy_err (Some err)
          then Some (SendTransactionError (JSON_stringify lb err)
                       (Some (case sim_logs response of None \<Rightarrow> [] | Some ls \<Rightarrow> ls)))
          else None)"

text \<open>
  \<open>throw new ProcessTransactionError(error.message, type)\<close> in a \<open>catch (error: any)\<close>
  block: the exception that leaves the block, which is the \<open>TypeError\<close> of the read when
  \<open>error\<close> is \<open>undefined\<close> or \<open>null\<close>.
\<close>

definition rethrow :: "lib \<Rightarrow> ProcessTransactionErrorType \<Rightarrow> exn \<Rightarrow> exn" where
  "rethrow lb type error =
     (case read_message error of
        Inl type_error \<Rightarrow> type_error
      | Inr None \<Rightarrow> ProcessTransactionError (message_of_undefined lb) type None
      | Inr (Some m) \<Rightarrow> ProcessTransactionError m type None)"

text \<open>
  The \<open>catch (error)\<close> block that ends \<open>processTransaction\<close> and \<open>sendAndConfirmTransaction\<close>
  and wraps the simulation of \<open>signTranscationJito\<close>: the exception it throws in place
  of the one caught. An array of logs is truthy even when empty.
\<close>

fun catch_send :: "lib \<Rightarrow> PublicKey \<Rightarrow> exn \<Rightarrow> exn" where
  "catch_send lb pid (SendTransactionError m (Some logs)) =
     ProcessTransactionError
       (case parseErrorFromLogs lb logs pid of Some description \<Rightarrow> description | None \<Rightarrow> m)
       SimulationError (Some logs)"
| "catch_send lb pid error = rethrow lb FallthroughError error"

subsection \<open>The spam-mode send/poll loop\<close>

text \<open>
  \<open>processTransaction\<close> and \<open>sendAndConfirmTransaction\<close> contain the same loop twice; the
  two copies differ in the options of the send, in the confirmation statuses that end
  the polling, in the value given to \<open>status\<close> then, and in the sleep between polls.
\<close>

record spam_cfg =
  spam_sendOptions :: SendOptions
  spam_targets :: "TransactionConfirmationStatus list"
  spam_label :: string
  spam_sleep :: nat

definition processTransaction_spam :: spam_cfg where
  "processTransaction_spam =
     \<lparr>spam_sendOptions =
        \<lparr>so_skipPreflight = None, so_preflightCommitment = None, so_maxRetries = Some 0\<rparr>,
      spam_targets = [finalized],
      spam_label = ''finalized'',
      spam_sleep = 200\<rparr>"

definition sendAndConfirmTransaction_spam :: spam_cfg where
  "sendAndConfirmTransaction_spam =
     \<lparr>spam_sendOptions =
        \<lparr>so_skipPreflight = Some True, so_preflightCommitment = None, so_maxRetries = Some 0\<rparr>,
      spam_targets = [processed, confirmed, finalized],
      spam_label = ''processed'',
      spam_sleep = 400\<rparr>"

text \<open>\<open>signatureStatus.value?.confirmationStatus === t\<close> for one of the targets \<open>t\<close>.\<close>

definition reached :: "TransactionConfirmationStatus list \<Rightarrow> SignatureStatus option \<Rightarrow> bool" where
  "reached targets v =
     (case v of
        None \<Rightarrow> False
      | Some s \<Rightarrow> (case confirmationStatus s of None \<Rightarrow> False | Some c \<Rightarrow> c \<in> set targets))"

text \<open>
  \<open>for (let i = 0; i < 5; i++) { ... }\<close> with \<open>n = 5 - i\<close> attempts left: the value of
  \<open>status\<close> after the loop, or the exception of a status query.
\<close>

fun sub_poll ::
  "env \<Rightarrow> spam_cfg \<Rightarrow> Connection \<Rightarrow> string \<Rightarrow> nat \<Rightarrow> string \<Rightarrow> 't state \<Rightarrow> (exn + string) \<times> 't state"
  where
  "sub_poll env cfg c signature 0 status st = (Inr status, st)"
| "sub_poll env cfg c signature (Suc n) status st =
     (case getSignatureStatus env c (Some signature) (Some False) st of
        (Inl e, st1) \<Rightarrow> (Inl e, st1)
      | (Inr signatureStatus, st1) \<Rightarrow>
          if reached (spam_targets cfg) signatureStatus then (Inr (spam_label cfg), st1)
          else sub_poll env cfg c signature n status (sleep (spam_sleep cfg) st1))"

text \<open>
  The message of the expiry error; the source spells it with a dagger (U+2020) for the
  first letter of "the", three bytes in UTF-8.
\<close>

definition timeout_message :: string where
  "timeout_message =
     ''Transaction was not confirmed within '' @ [CHR 0xE2, CHR 0x80, CHR 0xA0] @ ''he alloted time''"

text \<open>
  One pass through the body of \<open>while (true) { ... }\<close>: send, poll, read the block
  height, compare it with \<open>lastValidBlockHeight\<close>, and only then look at \<open>status\<close>. The
  pass ends the loop with a signature (\<open>break\<close>, then \<open>return signature\<close>), throws, or
  goes round again with the value of \<open>status\<close>.
\<close>

datatype iteration = Break string | Throw exn | Continue string

definition spam_iteration ::
  "env \<Rightarrow> spam_cfg \<Rightarrow> Connection \<Rightarrow> Connection \<Rightarrow> VersionedTransaction \<Rightarrow> int \<Rightarrow> string
    \<Rightarrow> 't state \<Rightarrow> iteration \<times> 't state" where
  "spam_iteration env cfg sendConnection c vtx lvbh status st =
     (case sendTransaction env sendConnection vtx (spam_sendOptions cfg) st of
        (Inl e, st1) \<Rightarrow> (Throw e, st1)
      | (Inr signature, st1) \<Rightarrow>
          (case sub_poll env cfg c signature 5 status st1 of
             (Inl e, st2) \<Rightarrow> (Throw e, st2)
           | (Inr status', st2) \<Rightarrow>
               (case getBlockHeight env c None st2 of
                  (Inl e, st3) \<Rightarrow> (Throw e, st3)
                | (Inr blockHeight, st3) \<Rightarrow>
                    if blockHeight > lvbh
                    then (Throw (ProcessTransactionError timeout_message TimeoutError None), st3)
                    else if status' = spam_label cfg then (Break signature, st3)
                    else (Continue status', st3))))"

text \<open>
  The loop has no bound of its own: \<open>fuel\<close> counts the iterations allowed, and \<open>None\<close>
  says that they were used up before the loop ended.
\<close>

fun spam_loop ::
  "nat \<Rightarrow> env \<Rightarrow> spam_cfg \<Rightarrow> Connection \<Rightarrow> Connection \<Rightarrow> VersionedTransaction \<Rightarrow> int \<Rightarrow> string
    \<Rightarrow> 't state \<Rightarrow> ((exn + string) \<times> 't state) option" where
  "spam_loop 0 env cfg sendConnection c vtx lvbh status st = None"
| "spam_loop (Suc fuel) env cfg sendConnection c vtx lvbh status st =
     (case spam_iteration env cfg sendConnection c vtx lvbh status st of
        (Throw e, st') \<Rightarrow> Some (Inl e, st')
      | (Break signature, st') \<Rightarrow> Some (Inr signature, st')
      | (Continue status', st') \<Rightarrow> spam_loop fuel env cfg sendConnection c vtx lvbh status' st')"

subsection \<open>\<open>processTransaction\<close>\<close>

text \<open>
  \<open>this.sendEndpoint ? new Connection(this.sendEndpoint, this.provider.opts) : connection\<close>;
  an empty string is falsy. \<open>new_sendConnection\<close> is the expression, which throws on an
  endpoint that is no http(s) URL; \<open>send_connection\<close> is the connection it yields when it
  does not throw.
\<close>

definition new_sendConnection :: "MarginfiClient \<Rightarrow> Connection \<Rightarrow> exn + Connection" where
  "new_sendConnection cl c =
     (case sendEndpoint cl of
        None \<Rightarrow> Inr c
      | Some ep \<Rightarrow> if ep = [] then Inr c else new_Connection ep (opts (provider (program cl))))"

definition send_connection :: "MarginfiClient \<Rightarrow> Connection \<Rightarrow> Connection" where
  "send_connection cl c =
     (case sendEndpoint cl of
        None \<Rightarrow> c
      | Some ep \<Rightarrow> if ep = [] then c else Connection_at ep (opts (provider (program cl))))"

text \<open>
  \<open>connection_args ? connection_args : new Connection(rpcEndpoint, this.provider.opts)\<close>,
  the endpoint being that of the provider's connection.
\<close>

definition pick_connection :: "MarginfiClient \<Rightarrow> Connection option \<Rightarrow> Connection" where
  "pick_connection cl connection_args =
     (case connection_args of
        Some c \<Rightarrow> c
      | None \<Rightarrow>
          Connection_at (rpcEndpoint (connection (provider (program cl))))
            (opts (provider (program cl))))"

text \<open>
  Compiling a legacy \<open>Transaction\<close> into a versioned one with lookup tables \<open>luts\<close>; a
  \<open>VersionedTransaction\<close> is taken as it is.
\<close>

definition to_versioned ::
  "lib \<Rightarrow> PublicKey \<Rightarrow> string \<Rightarrow> AddressLookupTableAccount list \<Rightarrow> transaction
    \<Rightarrow> exn + VersionedTransaction" where
  "to_versioned lb payer bh luts tx =
     (case tx of
        Versioned v \<Rightarrow> Inr v
      | Transaction instructions \<Rightarrow>
          (case compileToV0Message lb payer instructions bh luts of
             Inl e \<Rightarrow> Inl e
           | Inr m \<Rightarrow> Inr \<lparr>message = m, signatures = default_signatures lb m\<rparr>))"

text \<open>
  The first \<open>try\<close> block: the blockhash snapshot, the compiled transaction, the local
  signatures. It yields \<open>(minContextSlot, blockhash, lastValidBlockHeight, transaction)\<close>.
\<close>

definition processTransaction_build ::
  "lib \<Rightarrow> env \<Rightarrow> Connection \<Rightarrow> transaction \<Rightarrow> Signer list option \<Rightarrow> MarginfiClient state
    \<Rightarrow> (exn + int \<times> string \<times> int \<times> VersionedTransaction) \<times> MarginfiClient state" where
  "processTransaction_build lb env c tx signers st =
     (case getLatestBlockhashAndContext env c st of
        (Inl e, st1) \<Rightarrow> (Inl e, st1)
      | (Inr r, st1) \<Rightarrow>
          (case to_versioned lb (publicKey (provider (program (this st1)))) (blockhash r)
                  (addressLookupTables (this st1)) tx of
             Inl e \<Rightarrow> (Inl e, st1)
           | Inr vtx \<Rightarrow>
               (case signers of
                  None \<Rightarrow> (Inr (slot r - 4, blockhash r, lastValidBlockHeight r, vtx), st1)
                | Some ss \<Rightarrow>
                    (case sign lb vtx ss of
                       Inl e \<Rightarrow> (Inl e, st1)
                     | Inr vtx' \<Rightarrow>
                         (Inr (slot r - 4, blockhash r, lastValidBlockHeight r, vtx'), st1)))))"

text \<open>\<open>opts?.dryRun\<close>\<close>

definition wants_dryRun :: "TransactionOptions option \<Rightarrow> bool" where
  "wants_dryRun os = (case os of None \<Rightarrow> False | Some p \<Rightarrow> dryRun p = Some True)"

text \<open>
  The optional simulation before the spam loop:
  \<open>if (this.skipPreflightInSpam) { simulate; if (err) throw SendTransactionError }\<close>.
\<close>

definition spam_precheck ::
  "lib \<Rightarrow> env \<Rightarrow> Connection \<Rightarrow> VersionedTransaction \<Rightarrow> TransactionOptions option \<Rightarrow> int
    \<Rightarrow> MarginfiClient state \<Rightarrow> (exn + unit) \<times> MarginfiClient state" where
  "spam_precheck lb env c vtx os mcs st =
     (if skipPreflightInSpam (this st)
      then (case connection_simulateTransaction env c vtx (sim_arg_of os mcs) st of
              (Inl e, st1) \<Rightarrow> (Inl e, st1)
            | (Inr response, st1) \<Rightarrow>
                (case simulation_failure lb response of
                   Some e \<Rightarrow> (Inl e, st1)
                 | None \<Rightarrow> (Inr (), st1)))
      else (Inr (), st))"

text \<open>
  The second \<open>try\<close> block: a dry run, or the wallet signature followed by the spam loop
  or by a single send and \<open>confirmTransaction\<close>. The dry run serializes the message for
  the inspector link before it looks at the error of the simulation, and returns the
  first signature as a string; reading it from an empty array throws a \<open>TypeError\<close>.
\<close>

definition processTransaction_send ::
  "lib \<Rightarrow> env \<Rightarrow> nat \<Rightarrow> Connection \<Rightarrow> Connection \<Rightarrow> TransactionOptions option \<Rightarrow> int \<Rightarrow> string \<Rightarrow> int
    \<Rightarrow> VersionedTransaction \<Rightarrow> MarginfiClient state
    \<Rightarrow> ((exn + string) \<times> MarginfiClient state) option" where
  "processTransaction_send lb env fuel c sendConnection os mcs bh lvbh vtx st =
     (if wants_dryRun os \<or> isReadOnly (this st)
      then (case connection_simulateTransaction env c vtx (sim_arg_of os mcs) st of
              (Inl e, st1) \<Rightarrow> Some (Inl e, st1)
            | (Inr response, st1) \<Rightarrow>
                (case message_serialize lb (message vtx) of
                   Inl e \<Rightarrow> Some (Inl e, st1)
                 | Inr n \<Rightarrow>
                     (case simulation_failure lb response of
                        Some e \<Rightarrow> Some (Inl e, st1)
                      | None \<Rightarrow>
                          (case signatures vtx of
                             [] \<Rightarrow> Some (Inl (Error ''Cannot read properties of undefined''), st1)
                           | s # rest \<Rightarrow> Some (Inr s, st1)))))
      else (case wallet_sign env vtx st of
              (Inl e, st1) \<Rightarrow> Some (Inl e, st1)
            | (Inr vtx', st1) \<Rightarrow>
                if spamSendTx (this st1)
                then (case spam_precheck lb env c vtx' os mcs st1 of
                        (Inl e, st2) \<Rightarrow> Some (Inl e, st2)
                      | (Inr u, st2) \<Rightarrow>
                          spam_loop fuel env processTransaction_spam sendConnection c vtx' lvbh
                            ''pending'' st2)
                else (case sendTransaction env c vtx'
                             \<lparr>so_skipPreflight = skipPreflight (mergedOpts lb c mcs os),
                              so_preflightCommitment = preflightCommitment (mergedOpts lb c mcs os),
                              so_maxRetries = maxRetries (mergedOpts lb c mcs os)\<rparr> st1 of
                        (Inl e, st2) \<Rightarrow> Some (Inl e, st2)
                      | (Inr signature, st2) \<Rightarrow>
                          (case confirmTransaction env c bh lvbh signature ''finalized'' st2 of
                             (Inl e, st3) \<Rightarrow> Some (Inl e, st3)
                           | (Inr u, st3) \<Rightarrow> Some (Inr signature, st3)))))"

text \<open>
  The two \<open>try\<close> blocks with their \<open>catch\<close> blocks, for the connections \<open>connection\<close> and
  \<open>sendConnection\<close> as constructed before the first \<open>try\<close>.
\<close>

definition processTransaction ::
  "lib \<Rightarrow> env \<Rightarrow> nat \<Rightarrow> transaction \<Rightarrow> Signer list option \<Rightarrow> TransactionOptions option
    \<Rightarrow> Connection option \<Rightarrow> MarginfiClient state
    \<Rightarrow> ((exn + string) \<times> MarginfiClient state) option" where
  "processTransaction lb env fuel tx signers os connection_args st =
     (let c = pick_connection (this st) connection_args;
          sendConnection = send_connection (this st) c
      in case processTransaction_build lb env c tx signers st of
           (Inl error, st1) \<Rightarrow>
             Some (Inl (rethrow lb TransactionBuildingError error), st1)
         | (Inr (mcs, bh, lvbh, vtx), st1) \<Rightarrow>
             (case processTransaction_send lb env fuel c sendConnection os mcs bh lvbh vtx st1 of
                None \<Rightarrow> None
              | Some (Inl error, st2) \<Rightarrow>
                  Some (Inl (catch_send lb (programId (config (this st2))) error), st2)
              | Some (Inr signature, st2) \<Rightarrow> Some (Inr signature, st2)))"

text \<open>
  The whole method: the construction of \<open>sendConnection\<close> stands before the first \<open>try\<close>,
  so that what it throws reaches the caller as it is.
\<close>

definition MarginfiClient_processTransaction ::
  "lib \<Rightarrow> env \<Rightarrow> nat \<Rightarrow> transaction \<Rightarrow> Signer list option \<Rightarrow> TransactionOptions option
    \<Rightarrow> Connection option \<Rightarrow> MarginfiClient state
    \<Rightarrow> ((exn + string) \<times> MarginfiClient state) option" where
  "MarginfiClient_processTransaction lb env fuel tx signers os connection_args st =
     (case new_sendConnection (this st) (pick_connection (this st) connection_args) of
        Inl e \<Rightarrow> Some (Inl e, st)
      | Inr sendConnection \<Rightarrow> processTransaction lb env fuel tx signers os connection_args st)"

subsection \<open>\<open>signTransaction\<close>\<close>

text \<open>
  Its first \<open>try\<close> block is that of \<open>processTransaction\<close> (of the snapshot only the
  blockhash is used); the second asks the wallet for its signature.
\<close>

definition signTransaction ::
  "lib \<Rightarrow> env \<Rightarrow> transaction \<Rightarrow> Signer list option \<Rightarrow> Connection option \<Rightarrow> MarginfiClient state
    \<Rightarrow> (exn + VersionedTransaction) \<times> MarginfiClient state" where
  "signTransaction lb env tx signers connectionArgs st =
     (case processTransaction_build lb env (pick_connection (this st) connectionArgs) tx signers st of
        (Inl error, st1) \<Rightarrow> (Inl (rethrow lb TransactionBuildingError error), st1)
      | (Inr (mcs, bh, lvbh, vtx), st1) \<Rightarrow>
          (case wallet_sign env vtx st1 of
             (Inl error, st2) \<Rightarrow> (Inl (rethrow lb FallthroughError error), st2)
           | (Inr signed, st2) \<Rightarrow> (Inr signed, st2)))"

subsection \<open>\<open>sendAndConfirmTransaction\<close>\<close>

text \<open>The body of its single \<open>try\<close> block.\<close>

definition sendAndConfirmTransaction_body ::
  "lib \<Rightarrow> env \<Rightarrow> nat \<Rightarrow> Connection \<Rightarrow> Connection \<Rightarrow> VersionedTransaction
    \<Rightarrow> TransactionOptions option \<Rightarrow> MarginfiClient state
    \<Rightarrow> ((exn + string) \<times> MarginfiClient state) option" where
  "sendAndConfirmTransaction_body lb env fuel c sendConnection vtx os st =
     (case getLatestBlockhashAndContext env c st of
        (Inl e, st1) \<Rightarrow> Some (Inl e, st1)
      | (Inr r, st1) \<Rightarrow>
          if spamSendTx (this st1)
          then (case spam_precheck lb env c vtx os (slot r - 4) st1 of
                  (Inl e, st2) \<Rightarrow> Some (Inl e, st2)
                | (Inr u, st2) \<Rightarrow>
                    spam_loop fuel env sendAndConfirmTransaction_spam sendConnection c vtx
                      (lastValidBlockHeight r) ''pending'' st2)
          else (case sendTransaction env c vtx
                       \<lparr>so_skipPreflight = None, so_preflightCommitment = Some ''processed'',
                        so_maxRetries = None\<rparr> st1 of
                  (Inl e, st2) \<Rightarrow> Some (Inl e, st2)
                | (Inr signature, st2) \<Rightarrow>
                    (case confirmTransaction env c (blockhash r) (lastValidBlockHeight r) signature
                            ''processed'' st2 of
                       (Inl e, st3) \<Rightarrow> Some (Inl e, st3)
                     | (Inr u, st3) \<Rightarrow> Some (Inr signature, st3))))"

text \<open>The \<open>try\<close> block with its \<open>catch\<close>, for the connections as constructed before it.\<close>

definition sendAndConfirmTransaction ::
  "lib \<Rightarrow> env \<Rightarrow> nat \<Rightarrow> VersionedTransaction \<Rightarrow> TransactionOptions option \<Rightarrow> Connection option
    \<Rightarrow> MarginfiClient state \<Rightarrow> ((exn + string) \<times> MarginfiClient state) option" where
  "sendAndConfirmTransaction lb env fuel vtx os connectionArgs st =
     (let c = pick_connection (this st) connectionArgs;
          sendConnection = send_connection (this st) c
      in case sendAndConfirmTransaction_body lb env fuel c sendConnection vtx os st of
           None \<Rightarrow> None
         | Some (Inl error, st1) \<Rightarrow>
             Some (Inl (catch_send lb (programId (config (this st1))) error), st1)
         | Some (Inr signature, st1) \<Rightarrow> Some (Inr signature, st1))"

text \<open>The whole method, with the construction of \<open>sendConnection\<close> before the \<open>try\<close>.\<close>

definition MarginfiClient_sendAndConfirmTransaction ::
  "lib \<Rightarrow> env \<Rightarrow> nat \<Rightarrow> VersionedTransaction \<Rightarrow> TransactionOptions option \<Rightarrow> Connection option
    \<Rightarrow> MarginfiClient state \<Rightarrow> ((exn + string) \<times> MarginfiClient state) option" where
  "MarginfiClient_sendAndConfirmTransaction lb env fuel vtx os connectionArgs st =
     (case new_sendConnection (this st) (pick_connection (this st) connectionArgs) of
        Inl e \<Rightarrow> Some (Inl e, st)
      | Inr sendConnection \<Rightarrow> sendAndConfirmTransaction lb env fuel vtx os connectionArgs st)"


subsection \<open>The relay path: \<open>signTranscationJito\<close> and \<open>sendAndConfirmTrancationJito\<close>\<close>

text \<open>
  \<open>tx.instructions\<close> after the \<open>unshift\<close> of the priority-fee instruction (when
  \<open>priorityFee\<close> is given and not zero) and the \<open>push\<close> of the tip transfer. The method
  extends the caller's own array; the model computes the extended list.
\<close>

definition jito_instructions ::
  "lib \<Rightarrow> PublicKey \<Rightarrow> real \<Rightarrow> real option \<Rightarrow> TransactionInstruction list
    \<Rightarrow> exn + TransactionInstruction list" where
  "jito_instructions lb payer jitoTip priorityFee instructions =
     (case (case priorityFee of
              None \<Rightarrow> Inr instructions
            | Some fee \<Rightarrow>
                if fee = 0 then Inr instructions
                else (case setComputeUnitPrice lb fee of
                        Inl e \<Rightarrow> Inl e
                      | Inr price \<Rightarrow> Inr (price # instructions))) of
        Inl e \<Rightarrow> Inl e
      | Inr with_fee \<Rightarrow>
          (case tip_transfer lb payer jitoTip of
             Inl e \<Rightarrow> Inl e
           | Inr tip \<Rightarrow> Inr (with_fee @ [tip])))"

text \<open>The method returns \<open>false\<close> or the signed transaction.\<close>

datatype jito_signed = ReturnedFalse | ReturnedTransaction VersionedTransaction

definition signTranscationJito ::
  "lib \<Rightarrow> env \<Rightarrow> real \<Rightarrow> TransactionInstruction list \<Rightarrow> AddressLookupTableAccount list option
    \<Rightarrow> real option \<Rightarrow> MarginfiClient state \<Rightarrow> (exn + jito_signed) \<times> MarginfiClient state" where
  "signTranscationJito lb env jitoTip instructions luts priorityFee st =
     (if jitoTip = 0 then (Inl (Error ''Jito bundle tip has not been set.''), st)
      else
        (case jito_instructions lb (publicKey (provider (program (this st)))) jitoTip priorityFee
                instructions of
           Inl e \<Rightarrow> (Inl e, st)
         | Inr ixs \<Rightarrow>
             (case getLatestBlockhashAndContext env (connection (provider (program (this st)))) st of
                (Inl e, st1) \<Rightarrow> (Inl e, st1)
              | (Inr r, st1) \<Rightarrow>
                  (case compileToV0Message lb (publicKey (provider (program (this st1)))) ixs
                          (blockhash r) (case luts of None \<Rightarrow> [] | Some ls \<Rightarrow> ls) of
                     Inl e \<Rightarrow> (Inl e, st1)
                   | Inr m \<Rightarrow>
                       (case message_serialize lb m of
                          Inl e \<Rightarrow> (Inl e, st1)
                        | Inr totalSize \<Rightarrow>
                            (let vTx = \<lparr>message = m, signatures = default_signatures lb m\<rparr>;
                                 totalKeys = account_keys_length lb m luts
                             in if totalSize > 1232 \<or> totalKeys \<ge> 64
                                then (Inr ReturnedFalse, st1)
                                else
                                  (case connection_simulateTransaction env
                                          (connection (provider (program (this st1)))) vTx
                                          (Config \<lparr>sc_minContextSlot = Some (slot r - 4),
                                                   sc_sigVerify = Some False,
                                                   sc_accounts = None\<rparr>) st1 of
                                     (Inl e, st2) \<Rightarrow>
                                       (Inl (catch_send lb (programId (config (this st2))) e), st2)
                                   | (Inr txSim, st2) \<Rightarrow>
                                       (case wallet_sign env vTx st2 of
                                          (Inl e, st3) \<Rightarrow>
                                            (Inl (rethrow lb FallthroughError e), st3)
                                        | (Inr signed, st3) \<Rightarrow>
                                            (case message_serialize lb (message signed) of
                                               Inl e \<Rightarrow>
                                                 (Inl (rethrow lb FallthroughError e), st3)
                                             | Inr n \<Rightarrow>
                                                 (Inr (ReturnedTransaction signed), st3))))))))))"

text \<open>
  The relay's answer \<open>response.data.result\<close> is untyped: \<open>None\<close> stands for
  \<open>undefined\<close>, which the template literal of the final error prints as such.
\<close>

definition not_confirmed_message :: "string option \<Rightarrow> string" where
  "not_confirmed_message txSig =
     ''Transaction '' @ (case txSig of None \<Rightarrow> ''undefined'' | Some s \<Rightarrow> s) @ '' was not confirmed''"

definition confirmed_status :: "SignatureStatus option \<Rightarrow> bool" where
  "confirmed_status v = reached [processed, confirmed, finalized] v"

text \<open>
  \<open>while (currentBlockHeight < recentBlockhash.lastValidBlockHeight) { ... }\<close> followed by
  the final \<open>throw\<close>; \<open>fuel\<close> bounds the iterations as in the spam loop.
\<close>

fun jito_loop ::
  "nat \<Rightarrow> env \<Rightarrow> Connection \<Rightarrow> string \<Rightarrow> string option \<Rightarrow> int \<Rightarrow> int \<Rightarrow> 't state
    \<Rightarrow> ((exn + string option) \<times> 't state) option" where
  "jito_loop 0 env c rawTx txSig lvbh currentBlockHeight st = None"
| "jito_loop (Suc fuel) env c rawTx txSig lvbh currentBlockHeight st =
     (if currentBlockHeight < lvbh
      then (case sendRawTransaction env c rawTx
                   \<lparr>so_skipPreflight = Some True, so_preflightCommitment = conn_commitment c,
                    so_maxRetries = Some 0\<rparr> st of
              (Inl e, st1) \<Rightarrow> Some (Inl e, st1)
            | (Inr txSigHash, st1) \<Rightarrow>
                (case getSignatureStatus env c txSig None st1 of
                   (Inl e, st2) \<Rightarrow> Some (Inl e, st2)
                 | (Inr signatureStatus, st2) \<Rightarrow>
                     (case getBlockHeight env c (conn_commitment c) st2 of
                        (Inl e, st3) \<Rightarrow> Some (Inl e, st3)
                      | (Inr h, st3) \<Rightarrow>
                          if confirmed_status signatureStatus then Some (Inr txSig, st3)
                          else jito_loop fuel env c rawTx txSig lvbh h (sleep 500 st3))))
      else Some (Inl (Error (not_confirmed_message txSig)), st))"

definition sendAndConfirmTrancationJito ::
  "lib \<Rightarrow> env \<Rightarrow> nat \<Rightarrow> VersionedTransaction \<Rightarrow> MarginfiClient state
    \<Rightarrow> ((exn + string option) \<times> MarginfiClient state) option" where
  "sendAndConfirmTrancationJito lb env fuel tx st =
     (let rawTx = serialize_transaction lb tx;
          c = connection (provider (program (this st)))
      in case getLatestBlockhash env c st of
           (Inl e, st1) \<Rightarrow> Some (Inl e, st1)
         | (Inr recentBlockhash, st1) \<Rightarrow>
             (case axios_post env (bs58_encode lb rawTx) st1 of
                (Inl e, st2) \<Rightarrow> Some (Inl (Error ''Jito Bundle Error: cannot send.''), st2)
              | (Inr txSig, st2) \<Rightarrow>
                  (case getBlockHeight env c (conn_commitment c) st2 of
                     (Inl e, st3) \<Rightarrow> Some (Inl e, st3)
                   | (Inr currentBlockHeight, st3) \<Rightarrow>
                       jito_loop fuel env c rawTx txSig (lastValidBlockHeight recentBlockhash)
                         currentBlockHeight st3)))"

subsection \<open>\<open>simulateTransaction\<close>\<close>

text \<open>
  \<open>response.value.accounts?.map((a) => (a ? Buffer.from(a.data[0], "base64") : null)) ?? []\<close>;
  \<open>Buffer.from(undefined, ...)\<close> throws when \<open>data\<close> is empty.
\<close>

fun decode_accounts :: "lib \<Rightarrow> SimulatedAccount option list \<Rightarrow> exn + string option list" where
  "decode_accounts lb [] = Inr []"
| "decode_accounts lb (None # rest) =
     (case decode_accounts lb rest of Inl e \<Rightarrow> Inl e | Inr bs \<Rightarrow> Inr (None # bs))"
| "decode_accounts lb (Some a # rest) =
     (case acc_data a of
        [] \<Rightarrow> Inl (Error ''The first argument must be of type string'')
      | d # ds \<Rightarrow>
          (case decode_accounts lb rest of
             Inl e \<Rightarrow> Inl e
           | Inr bs \<Rightarrow> Inr (Some (base64_decode lb d) # bs)))"

text \<open>The body of the second \<open>try\<close> block, before its \<open>catch\<close> rewraps every exception.\<close>

definition simulateTransaction_body ::
  "lib \<Rightarrow> env \<Rightarrow> Connection \<Rightarrow> VersionedTransaction \<Rightarrow> PublicKey list \<Rightarrow> MarginfiClient state
    \<Rightarrow> (exn + string option list) \<times> MarginfiClient state" where
  "simulateTransaction_body lb env c vtx accountsToInspect st =
     (case connection_simulateTransaction env c vtx
             (Config \<lparr>sc_minContextSlot = None, sc_sigVerify = Some False,
                      sc_accounts = Some accountsToInspect\<rparr>) st of
        (Inl e, st1) \<Rightarrow> (Inl e, st1)
      | (Inr response, st1) \<Rightarrow>
          (case sim_err response of
             Some err \<Rightarrow>
               if truthy_err (Some err) then (Inl (Error (JSON_stringify lb err)), st1)
               else (case sim_accounts response of
                       None \<Rightarrow> (Inr [], st1)
                     | Some accs \<Rightarrow> (decode_accounts lb accs, st1))
           | None \<Rightarrow>
               (case sim_accounts response of
                  None \<Rightarrow> (Inr [], st1)
                | Some accs \<Rightarrow> (decode_accounts lb accs, st1))))"

definition simulateTransaction ::
  "lib \<Rightarrow> env \<Rightarrow> transaction \<Rightarrow> PublicKey list \<Rightarrow> MarginfiClient state
    \<Rightarrow> (exn + string option list) \<times> MarginfiClient state" where
  "simulateTransaction lb env tx accountsToInspect st =
     (let c = Connection_at (rpcEndpoint (connection (provider (program (this st)))))
                (opts (provider (program (this st))))
      in case getLatestBlockhashAndContext env c st of
           (Inl error, st1) \<Rightarrow> (Inl (rethrow lb TransactionBuildingError error), st1)
         | (Inr r, st1) \<Rightarrow>
             (case to_versioned lb (publicKey (provider (program (this st1)))) (blockhash r)
                     (addressLookupTables (this st1)) tx of
                Inl error \<Rightarrow> (Inl (rethrow lb TransactionBuildingError error), st1)
              | Inr vtx \<Rightarrow>
                  (case simulateTransaction_body lb env c vtx accountsToInspect st1 of
                     (Inl error, st2) \<Rightarrow> (Inl (Error (String_of_error lb error)), st2)
                   | (Inr buffers, st2) \<Rightarrow> (Inr buffers, st2))))"


subsection \<open>Loading the group: \<open>fetchGroupData\<close>, \<open>reload\<close>, the constructor and \<open>fetch\<close>\<close>

text \<open>\<open>map.set(k, v)\<close> and \<open>new Map(entries)\<close>.\<close>

fun map_set :: "string \<Rightarrow> 'v \<Rightarrow> 'v js_map \<Rightarrow> 'v js_map" where
  "map_set k v [] = [(k, v)]"
| "map_set k v ((k', v') # m) = (if k = k' then (k, v) # m else (k', v') # map_set k v m)"

definition new_Map :: "(string \<times> 'v) list \<Rightarrow> 'v js_map" where
  "new_Map entries = foldl (\<lambda>m (k, v). map_set k v m) [] entries"

text \<open>
  The \<open>for\<close> loop over \<open>bankAccountsData\<close> that pairs each fetched bank with
  \<open>bankAddresses[i]\<close>, which is \<open>undefined\<close> (\<open>None\<close>) beyond the end of the addresses.
\<close>

fun keyed_banks :: "PublicKey list \<Rightarrow> BankRaw option list \<Rightarrow> (PublicKey option \<times> BankRaw) list" where
  "keyed_banks addrs [] = []"
| "keyed_banks addrs (d # ds) =
     (let address = (case addrs of [] \<Rightarrow> None | a # as \<Rightarrow> Some a);
          rest = keyed_banks (tl addrs) ds
      in case d of None \<Rightarrow> rest | Some b \<Rightarrow> (address, b) # rest)"

definition undefined_toBase58 :: exn where
  "undefined_toBase58 = Error ''Cannot read properties of undefined (reading toBase58)''"

fun decode_banks ::
  "lib \<Rightarrow> (string \<times> string) list option \<Rightarrow> (PublicKey option \<times> BankRaw) list
    \<Rightarrow> exn + (string \<times> string) list" where
  "decode_banks lb meta [] = Inr []"
| "decode_banks lb meta ((address, data) # rest) =
     (case address of
        None \<Rightarrow> Inl undefined_toBase58
      | Some a \<Rightarrow>
          (case Bank_fromAccountParsed lb a data
                  (case meta of None \<Rightarrow> None | Some m \<Rightarrow> map_of m a) of
             Inl e \<Rightarrow> Inl e
           | Inr bank \<Rightarrow>
               (case decode_banks lb meta rest of
                  Inl e \<Rightarrow> Inl e
                | Inr bs \<Rightarrow> Inr ((a, bank) # bs))))"

text \<open>\<open>priceFeedAis[index]\<close>, \<open>undefined\<close> out of range and \<open>null\<close> for a missing account.\<close>

definition feed_at :: "AccountInfo option list \<Rightarrow> nat \<Rightarrow> AccountInfo option" where
  "feed_at feeds i = (if i < length feeds then feeds ! i else None)"

fun decode_prices ::
  "lib \<Rightarrow> AccountInfo option list \<Rightarrow> nat \<Rightarrow> (PublicKey option \<times> BankRaw) list
    \<Rightarrow> exn + (string \<times> string) list" where
  "decode_prices lb feeds index [] = Inr []"
| "decode_prices lb feeds index ((bankAddress, bankData) # rest) =
     (case feed_at feeds index of
        None \<Rightarrow>
          (case bankAddress of
             None \<Rightarrow> Inl undefined_toBase58
           | Some a \<Rightarrow> Inl (Error (''Failed to fetch price oracle account for bank '' @ a)))
      | Some priceDataRaw \<Rightarrow>
          (case parseOracleSetup lb (oracleSetup bankData) of
             Inl e \<Rightarrow> Inl e
           | Inr setup \<Rightarrow>
               (case bankAddress of
                  None \<Rightarrow> Inl undefined_toBase58
                | Some a \<Rightarrow>
                    (case parsePriceInfo lb setup (ai_data priceDataRaw) of
                       Inl e \<Rightarrow> Inl e
                     | Inr price \<Rightarrow>
                         (case decode_prices lb feeds (Suc index) rest of
                            Inl e \<Rightarrow> Inl e
                          | Inr ps \<Rightarrow> Inr ((a, price) # ps))))))"

text \<open>Bank discovery: the preloaded addresses when there are any, else every bank of the group.\<close>

definition discover_banks ::
  "env \<Rightarrow> PublicKey \<Rightarrow> PublicKey list option \<Rightarrow> 't state
    \<Rightarrow> (exn + (PublicKey option \<times> BankRaw) list) \<times> 't state" where
  "discover_banks env groupAddress bankAddresses st =
     (if (case bankAddresses of None \<Rightarrow> False | Some addrs \<Rightarrow> length addrs > 0)
      then (case bank_fetchMultiple env (case bankAddresses of None \<Rightarrow> [] | Some addrs \<Rightarrow> addrs) st of
              (Inl e, st1) \<Rightarrow> (Inl e, st1)
            | (Inr bankAccountsData, st1) \<Rightarrow>
                (Inr (keyed_banks (case bankAddresses of None \<Rightarrow> [] | Some addrs \<Rightarrow> addrs)
                        bankAccountsData), st1))
      else (case bank_all env groupAddress st of
              (Inl e, st1) \<Rightarrow> (Inl e, st1)
            | (Inr accounts, st1) \<Rightarrow> (Inr (map (\<lambda>(pk, raw). (Some pk, raw)) accounts), st1)))"

definition fetchGroupData ::
  "lib \<Rightarrow> env \<Rightarrow> MarginfiProgram \<Rightarrow> PublicKey \<Rightarrow> string option \<Rightarrow> PublicKey list option
    \<Rightarrow> (string \<times> string) list option \<Rightarrow> 't state
    \<Rightarrow> (exn + string \<times> string js_map \<times> string js_map) \<times> 't state" where
  "fetchGroupData lb env prog groupAddress cm bankAddresses meta st =
     (case discover_banks env groupAddress bankAddresses st of
        (Inl e, st1) \<Rightarrow> (Inl e, st1)
      | (Inr bankDatasKeyed, st1) \<Rightarrow>
          (case getMultipleAccountsInfo env
                  (groupAddress # map (\<lambda>(a, b). oracleKeys0 b) bankDatasKeyed) cm st1 of
             (Inl e, st2) \<Rightarrow> (Inl e, st2)
           | (Inr [], st2) \<Rightarrow> (Inl (Error ''Failed to fetch the on-chain group data''), st2)
           | (Inr (None # priceFeedAis), st2) \<Rightarrow>
               (Inl (Error ''Failed to fetch the on-chain group data''), st2)
           | (Inr (Some groupAi # priceFeedAis), st2) \<Rightarrow>
               (case MarginfiGroup_fromBuffer lb groupAddress (ai_data groupAi) of
                  Inl e \<Rightarrow> (Inl e, st2)
                | Inr marginfiGroup \<Rightarrow>
                    (case decode_banks lb meta bankDatasKeyed of
                       Inl e \<Rightarrow> (Inl e, st2)
                     | Inr bankEntries \<Rightarrow>
                         (case decode_prices lb priceFeedAis 0 bankDatasKeyed of
                            Inl e \<Rightarrow> (Inl e, st2)
                          | Inr priceEntries \<Rightarrow>
                              (Inr (marginfiGroup, new_Map bankEntries, new_Map priceEntries),
                               st2))))))"

definition reload :: "lib \<Rightarrow> env \<Rightarrow> MarginfiClient state \<Rightarrow> (exn + unit) \<times> MarginfiClient state" where
  "reload lb env st =
     (case fetchGroupData lb env (program (this st)) (groupPk (config (this st)))
             (conn_commitment (connection (provider (program (this st)))))
             (preloadedBankAddresses (this st)) None st of
        (Inl e, st1) \<Rightarrow> (Inl e, st1)
      | (Inr (marginfiGroup, bs, priceInfos), st1) \<Rightarrow>
          (Inr (),
           st1\<lparr>this := (this st1)\<lparr>group := marginfiGroup, banks := bs, oraclePrices := priceInfos\<rparr>\<rparr>))"

text \<open>
  The constructor. Its last two parameters have the default \<open>true\<close>, used when the
  argument is \<open>undefined\<close> (\<open>None\<close>); \<open>addressLookupTables ?? []\<close>.
\<close>

definition new_MarginfiClient ::
  "MarginfiConfig \<Rightarrow> MarginfiProgram \<Rightarrow> PublicKey \<Rightarrow> bool \<Rightarrow> string \<Rightarrow> string js_map
    \<Rightarrow> string js_map \<Rightarrow> AddressLookupTableAccount list option \<Rightarrow> PublicKey list option
    \<Rightarrow> (string \<times> string) list option \<Rightarrow> string option \<Rightarrow> bool option \<Rightarrow> bool option
    \<Rightarrow> MarginfiClient" where
  "new_MarginfiClient cfg prog w readOnly g bs priceInfos luts preloaded meta ep spam skip =
     \<lparr>config = cfg, program = prog, wallet = w, isReadOnly = readOnly,
      group = g, banks = bs, oraclePrices = priceInfos,
      addressLookupTables = (case luts of None \<Rightarrow> [] | Some ls \<Rightarrow> ls),
      preloadedBankAddresses = preloaded,
      bankMetadataMap = meta,
      sendEndpoint = ep,
      spamSendTx = (case spam of None \<Rightarrow> True | Some b \<Rightarrow> b),
      skipPreflightInSpam = (case skip of None \<Rightarrow> True | Some b \<Rightarrow> b)\<rparr>"

record MarginfiClientOptions =
  co_confirmOpts :: "TransactionOptions option"
  co_readOnly :: "bool option"
  co_sendEndpoint :: "string option"
  co_spamSendTx :: "bool option"
  co_skipPreflightInSpam :: "bool option"
  co_preloadedBankAddresses :: "PublicKey list option"

text \<open>\<open>clientOptions?.field\<close>\<close>

definition opt_field :: "('r \<Rightarrow> 'a option) \<Rightarrow> 'r option \<Rightarrow> 'a option" where
  "opt_field f r = (case r of None \<Rightarrow> None | Some x \<Rightarrow> f x)"

text \<open>
  The lookup tables of the group, fetched one address after the other (the source starts
  the requests together and awaits them all); a \<open>null\<close> table is dropped.
\<close>

fun fetch_lookup_tables ::
  "env \<Rightarrow> Connection \<Rightarrow> PublicKey list \<Rightarrow> 't state
    \<Rightarrow> (exn + AddressLookupTableAccount list) \<times> 't state" where
  "fetch_lookup_tables env c [] st = (Inr [], st)"
| "fetch_lookup_tables env c (a # as) st =
     (case getAddressLookupTable env c a st of
        (Inl e, st1) \<Rightarrow> (Inl e, st1)
      | (Inr table, st1) \<Rightarrow>
          (case fetch_lookup_tables env c as st1 of
             (Inl e, st2) \<Rightarrow> (Inl e, st2)
           | (Inr tables, st2) \<Rightarrow>
               (Inr (case table of None \<Rightarrow> tables | Some t \<Rightarrow> t # tables), st2)))"

definition fetch ::
  "lib \<Rightarrow> env \<Rightarrow> MarginfiConfig \<Rightarrow> PublicKey \<Rightarrow> Connection \<Rightarrow> MarginfiClientOptions option
    \<Rightarrow> 't state \<Rightarrow> (exn + MarginfiClient) \<times> 't state" where
  "fetch lb env cfg w c clientOptions st =
     (let readOnly = (case opt_field co_readOnly clientOptions of None \<Rightarrow> False | Some b \<Rightarrow> b);
          ep = opt_field co_sendEndpoint clientOptions;
          preloaded = opt_field co_preloadedBankAddresses clientOptions;
          spam = (case opt_field co_spamSendTx clientOptions of None \<Rightarrow> False | Some b \<Rightarrow> b);
          skip = (case opt_field co_skipPreflightInSpam clientOptions of
                    None \<Rightarrow> False | Some b \<Rightarrow> b);
          prov = \<lparr>connection = c,
                  opts = spread_opts
                           ((AnchorProvider_defaultOptions lb)
                              \<lparr>commitment :=
                                 field_or (conn_commitment c)
                                   (commitment (AnchorProvider_defaultOptions lb))\<rparr>)
                           (opt_field co_confirmOpts clientOptions),
                  publicKey = w\<rparr>;
          prog = \<lparr>program_programId = programId cfg, provider = prov\<rparr>;
          (loaded, st1) = loadBankMetadatas env st;
          meta = (case loaded of Inl e \<Rightarrow> None | Inr m \<Rightarrow> Some m)
      in case fetchGroupData lb env prog (groupPk cfg) (conn_commitment c) preloaded meta st1 of
           (Inl e, st2) \<Rightarrow> (Inl e, st2)
         | (Inr (marginfiGroup, bs, priceInfos), st2) \<Rightarrow>
             (case fetch_lookup_tables env c
                     (case ADDRESS_LOOKUP_TABLE_FOR_GROUP lb (groupPk cfg) of
                        None \<Rightarrow> [] | Some addrs \<Rightarrow> addrs) st2 of
                (Inl e, st3) \<Rightarrow> (Inl e, st3)
              | (Inr luts, st3) \<Rightarrow>
                  (Inr (new_MarginfiClient cfg prog w readOnly marginfiGroup bs priceInfos
                          (Some luts) preloaded meta ep (Some spam) (Some skip)), st3)))"


subsection \<open>Reading a trace\<close>

text \<open>
  The statements below speak about what a run did through the events it added to the
  trace: an observed block height above the limit, an observed confirmation status, a
  send, a wallet signature, a call answered by an exception.
\<close>

definition expired :: "int \<Rightarrow> event \<Rightarrow> bool" where
  "expired lvbh ev = (case ev of GetBlockHeight c cm (Inr h) \<Rightarrow> lvbh < h | _ \<Rightarrow> False)"

definition is_height :: "event \<Rightarrow> bool" where
  "is_height ev = (case ev of GetBlockHeight c cm r \<Rightarrow> True | _ \<Rightarrow> False)"

definition is_status_query :: "event \<Rightarrow> bool" where
  "is_status_query ev = (case ev of GetSignatureStatus c sg search r \<Rightarrow> True | _ \<Rightarrow> False)"

definition observed_status :: "TransactionConfirmationStatus list \<Rightarrow> event \<Rightarrow> bool" where
  "observed_status targets ev =
     (case ev of GetSignatureStatus c sg search (Inr v) \<Rightarrow> reached targets v | _ \<Rightarrow> False)"

definition is_send :: "event \<Rightarrow> bool" where
  "is_send ev =
     (case ev of
        SendTransaction c vtx so r \<Rightarrow> True
      | SendRawTransaction c raw so r \<Rightarrow> True
      | JitoPost tx r \<Rightarrow> True
      | _ \<Rightarrow> False)"

definition is_wallet_signature :: "event \<Rightarrow> bool" where
  "is_wallet_signature ev = (case ev of WalletSignTransaction vtx r \<Rightarrow> True | _ \<Rightarrow> False)"

definition is_simulation :: "event \<Rightarrow> bool" where
  "is_simulation ev = (case ev of SimulateTransaction c vtx a r \<Rightarrow> True | _ \<Rightarrow> False)"

text \<open>The exception an external call was answered with, if it was.\<close>

definition failure :: "event \<Rightarrow> exn option" where
  "failure ev =
     (case ev of
        GetLatestBlockhashAndContext c (Inl e) \<Rightarrow> Some e
      | GetLatestBlockhash c (Inl e) \<Rightarrow> Some e
      | SimulateTransaction c vtx a (Inl e) \<Rightarrow> Some e
      | WalletSignTransaction vtx (Inl e) \<Rightarrow> Some e
      | SendTransaction c vtx so (Inl e) \<Rightarrow> Some e
      | SendRawTransaction c raw so (Inl e) \<Rightarrow> Some e
      | GetSignatureStatus c sg search (Inl e) \<Rightarrow> Some e
      | GetBlockHeight c cm (Inl e) \<Rightarrow> Some e
      | ConfirmTransaction c bh lvbh sg cm (Inl e) \<Rightarrow> Some e
      | JitoPost tx (Inl e) \<Rightarrow> Some e
      | LoadBankMetadatas (Inl e) \<Rightarrow> Some e
      | BankFetchMultiple addrs (Inl e) \<Rightarrow> Some e
      | BankAll g (Inl e) \<Rightarrow> Some e
      | GetMultipleAccountsInfo keys cm (Inl e) \<Rightarrow> Some e
      | GetAddressLookupTable c a (Inl e) \<Rightarrow> Some e
      | _ \<Rightarrow> None)"

text \<open>The events a step added: \<open>st'\<close> continues \<open>st\<close> by \<open>evs\<close> and has the same client.\<close>

definition added :: "'t state \<Rightarrow> 't state \<Rightarrow> event list" where
  "added st st' = drop (length (trace st)) (trace st')"

text \<open>\<open>st'\<close> continues \<open>st\<close>: the same client object, and a trace that extends that of \<open>st\<close>.\<close>

definition continues :: "'t state \<Rightarrow> 't state \<Rightarrow> bool" where
  "continues st st' = (this st' = this st \<and> trace st' = trace st @ added st st')"

text \<open>The configuration a simulation was called with, and a snapshot a call fetched.\<close>

definition simulation_arg :: "event \<Rightarrow> sim_arg option" where
  "simulation_arg ev = (case ev of SimulateTransaction c vtx a r \<Rightarrow> Some a | _ \<Rightarrow> None)"

definition fetched_snapshot :: "event \<Rightarrow> BlockhashAndContext option" where
  "fetched_snapshot ev =
     (case ev of GetLatestBlockhashAndContext c (Inr snap) \<Rightarrow> Some snap | _ \<Rightarrow> None)"

text \<open>The transaction an event handed to the simulation, to the wallet or to the network.\<close>

definition handled_transaction :: "event \<Rightarrow> VersionedTransaction option" where
  "handled_transaction ev =
     (case ev of
        SimulateTransaction c vtx a r \<Rightarrow> Some vtx
      | WalletSignTransaction vtx r \<Rightarrow> Some vtx
      | SendTransaction c vtx so r \<Rightarrow> Some vtx
      | _ \<Rightarrow> None)"

subsection \<open>The lifetime of a client\<close>

text \<open>
  A client lives through a sequence of method calls, each starting in the state the
  previous one left. The results are dropped here; \<open>None\<close> is a loop out of fuel.
\<close>

datatype method_call =
    Call_reload
  | Call_processTransaction nat transaction "Signer list option" "TransactionOptions option"
      "Connection option"
  | Call_signTransaction transaction "Signer list option" "Connection option"
  | Call_sendAndConfirmTransaction nat VersionedTransaction "TransactionOptions option"
      "Connection option"
  | Call_signTranscationJito real "TransactionInstruction list"
      "AddressLookupTableAccount list option" "real option"
  | Call_sendAndConfirmTrancationJito nat VersionedTransaction
  | Call_simulateTransaction transaction "PublicKey list"

fun invoke :: "lib \<Rightarrow> env \<Rightarrow> method_call \<Rightarrow> MarginfiClient state \<Rightarrow> MarginfiClient state option"
  where
  "invoke lb env Call_reload st = Some (snd (reload lb env st))"
| "invoke lb env (Call_processTransaction fuel tx signers os ca) st =
     map_option snd (processTransaction lb env fuel tx signers os ca st)"
| "invoke lb env (Call_signTransaction tx signers ca) st =
     Some (snd (signTransaction lb env tx signers ca st))"
| "invoke lb env (Call_sendAndConfirmTransaction fuel vtx os ca) st =
     map_option snd (sendAndConfirmTransaction lb env fuel vtx os ca st)"
| "invoke lb env (Call_signTranscationJito jitoTip instructions luts priorityFee) st =
     Some (snd (signTranscationJito lb env jitoTip instructions luts priorityFee st))"
| "invoke lb env (Call_sendAndConfirmTrancationJito fuel vtx) st =
     map_option snd (sendAndConfirmTrancationJito lb env fuel vtx st)"
| "invoke lb env (Call_simulateTransaction tx accountsToInspect) st =
     Some (snd (simulateTransaction lb env tx accountsToInspect st))"

fun lifetime ::
  "lib \<Rightarrow> env \<Rightarrow> method_call list \<Rightarrow> MarginfiClient state \<Rightarrow> MarginfiClient state option" where
  "lifetime lb env [] st = Some st"
| "lifetime lb env (call # calls) st =
     (case invoke lb env call st of None \<Rightarrow> None | Some st1 \<Rightarrow> lifetime lb env calls st1)"

text \<open>Two client objects that differ at most in \<open>group\<close>, \<open>banks\<close> and \<open>oraclePrices\<close>.\<close>

definition same_but_group_data :: "MarginfiClient \<Rightarrow> MarginfiClient \<Rightarrow> bool" where
  "same_but_group_data cl cl' =
     (cl' = cl\<lparr>group := group cl', banks := banks cl', oraclePrices := oraclePrices cl'\<rparr>)"

subsection \<open>A library, networks and clients for the examples\<close>

definition no_opts :: TransactionOptions where
  "no_opts = \<lparr>dryRun = None, skipPreflight = None, commitment = None, preflightCommitment = None,
              maxRetries = None, minContextSlot = None\<rparr>"

text \<open>
  In \<open>lib0\<close> a message is the concatenation of its instructions; the encoding of the
  message \<open>''big''\<close> takes 1300 bytes, so that it does not serialize, and a message
  that begins with the instruction \<open>''wide''\<close> resolves 64 account keys. \<open>js_String\<close> is \<open>String(error)\<close>.
\<close>

fun js_String :: "exn \<Rightarrow> string" where
  "js_String (SendTransactionError m logs) = ''Error: '' @ m"
| "js_String (ProcessTransactionError m k logs) = ''Error: '' @ m"
| "js_String (Error m) = ''Error: '' @ m"
| "js_String (Nullish js_undefined) = ''undefined''"
| "js_String (Nullish js_null) = ''null''"
| "js_String (NonError m) = ''[object Object]''"

definition lib0 :: lib where
  "lib0 =
     \<lparr>compileToV0Message = (\<lambda>payer instructions bh luts. Inr (concat instructions)),
      default_signatures = (\<lambda>m. [''unsigned'']),
      sign = (\<lambda>vtx ss. Inr (vtx\<lparr>signatures := ss\<rparr>)),
      encoding_length = (\<lambda>m. if m = ''big'' then 1300 else 200),
      account_keys_length = (\<lambda>m luts. if take 4 m = ''wide'' then 64 else 10),
      serialize_transaction = message,
      bs58_encode = (\<lambda>raw. raw),
      base64_decode = (\<lambda>d. d),
      parseErrorFromLogs = (\<lambda>logs pid. if logs = [] then None else Some (hd logs)),
      JSON_stringify = (\<lambda>err. case err of ErrObject j \<Rightarrow> j | ErrString t \<Rightarrow> t),
      String_of_error = js_String,
      message_of_undefined = [],
      DEFAULT_CONFIRM_OPTS = no_opts\<lparr>skipPreflight := Some False, commitment := Some ''processed''\<rparr>,
      AnchorProvider_defaultOptions = no_opts\<lparr>commitment := Some ''processed''\<rparr>,
      setComputeUnitPrice =
        (\<lambda>fee. if fee < 0 then Inl (Error ''The value is out of range'') else Inr ''price''),
      tip_transfer =
        (\<lambda>payer tip. if tip < 0 then Inl (Error ''The value is out of range'') else Inr ''tip''),
      ADDRESS_LOOKUP_TABLE_FOR_GROUP = (\<lambda>g. if g = ''group'' then Some [''lut1''] else None),
      MarginfiGroup_fromBuffer = (\<lambda>a d. Inr d),
      Bank_fromAccountParsed = (\<lambda>a raw meta. Inr (bank_payload raw)),
      parseOracleSetup = (\<lambda>x. Inr x),
      parsePriceInfo = (\<lambda>setup d. Inr d)\<rparr>"

definition snapshot0 :: BlockhashAndContext where
  "snapshot0 = \<lparr>slot = 100, blockhash = ''hash'', lastValidBlockHeight = 50\<rparr>"

definition sim_ok :: SimulatedResponse where
  "sim_ok = \<lparr>sim_err = None, sim_logs = Some [], unitsConsumed = Some 10, sim_accounts = None\<rparr>"

definition bank0 :: BankRaw where
  "bank0 = \<lparr>oracleKeys0 = ''oracle'', oracleSetup = ''pyth'', bank_payload = ''bank''\<rparr>"

text \<open>
  \<open>env0\<close> answers every call, never reports a status for a signature, and has as block
  height the number of calls made so far; its group has one bank, whose data grows with
  the time of the fetch.
\<close>

definition env0 :: env where
  "env0 =
     \<lparr>rpc_getLatestBlockhashAndContext = (\<lambda>h c. Inr snapshot0),
      rpc_getLatestBlockhash = (\<lambda>h c. Inr snapshot0),
      rpc_simulateTransaction = (\<lambda>h c vtx a. Inr sim_ok),
      wallet_signTransaction = (\<lambda>h vtx. Inr (vtx\<lparr>signatures := [''walletsig'']\<rparr>)),
      rpc_sendTransaction = (\<lambda>h c vtx so. Inr ''sig''),
      rpc_sendRawTransaction = (\<lambda>h c raw so. Inr ''sig''),
      rpc_getSignatureStatus = (\<lambda>h c sg search. Inr None),
      rpc_getBlockHeight = (\<lambda>h c cm. Inr (int (length h))),
      rpc_confirmTransaction = (\<lambda>h c bh lvbh sg cm. Inr ()),
      jito_post = (\<lambda>h tx. Inr (Some ''jitosig'')),
      http_loadBankMetadatas = (\<lambda>h. Inr []),
      rpc_bankFetchMultiple = (\<lambda>h addrs. Inr (map (\<lambda>a. Some bank0) addrs)),
      rpc_bankAll =
        (\<lambda>h g. Inr [(''bank1'', bank0\<lparr>bank_payload := replicate (length h) CHR ''x''\<rparr>)]),
      rpc_getMultipleAccountsInfo = (\<lambda>h keys cm. Inr (map (\<lambda>k. Some \<lparr>ai_data = k\<rparr>) keys)),
      rpc_getAddressLookupTable = (\<lambda>h c a. Inr (Some a))\<rparr>"

definition config0 :: MarginfiConfig where
  "config0 = \<lparr>environment = ''production'', cluster = ''mainnet'', programId = ''MFv2'',
              groupPk = ''group''\<rparr>"

definition connection0 :: Connection where
  "connection0 = \<lparr>rpcEndpoint = ''https://rpc'', conn_commitment = None\<rparr>"

text \<open>The client that \<open>fetch\<close> builds from \<open>env0\<close> when it is given no options.\<close>

definition fetched0 :: MarginfiClient where
  "fetched0 =
     \<lparr>config = config0,
      program = \<lparr>program_programId = ''MFv2'',
                 provider = \<lparr>connection = connection0,
                              opts = no_opts\<lparr>commitment := Some ''processed''\<rparr>,
                              publicKey = ''wallet''\<rparr>\<rparr>,
      wallet = ''wallet'', isReadOnly = False, group = ''group'',
      banks = [(''bank1'', ''x'')], oraclePrices = [(''bank1'', ''oracle'')],
      addressLookupTables = [''lut1''], preloadedBankAddresses = None,
      bankMetadataMap = Some [], sendEndpoint = None,
      spamSendTx = False, skipPreflightInSpam = False\<rparr>"

text \<open>The same client in spam mode, without the simulation before the loop.\<close>

definition spam0 :: MarginfiClient where
  "spam0 = fetched0\<lparr>spamSendTx := True\<rparr>"

definition start :: "MarginfiClient \<Rightarrow> MarginfiClient state" where
  "start cl = \<lparr>this = cl, trace = []\<rparr>"

definition calls0 :: "method_call list" where
  "calls0 =
     [Call_signTransaction (Transaction [''ix'']) None None,
      Call_processTransaction 0 (Transaction [''ix'']) None None None]"

definition only_added :: "(event \<Rightarrow> bool) \<Rightarrow> 't state \<Rightarrow> 't state \<Rightarrow> bool" where
  "only_added P st st' = (continues st st' \<and> list_all P (added st st'))"

definition dry_opts :: TransactionOptions where
  "dry_opts = no_opts\<lparr>dryRun := Some True\<rparr>"

text \<open>The spam loop adds sends, status queries, sleeps and block-height reads only.\<close>

definition spam_event ::
  "spam_cfg \<Rightarrow> Connection \<Rightarrow> Connection \<Rightarrow> VersionedTransaction \<Rightarrow> event \<Rightarrow> bool" where
  "spam_event cfg sendConnection c vtx ev =
     (case ev of
        SendTransaction c' vtx' so r \<Rightarrow> c' = sendConnection \<and> vtx' = vtx \<and> so = spam_sendOptions cfg
      | GetSignatureStatus c' sg search r \<Rightarrow> c' = c \<and> sg \<noteq> None \<and> search = Some False
      | Sleep ms \<Rightarrow> ms = spam_sleep cfg
      | GetBlockHeight c' cm r \<Rightarrow> c' = c \<and> cm = None
      | _ \<Rightarrow> False)"

definition is_snapshot_fetch :: "event \<Rightarrow> bool" where
  "is_snapshot_fetch ev = (case ev of GetLatestBlockhashAndContext c r \<Rightarrow> True | _ \<Rightarrow> False)"

text \<open>An event that fetches no snapshot and, if it is a simulation, was configured by \<open>a\<close>.\<close>

definition simulates_with :: "sim_arg \<Rightarrow> event \<Rightarrow> bool" where
  "simulates_with a ev =
     (\<not> is_snapshot_fetch ev \<and> (case simulation_arg ev of None \<Rightarrow> True | Some a' \<Rightarrow> a' = a))"

text \<open>
  A run that fetched a snapshot first: its trace starts with the fetch, and every
  simulation after it was configured by \<open>f\<close> applied to the snapshot's slot minus 4.
\<close>

definition snapshot_then ::
  "(int \<Rightarrow> sim_arg) \<Rightarrow> Connection \<Rightarrow> event list \<Rightarrow> bool" where
  "snapshot_then f c evs =
     (case evs of
        [] \<Rightarrow> False
      | ev # rest \<Rightarrow>
          (case ev of
             GetLatestBlockhashAndContext c' (Inr snap) \<Rightarrow>
               c' = c \<and> list_all (simulates_with (f (slot snap - 4))) rest
           | GetLatestBlockhashAndContext c' (Inl e) \<Rightarrow> c' = c \<and> rest = []
           | _ \<Rightarrow> False))"

definition jito_sim_arg :: "int \<Rightarrow> sim_arg" where
  "jito_sim_arg mcs =
     Config \<lparr>sc_minContextSlot = Some mcs, sc_sigVerify = Some False, sc_accounts = None\<rparr>"

definition rpc0 :: Connection where
  "rpc0 = \<lparr>rpcEndpoint = ''https://rpc'', conn_commitment = Some ''processed''\<rparr>"

definition vtx0 :: VersionedTransaction where
  "vtx0 = \<lparr>message = ''ix'', signatures = [''unsigned'']\<rparr>"

definition status_finalized :: "SignatureStatus option" where
  "status_finalized = Some \<lparr>status_err = None, confirmationStatus = Some finalized\<rparr>"

definition env_final :: env where
  "env_final = env0\<lparr>rpc_getSignatureStatus := (\<lambda>h c sg search. Inr status_finalized)\<rparr>"

definition spam1 :: MarginfiClient where
  "spam1 = fetched0\<lparr>spamSendTx := True, skipPreflightInSpam := True\<rparr>"

definition sim_failed :: SimulatedResponse where
  "sim_failed =
     \<lparr>sim_err = Some (ErrObject ''InstructionError''), sim_logs = Some [''Program log: failed''],
      unitsConsumed = Some 5000, sim_accounts = Some [Some \<lparr>acc_data = [''AAAA'']\<rparr>]\<rparr>"

definition env_sim_failed :: env where
  "env_sim_failed = env0\<lparr>rpc_simulateTransaction := (\<lambda>h c vtx a. Inr sim_failed)\<rparr>"

text \<open>What \<open>simulateTransaction\<close> makes of a completed simulation.\<close>

definition simulation_outcome :: "lib \<Rightarrow> SimulatedResponse \<Rightarrow> exn + string option list" where
  "simulation_outcome lb response =
     (if truthy_err (sim_err response)
      then Inl (Error (String_of_error lb (Error (JSON_stringify lb (the (sim_err response))))))
      else case decode_accounts lb (case sim_accounts response of None \<Rightarrow> [] | Some accs \<Rightarrow> accs) of
             Inl e \<Rightarrow> Inl (Error (String_of_error lb e))
           | Inr buffers \<Rightarrow> Inr buffers)"

definition within_limits :: "lib \<Rightarrow> AddressLookupTableAccount list option \<Rightarrow> event \<Rightarrow> bool" where
  "within_limits lb luts ev =
     (\<not> is_send ev \<and>
      (case handled_transaction ev of
         None \<Rightarrow> True
       | Some vtx \<Rightarrow>
           encoding_length lb (message vtx) \<le> 1232 \<and>
           account_keys_length lb (message vtx) luts < 64))"

text \<open>
  What makes a submission method throw at an event: a call answered by an exception, a
  simulation whose response carries an error, a block height above the limit \<open>lvbh\<close>.
\<close>

definition raises :: "lib \<Rightarrow> int \<Rightarrow> event \<Rightarrow> exn option" where
  "raises lb lvbh ev =
     (case ev of
        SimulateTransaction c vtx a (Inr response) \<Rightarrow> simulation_failure lb response
      | GetBlockHeight c cm (Inr h) \<Rightarrow>
          if lvbh < h then Some (ProcessTransactionError timeout_message TimeoutError None)
          else None
      | _ \<Rightarrow> failure ev)"

text \<open>
  \<open>ends_with rs x evs\<close>: no event of \<open>evs\<close> before the last raises anything, and the last
  raises nothing or \<open>x\<close>. So an event that raises is the last one, and \<open>x\<close> is what it raised.
\<close>

fun ends_with :: "(event \<Rightarrow> exn option) \<Rightarrow> exn option \<Rightarrow> event list \<Rightarrow> bool" where
  "ends_with rs x [] = True"
| "ends_with rs x [ev] = (rs ev = None \<or> rs ev = x)"
| "ends_with rs x (ev # ev' # evs) = (rs ev = None \<and> ends_with rs x (ev' # evs))"

text \<open>The exception a result stands for, if any.\<close>

definition raised :: "exn + 'a \<Rightarrow> exn option" where
  "raised r = (case r of Inl e \<Rightarrow> Some e | Inr v \<Rightarrow> None)"

definition thrown :: "iteration \<Rightarrow> exn option" where
  "thrown out = (case out of Throw e \<Rightarrow> Some e | _ \<Rightarrow> None)"

definition surfaced :: "(event \<Rightarrow> exn option) \<Rightarrow> exn option \<Rightarrow> 't state \<Rightarrow> 't state \<Rightarrow> bool" where
  "surfaced rs x st st' = (continues st st' \<and> ends_with rs x (added st st'))"

text \<open>The expiry height of the snapshot a run fetched first.\<close>

definition snapshot_limit :: "event list \<Rightarrow> int" where
  "snapshot_limit evs =
     (case evs of
        GetLatestBlockhashAndContext c (Inr snap) # rest \<Rightarrow> lastValidBlockHeight snap
      | _ \<Rightarrow> 0)"

text \<open>The transaction \<open>vtx0\<close> with the signature of the wallet of the examples.\<close>

definition signed0 :: VersionedTransaction where
  "signed0 = vtx0\<lparr>signatures := [''walletsig'']\<rparr>"

text \<open>
  The calls of one pass through the spam loop, in their order. \<open>height_read\<close>: the pass
  ends with one read of the block height. \<open>polls\<close> with \<open>n\<close> attempts left: a status query
  for the signature, with \<open>searchTransactionHistory\<close> false; a query that fails ends the
  pass, a query that reports one of the targets is followed by the read of the height,
  any other by the sleep and the remaining attempts; no attempt left, the height is read.
  \<open>iteration_shape\<close>: the pass begins with the send of the transaction, with the options
  of the configuration; a send that fails ends the pass.
\<close>

fun height_read :: "Connection \<Rightarrow> event list \<Rightarrow> bool" where
  "height_read c [GetBlockHeight c' cm r] = (c' = c \<and> cm = None)"
| "height_read c evs = False"

definition slept :: "nat \<Rightarrow> event list \<Rightarrow> bool" where
  "slept ms evs = (case evs of Sleep ms' # rest \<Rightarrow> ms' = ms | _ \<Rightarrow> False)"

fun polls :: "spam_cfg \<Rightarrow> Connection \<Rightarrow> string \<Rightarrow> nat \<Rightarrow> event list \<Rightarrow> bool" where
  "polls cfg c sg 0 evs = height_read c evs"
| "polls cfg c sg (Suc n) (GetSignatureStatus c' sg' search (Inl e) # rest) =
     (c' = c \<and> sg' = Some sg \<and> search = Some False \<and> rest = [])"
| "polls cfg c sg (Suc n) (GetSignatureStatus c' sg' search (Inr v) # rest) =
     (c' = c \<and> sg' = Some sg \<and> search = Some False \<and>
      (if reached (spam_targets cfg) v then height_read c rest
       else slept (spam_sleep cfg) rest \<and> polls cfg c sg n (tl rest)))"
| "polls cfg c sg (Suc n) evs = False"

fun iteration_shape ::
  "spam_cfg \<Rightarrow> Connection \<Rightarrow> Connection \<Rightarrow> VersionedTransaction \<Rightarrow> event list \<Rightarrow> bool" where
  "iteration_shape cfg sc c vtx (SendTransaction c' vtx' so (Inl e) # rest) =
     (c' = sc \<and> vtx' = vtx \<and> so = spam_sendOptions cfg \<and> rest = [])"
| "iteration_shape cfg sc c vtx (SendTransaction c' vtx' so (Inr sg) # rest) =
     (c' = sc \<and> vtx' = vtx \<and> so = spam_sendOptions cfg \<and> polls cfg c sg 5 rest)"
| "iteration_shape cfg sc c vtx evs = False"

text \<open>
  The calls of a whole run in spam mode: those of the loop for one transaction, and
  besides them the fetch of the snapshot, the wallet signature and the simulation.
\<close>

definition spam_mode_event ::
  "spam_cfg \<Rightarrow> Connection \<Rightarrow> Connection \<Rightarrow> VersionedTransaction \<Rightarrow> event \<Rightarrow> bool" where
  "spam_mode_event cfg sendConnection c vtx ev =
     (spam_event cfg sendConnection c vtx ev \<or> is_snapshot_fetch ev \<or> is_wallet_signature ev \<or>
      is_simulation ev)"


definition no_send_no_poll :: "event \<Rightarrow> bool" where
  "no_send_no_poll ev = (\<not> is_send ev \<and> \<not> is_status_query ev)"

text \<open>The error of the expiry check.\<close>

definition timeout_error :: exn where
  "timeout_error = ProcessTransactionError timeout_message TimeoutError None"

text \<open>
  One pass of the loop of \<open>processTransaction\<close> in which no query reports a status, ended
  by a read of height \<open>h\<close>; and a network whose block height is already above the limit
  of \<open>snapshot0\<close>.
\<close>

definition unconfirmed_pass :: "int \<Rightarrow> event list" where
  "unconfirmed_pass h =
     SendTransaction rpc0 signed0 (spam_sendOptions processTransaction_spam) (Inr ''sig'') #
     concat (replicate 5 [GetSignatureStatus rpc0 (Some ''sig'') (Some False) (Inr None), Sleep 200]) @
     [GetBlockHeight rpc0 None (Inr h)]"

definition env_expired :: env where
  "env_expired = env0\<lparr>rpc_getBlockHeight := (\<lambda>h c cm. Inr 51)\<rparr>"








definition confirmation :: "event \<Rightarrow> bool" where
  "confirmation ev = observed_status [processed, confirmed, finalized] ev"

definition succeeded :: "event \<Rightarrow> bool" where
  "succeeded ev = (failure ev = None)"






text \<open>A transaction whose message resolves 64 account keys in \<open>lib0\<close> and takes 200 bytes.\<close>

definition wide_vtx :: VersionedTransaction where
  "wide_vtx = \<lparr>message = ''wide'', signatures = [''unsigned'']\<rparr>"

text \<open>
  The \<open>catch\<close> block that receives an exception: that of the first \<open>try\<close> block of
  \<open>processTransaction\<close>, which builds the transaction, or the one that ends either method.
\<close>

datatype catching = Building | Sending

text \<open>The \<open>message\<close> of a caught value, when it has one that can be read.\<close>

fun stated_message :: "exn \<Rightarrow> string option" where
  "stated_message (SendTransactionError m logs) = Some m"
| "stated_message (ProcessTransactionError m k logs) = Some m"
| "stated_message (Error m) = Some m"
| "stated_message (Nullish n) = None"
| "stated_message (NonError m) = m"

text \<open>
  The \<open>ProcessTransactionError\<close> a caught value with a message is thrown as: kind
  \<open>TransactionBuildingError\<close> from the first \<open>try\<close> block; otherwise kind \<open>SimulationError\<close>
  with the parsed description (else the message) and the logs for a
  \<open>SendTransactionError\<close> that carries logs, and kind \<open>FallthroughError\<close> with the message
  for any other value.
\<close>

fun typed_as :: "lib \<Rightarrow> PublicKey \<Rightarrow> catching \<Rightarrow> exn \<Rightarrow> string \<Rightarrow> exn" where
  "typed_as lb pid Building e m = ProcessTransactionError m TransactionBuildingError None"
| "typed_as lb pid Sending (SendTransactionError m' (Some logs)) m =
     ProcessTransactionError
       (case parseErrorFromLogs lb logs pid of None \<Rightarrow> m | Some description \<Rightarrow> description)
       SimulationError (Some logs)"
| "typed_as lb pid Sending e m = ProcessTransactionError m FallthroughError None"

definition typed_error :: "lib \<Rightarrow> PublicKey \<Rightarrow> catching \<Rightarrow> exn \<Rightarrow> exn option" where
  "typed_error lb pid k e = map_option (typed_as lb pid k e) (stated_message e)"

text \<open>
  The exception of a simulation that completed with an error: a
  \<open>SendTransactionError\<close> of the error as JSON, with the logs of the response (none: \<open>[]\<close>).
  An empty string is no error.
\<close>

fun reported_failure :: "lib \<Rightarrow> TransactionError option \<Rightarrow> string list option \<Rightarrow> exn option" where
  "reported_failure lb None logs = None"
| "reported_failure lb (Some (ErrString [])) logs = None"
| "reported_failure lb (Some err) logs =
     Some (SendTransactionError (JSON_stringify lb err)
             (Some (case logs of None \<Rightarrow> [] | Some ls \<Rightarrow> ls)))"

text \<open>
  What fails in a dry run once the simulation has answered: the serialization of a
  message of more than 1232 bytes, the reported error, the read of the first signature
  when there is none.
\<close>

definition dry_run_failure :: "lib \<Rightarrow> VersionedTransaction \<Rightarrow> SimulatedResponse \<Rightarrow> exn option" where
  "dry_run_failure lb vtx response =
     (if 1232 < encoding_length lb (message vtx) then Some (Error ''encoding overruns Uint8Array'')
      else if reported_failure lb (sim_err response) (sim_logs response) \<noteq> None
      then reported_failure lb (sim_err response) (sim_logs response)
      else if signatures vtx = [] then Some (Error ''Cannot read properties of undefined'')
      else None)"

text \<open>
  What fails in the first \<open>try\<close> block of \<open>processTransaction\<close> once the snapshot is
  fetched: compiling the instructions of a legacy transaction, or signing with the
  signers given.
\<close>

definition build_failure ::
  "lib \<Rightarrow> MarginfiClient \<Rightarrow> transaction \<Rightarrow> Signer list option \<Rightarrow> BlockhashAndContext \<Rightarrow> exn option"
  where
  "build_failure lb cl tx signers snap =
     (case tx of
        Transaction instructions \<Rightarrow>
          (case compileToV0Message lb (publicKey (provider (program cl))) instructions
                  (blockhash snap) (addressLookupTables cl) of
             Inl e \<Rightarrow> Some e
           | Inr m \<Rightarrow>
               (case signers of
                  None \<Rightarrow> None
                | Some ss \<Rightarrow>
                    (case sign lb \<lparr>message = m, signatures = default_signatures lb m\<rparr> ss of
                       Inl e \<Rightarrow> Some e
                     | Inr signed \<Rightarrow> None)))
      | Versioned v \<Rightarrow>
          (case signers of
             None \<Rightarrow> None
           | Some ss \<Rightarrow> (case sign lb v ss of Inl e \<Rightarrow> Some e | Inr signed \<Rightarrow> None)))"

text \<open>
  The step of a run that fails, with the \<open>catch\<close> block that receives its exception. The
  fetch of the snapshot stands in the \<open>try\<close> block of \<open>k\<close>, and \<open>build\<close> is what may fail
  between it and the next call; a simulation that completed fails as a dry run does
  (\<open>dry\<close>) or by the error it reports; a block height above \<open>lvbh\<close> is the expiry; any
  other call fails by the exception it was answered with.
\<close>

definition failing_step ::
  "lib \<Rightarrow> catching \<Rightarrow> (BlockhashAndContext \<Rightarrow> exn option) \<Rightarrow> bool \<Rightarrow> int \<Rightarrow> event
    \<Rightarrow> (catching \<times> exn) option" where
  "failing_step lb k build dry lvbh ev =
     (case ev of
        GetLatestBlockhashAndContext c (Inl e) \<Rightarrow> Some (k, e)
      | GetLatestBlockhashAndContext c (Inr snap) \<Rightarrow> map_option (Pair k) (build snap)
      | SimulateTransaction c vtx a (Inr response) \<Rightarrow>
          map_option (Pair Sending)
            (if dry then dry_run_failure lb vtx response
             else reported_failure lb (sim_err response) (sim_logs response))
      | GetBlockHeight c cm (Inr h) \<Rightarrow> if lvbh < h then Some (Sending, timeout_error) else None
      | _ \<Rightarrow> map_option (Pair Sending) (failure ev))"

text \<open>
  A run with the events \<open>evs\<close> and the result \<open>r\<close> in which nothing that fails is passed
  over and what fails is thrown typed: no step before the last fails; if the last does
  not fail either, the run returns; if it fails, the run throws, and what it throws is
  the typed error when the exception has a message.
\<close>

definition typed_outcome ::
  "lib \<Rightarrow> PublicKey \<Rightarrow> (event \<Rightarrow> (catching \<times> exn) option) \<Rightarrow> event list \<Rightarrow> exn + string \<Rightarrow> bool"
  where
  "typed_outcome lb pid step evs r =
     (list_all (\<lambda>ev. step ev = None) (butlast evs) \<and>
      (case (if evs = [] then None else step (last evs)) of
         None \<Rightarrow> raised r = None
       | Some (k, e) \<Rightarrow>
           (case typed_error lb pid k e of
              None \<Rightarrow> raised r \<noteq> None
            | Some e' \<Rightarrow> r = Inl e')))"

text \<open>\<open>opts?.dryRun || this.isReadOnly\<close>: the run only simulates.\<close>

definition simulates_only :: "MarginfiClient \<Rightarrow> TransactionOptions option \<Rightarrow> bool" where
  "simulates_only cl os =
     ((case os of None \<Rightarrow> False | Some p \<Rightarrow> dryRun p = Some True) \<or> isReadOnly cl)"

text \<open>
  The client has no send endpoint, or one that \<open>new Connection\<close> accepts: a URL that
  starts with \<open>http:\<close> or \<open>https:\<close>.
\<close>

definition sendEndpoint_accepted :: "MarginfiClient \<Rightarrow> bool" where
  "sendEndpoint_accepted cl =
     (case sendEndpoint cl of
        None \<Rightarrow> True
      | Some ep \<Rightarrow> ep = [] \<or> take 5 ep = ''http:'' \<or> take 6 ep = ''https:'')"

text \<open>
  A step from \<open>st\<close> to \<open>st'\<close> that stopped by \<open>x\<close>: none of its events but the last fails,
  and \<open>x\<close> is the failure of the last (\<open>None\<close> when it does not fail, or when there is no
  event).
\<close>

definition stopped_by :: "(event \<Rightarrow> 'b option) \<Rightarrow> 'b option \<Rightarrow> 't state \<Rightarrow> 't state \<Rightarrow> bool" where
  "stopped_by rs x st st' =
     (continues st st' \<and> list_all (\<lambda>ev. rs ev = None) (butlast (added st st')) \<and>
      (if added st st' = [] then None else rs (last (added st st'))) = x)"

text \<open>A network that does not answer the fetch of the snapshot.\<close>

definition env_down :: env where
  "env_down = env0\<lparr>rpc_getLatestBlockhashAndContext := (\<lambda>h c. Inl (Error ''fetch failed''))\<rparr>"

text \<open>A wallet that rejects with \<open>undefined\<close>, and a client with a send endpoint that is no URL.\<close>

definition env_rejecting :: env where
  "env_rejecting = env0\<lparr>wallet_signTransaction := (\<lambda>h vtx. Inl (Nullish js_undefined))\<rparr>"

definition misconfigured0 :: MarginfiClient where
  "misconfigured0 = fetched0\<lparr>sendEndpoint := Some ''localhost:8899''\<rparr>"

text \<open>
  The error of a simulation that failed with the logs of \<open>sim_failed\<close>, and a library whose
  compiler rejects every list of instructions.
\<close>

definition simulation_error0 :: exn where
  "simulation_error0 =
     ProcessTransactionError ''Program log: failed'' SimulationError (Some [''Program log: failed''])"

definition lib_uncompilable :: lib where
  "lib_uncompilable =
     lib0\<lparr>compileToV0Message := (\<lambda>payer instructions bh luts. Inl (Error ''cannot compile''))\<rparr>"

section \<open>Proofs\<close>

subsection \<open>Every operation only appends to the trace\<close>

lemma emit_this [simp]: "this (emit ev st) = this st"
  by (simp add: emit_def)

lemma emit_trace [simp]: "trace (emit ev st) = trace st @ [ev]"
  by (simp add: emit_def)

lemma sleep_this [simp]: "this (sleep ms st) = this st"
  by (simp add: sleep_def)

lemma sleep_trace [simp]: "trace (sleep ms st) = trace st @ [Sleep ms]"
  by (simp add: sleep_def)

lemma continuesI: "this st' = this st \<Longrightarrow> trace st' = trace st @ evs \<Longrightarrow> continues st st'"
  by (simp add: continues_def added_def)

lemma continues_this: "continues st st' \<Longrightarrow> this st' = this st"
  by (simp add: continues_def)

lemma continues_trace: "continues st st' \<Longrightarrow> trace st' = trace st @ added st st'"
  by (simp add: continues_def)

lemma added_append: "trace st' = trace st @ evs \<Longrightarrow> added st st' = evs"
  by (simp add: added_def)

lemma added_self [simp]: "added st st = []"
  by (simp add: added_def)

lemma continues_refl [simp]: "continues st st"
  by (rule continuesI [where evs = "[]"]) simp_all

lemma continues_trans: "continues st st1 \<Longrightarrow> continues st1 st2 \<Longrightarrow> continues st st2"
  unfolding continues_def added_def
  by (metis append.assoc append_eq_conv_conj)

lemma added_trans:
  "continues st st1 \<Longrightarrow> continues st1 st2 \<Longrightarrow> added st st2 = added st st1 @ added st1 st2"
  unfolding continues_def added_def
  by (metis append.assoc append_eq_conv_conj)

lemma continues_emit [simp]: "continues st (emit ev st)"
  by (rule continuesI [where evs = "[ev]"]) simp_all

lemma continues_from_emit: "continues (emit ev st) st' \<Longrightarrow> continues st st'"
  by (rule continues_trans [OF continues_emit])

lemma continues_from_sleep: "continues (sleep ms st) st' \<Longrightarrow> continues st st'"
  unfolding sleep_def by (rule continues_from_emit)

lemma continues_emit2: "continues st st1 \<Longrightarrow> continues st (emit ev st1)"
  by (erule continues_trans) simp

text \<open>Each external call answers from the history and records the call with its answer.\<close>

lemma getLatestBlockhashAndContext_eq:
  "getLatestBlockhashAndContext env c st = (r, st') \<longleftrightarrow>
     r = rpc_getLatestBlockhashAndContext env (trace st) c \<and>
     st' = emit (GetLatestBlockhashAndContext c r) st"
  by (auto simp: getLatestBlockhashAndContext_def Let_def)

lemma getLatestBlockhash_eq:
  "getLatestBlockhash env c st = (r, st') \<longleftrightarrow>
     r = rpc_getLatestBlockhash env (trace st) c \<and> st' = emit (GetLatestBlockhash c r) st"
  by (auto simp: getLatestBlockhash_def Let_def)

lemma connection_simulateTransaction_eq:
  "connection_simulateTransaction env c vtx a st = (r, st') \<longleftrightarrow>
     r = rpc_simulateTransaction env (trace st) c vtx a \<and>
     st' = emit (SimulateTransaction c vtx a r) st"
  by (auto simp: connection_simulateTransaction_def Let_def)

lemma wallet_sign_eq:
  "wallet_sign env vtx st = (r, st') \<longleftrightarrow>
     r = wallet_signTransaction env (trace st) vtx \<and> st' = emit (WalletSignTransaction vtx r) st"
  by (auto simp: wallet_sign_def Let_def)

lemma sendTransaction_eq:
  "sendTransaction env c vtx so st = (r, st') \<longleftrightarrow>
     r = rpc_sendTransaction env (trace st) c vtx so \<and> st' = emit (SendTransaction c vtx so r) st"
  by (auto simp: sendTransaction_def Let_def)

lemma sendRawTransaction_eq:
  "sendRawTransaction env c raw so st = (r, st') \<longleftrightarrow>
     r = rpc_sendRawTransaction env (trace st) c raw so \<and>
     st' = emit (SendRawTransaction c raw so r) st"
  by (auto simp: sendRawTransaction_def Let_def)

lemma getSignatureStatus_eq:
  "getSignatureStatus env c sg search st = (r, st') \<longleftrightarrow>
     r = rpc_getSignatureStatus env (trace st) c sg search \<and>
     st' = emit (GetSignatureStatus c sg search r) st"
  by (auto simp: getSignatureStatus_def Let_def)

lemma getBlockHeight_eq:
  "getBlockHeight env c cm st = (r, st') \<longleftrightarrow>
     r = rpc_getBlockHeight env (trace st) c cm \<and> st' = emit (GetBlockHeight c cm r) st"
  by (auto simp: getBlockHeight_def Let_def)

lemma confirmTransaction_eq:
  "confirmTransaction env c bh lvbh sg cm st = (r, st') \<longleftrightarrow>
     r = rpc_confirmTransaction env (trace st) c bh lvbh sg cm \<and>
     st' = emit (ConfirmTransaction c bh lvbh sg cm r) st"
  by (auto simp: confirmTransaction_def Let_def)

lemma axios_post_eq:
  "axios_post env tx st = (r, st') \<longleftrightarrow>
     r = jito_post env (trace st) tx \<and> st' = emit (JitoPost tx r) st"
  by (auto simp: axios_post_def Let_def)

lemma loadBankMetadatas_eq:
  "loadBankMetadatas env st = (r, st') \<longleftrightarrow>
     r = http_loadBankMetadatas env (trace st) \<and> st' = emit (LoadBankMetadatas r) st"
  by (auto simp: loadBankMetadatas_def Let_def)

lemma bank_fetchMultiple_eq:
  "bank_fetchMultiple env addrs st = (r, st') \<longleftrightarrow>
     r = rpc_bankFetchMultiple env (trace st) addrs \<and> st' = emit (BankFetchMultiple addrs r) st"
  by (auto simp: bank_fetchMultiple_def Let_def)

lemma bank_all_eq:
  "bank_all env g st = (r, st') \<longleftrightarrow>
     r = rpc_bankAll env (trace st) g \<and> st' = emit (BankAll g r) st"
  by (auto simp: bank_all_def Let_def)

lemma getMultipleAccountsInfo_eq:
  "getMultipleAccountsInfo env keys cm st = (r, st') \<longleftrightarrow>
     r = rpc_getMultipleAccountsInfo env (trace st) keys cm \<and>
     st' = emit (GetMultipleAccountsInfo keys cm r) st"
  by (auto simp: getMultipleAccountsInfo_def Let_def)

lemma getAddressLookupTable_eq:
  "getAddressLookupTable env c a st = (r, st') \<longleftrightarrow>
     r = rpc_getAddressLookupTable env (trace st) c a \<and>
     st' = emit (GetAddressLookupTable c a r) st"
  by (auto simp: getAddressLookupTable_def Let_def)

lemmas call_eqs =
  getLatestBlockhashAndContext_eq getLatestBlockhash_eq connection_simulateTransaction_eq
  wallet_sign_eq sendTransaction_eq sendRawTransaction_eq getSignatureStatus_eq getBlockHeight_eq
  confirmTransaction_eq axios_post_eq loadBankMetadatas_eq bank_fetchMultiple_eq bank_all_eq
  getMultipleAccountsInfo_eq getAddressLookupTable_eq

lemmas outcome_splits = prod.splits sum.splits option.splits if_splits list.splits

lemma call_continues:
  "getLatestBlockhashAndContext env c st = (r1, st') \<Longrightarrow> continues st st'"
  "getLatestBlockhash env c st = (r2, st') \<Longrightarrow> continues st st'"
  "connection_simulateTransaction env c vtx a st = (r3, st') \<Longrightarrow> continues st st'"
  "wallet_sign env vtx st = (r4, st') \<Longrightarrow> continues st st'"
  "sendTransaction env c vtx so st = (r5, st') \<Longrightarrow> continues st st'"
  "sendRawTransaction env c raw so st = (r6, st') \<Longrightarrow> continues st st'"
  "getSignatureStatus env c sg search st = (r7, st') \<Longrightarrow> continues st st'"
  "getBlockHeight env c cm st = (r8, st') \<Longrightarrow> continues st st'"
  "confirmTransaction env c bh lvbh sg' cm' st = (r9, st') \<Longrightarrow> continues st st'"
  "axios_post env tx st = (r10, st') \<Longrightarrow> continues st st'"
  "loadBankMetadatas env st = (r11, st') \<Longrightarrow> continues st st'"
  "bank_fetchMultiple env addrs st = (r12, st') \<Longrightarrow> continues st st'"
  "bank_all env g st = (r13, st') \<Longrightarrow> continues st st'"
  "getMultipleAccountsInfo env keys cm st = (r14, st') \<Longrightarrow> continues st st'"
  "getAddressLookupTable env c a' st = (r15, st') \<Longrightarrow> continues st st'"
  by (auto simp: call_eqs)

lemma sub_poll_continues:
  "sub_poll env cfg c sg n status st = (r, st') \<Longrightarrow> continues st st'"
proof (induction n arbitrary: st)
  case 0
  then show ?case by simp
next
  case (Suc n)
  then show ?case
    by (auto split: prod.splits sum.splits if_splits
        dest!: Suc.IH call_continues continues_from_sleep intro: continues_trans)
qed

lemma spam_iteration_continues:
  "spam_iteration env cfg sc c vtx lvbh status st = (out, st') \<Longrightarrow> continues st st'"
  unfolding spam_iteration_def
  by (auto split: prod.splits sum.splits if_splits
      dest!: sub_poll_continues call_continues intro: continues_trans)

lemma spam_loop_continues:
  "spam_loop fuel env cfg sc c vtx lvbh status st = Some (r, st') \<Longrightarrow> continues st st'"
proof (induction fuel arbitrary: st status)
  case 0
  then show ?case by simp
next
  case (Suc fuel)
  then show ?case
    by (auto split: prod.splits iteration.splits dest!: spam_iteration_continues Suc.IH
        intro: continues_trans)
qed

lemma spam_precheck_continues:
  "spam_precheck lb env c vtx os mcs st = (r, st') \<Longrightarrow> continues st st'"
  unfolding spam_precheck_def
  by (auto split: outcome_splits dest!: call_continues)

lemma processTransaction_build_continues:
  "processTransaction_build lb env c tx signers st = (r, st') \<Longrightarrow> continues st st'"
  unfolding processTransaction_build_def
  by (auto split: outcome_splits dest!: call_continues)

lemma processTransaction_send_continues:
  "processTransaction_send lb env fuel c sc os mcs bh lvbh vtx st = Some (r, st') \<Longrightarrow>
     continues st st'"
  unfolding processTransaction_send_def
  by (auto split: outcome_splits
      dest!: spam_precheck_continues spam_loop_continues call_continues
      intro: continues_trans)

lemma processTransaction_continues:
  "processTransaction lb env fuel tx signers os ca st = Some (r, st') \<Longrightarrow> continues st st'"
  unfolding processTransaction_def Let_def
  by (auto split: outcome_splits
      dest!: processTransaction_build_continues processTransaction_send_continues
      intro: continues_trans)

lemma signTransaction_continues:
  "signTransaction lb env tx signers ca st = (r, st') \<Longrightarrow> continues st st'"
  unfolding signTransaction_def
  by (auto split: outcome_splits
      dest!: processTransaction_build_continues call_continues intro: continues_trans)

lemma sendAndConfirmTransaction_body_continues:
  "sendAndConfirmTransaction_body lb env fuel c sc vtx os st = Some (r, st') \<Longrightarrow>
     continues st st'"
  unfolding sendAndConfirmTransaction_body_def
  by (auto split: outcome_splits
      dest!: spam_precheck_continues spam_loop_continues call_continues
      intro: continues_trans)

lemma sendAndConfirmTransaction_continues:
  "sendAndConfirmTransaction lb env fuel vtx os ca st = Some (r, st') \<Longrightarrow> continues st st'"
  unfolding sendAndConfirmTransaction_def Let_def
  by (auto split: outcome_splits dest!: sendAndConfirmTransaction_body_continues)

lemma signTranscationJito_continues:
  "signTranscationJito lb env jitoTip instructions luts priorityFee st = (r, st') \<Longrightarrow>
     continues st st'"
  unfolding signTranscationJito_def Let_def
  by (auto split: outcome_splits dest!: call_continues intro: continues_trans)

lemma jito_loop_continues:
  "jito_loop fuel env c rawTx txSig lvbh h st = Some (r, st') \<Longrightarrow> continues st st'"
proof (induction fuel arbitrary: st h)
  case 0
  then show ?case by simp
next
  case (Suc fuel)
  then show ?case
    by (auto split: outcome_splits dest!: Suc.IH call_continues continues_from_sleep
        intro: continues_trans)
qed

lemma sendAndConfirmTrancationJito_continues:
  "sendAndConfirmTrancationJito lb env fuel tx st = Some (r, st') \<Longrightarrow> continues st st'"
  unfolding sendAndConfirmTrancationJito_def Let_def
  by (auto split: outcome_splits dest!: jito_loop_continues call_continues
      intro: continues_trans)

lemma simulateTransaction_body_continues:
  "simulateTransaction_body lb env c vtx accs st = (r, st') \<Longrightarrow> continues st st'"
  unfolding simulateTransaction_body_def
  by (auto split: outcome_splits dest!: call_continues)

lemma simulateTransaction_continues:
  "simulateTransaction lb env tx accs st = (r, st') \<Longrightarrow> continues st st'"
  unfolding simulateTransaction_def Let_def
  by (auto split: outcome_splits dest!: simulateTransaction_body_continues call_continues
      intro: continues_trans)

lemma discover_banks_continues:
  "discover_banks env g addrs st = (r, st') \<Longrightarrow> continues st st'"
  unfolding discover_banks_def
  by (auto split: outcome_splits dest!: call_continues)

lemma fetchGroupData_continues:
  "fetchGroupData lb env prog g cm addrs meta st = (r, st') \<Longrightarrow> continues st st'"
  unfolding fetchGroupData_def
  by (auto split: outcome_splits dest!: discover_banks_continues call_continues
      intro: continues_trans)

subsection \<open>Evaluating the examples\<close>

lemmas call_defs =
  getLatestBlockhashAndContext_def getLatestBlockhash_def connection_simulateTransaction_def
  wallet_sign_def sendTransaction_def sendRawTransaction_def getSignatureStatus_def sleep_def
  getBlockHeight_def confirmTransaction_def axios_post_def loadBankMetadatas_def
  bank_fetchMultiple_def bank_all_def getMultipleAccountsInfo_def getAddressLookupTable_def
  emit_def

lemmas fixture_defs =
  lib0_def env0_def config0_def connection0_def snapshot0_def sim_ok_def bank0_def no_opts_def
  fetched0_def spam0_def start_def

lemmas fetch_defs =
  fetch_def fetchGroupData_def discover_banks_def opt_field_def new_Map_def
  new_MarginfiClient_def spread_opts_def field_or_def feed_at_def Let_def

lemmas processTransaction_defs =
  processTransaction_def processTransaction_build_def processTransaction_send_def
  pick_connection_def send_connection_def Connection_at_def to_versioned_def wants_dryRun_def
  sim_arg_of_def simulation_failure_def spam_precheck_def mergedOpts_def spread_opts_def
  field_or_def message_serialize_def rethrow_def Let_def

lemma fetch_run0:
  "fetch lib0 env0 config0 ''wallet'' connection0 None \<lparr>this = (), trace = []\<rparr> =
     (Inr fetched0,
      snd (fetch lib0 env0 config0 ''wallet'' connection0 None \<lparr>this = (), trace = []\<rparr>))"
  by (simp add: fetch_defs call_defs fixture_defs)

subsection \<open>What \<open>fetch\<close> passes to the constructor\<close>

lemma fetch_flags:
  assumes "fetch lb env cfg w c clientOptions st = (Inr cl, st')"
  shows "spamSendTx cl = (opt_field co_spamSendTx clientOptions = Some True)"
    and "skipPreflightInSpam cl = (opt_field co_skipPreflightInSpam clientOptions = Some True)"
    and "isReadOnly cl = (opt_field co_readOnly clientOptions = Some True)"
  using assms
  by (auto simp: fetch_def Let_def new_MarginfiClient_def
      split: prod.splits sum.splits option.splits)

lemma single_shot_send_needs_no_fuel:
  "\<not> spamSendTx (this st) \<Longrightarrow>
     processTransaction_send lb env 0 c sc os mcs bh lvbh vtx st \<noteq> None"
  unfolding processTransaction_send_def
  by (auto simp: call_eqs split: outcome_splits)

lemma single_shot_needs_no_fuel:
  assumes "\<not> spamSendTx (this st)"
  shows "processTransaction lb env 0 tx signers os ca st \<noteq> None"
proof (cases "processTransaction_build lb env (pick_connection (this st) ca) tx signers st")
  case (Pair r st1)
  then have "this st1 = this st"
    by (auto dest!: processTransaction_build_continues continues_this)
  with assms have "\<not> spamSendTx (this st1)" by simp
  with Pair show ?thesis
    unfolding processTransaction_def Let_def
    by (auto simp: single_shot_send_needs_no_fuel split: sum.splits prod.splits option.splits)
qed

text \<open>
  C10. A client built by \<open>fetch\<close> from options that leave out \<open>spamSendTx\<close> (or
  \<open>skipPreflightInSpam\<close>), or from no options at all, has that flag \<open>false\<close>, although
  the constructor's own default for both parameters is \<open>true\<close>; such a client sends
  once: \<open>processTransaction\<close> returns even when the spam loop is allowed no iteration.
\<close>

theorem fetch_defaults_to_single_shot:
  assumes "fetch lb env cfg w c clientOptions st = (Inr cl, st')"
  shows "(opt_field co_spamSendTx clientOptions = None \<longrightarrow> \<not> spamSendTx cl) \<and>
         (opt_field co_skipPreflightInSpam clientOptions = None \<longrightarrow> \<not> skipPreflightInSpam cl) \<and>
         spamSendTx (new_MarginfiClient cfg prog w ro g bs ps luts pre meta ep None None) \<and>
         skipPreflightInSpam (new_MarginfiClient cfg prog w ro g bs ps luts pre meta ep None None) \<and>
         (opt_field co_spamSendTx clientOptions = None \<longrightarrow>
            processTransaction lb' env' 0 tx signers os ca \<lparr>this = cl, trace = tr\<rparr> \<noteq> None)"
proof -
  have a: "opt_field co_spamSendTx clientOptions = None \<longrightarrow> \<not> spamSendTx cl"
    using fetch_flags(1) [OF assms] by simp
  have b: "opt_field co_skipPreflightInSpam clientOptions = None \<longrightarrow> \<not> skipPreflightInSpam cl"
    using fetch_flags(2) [OF assms] by simp
  have c: "spamSendTx (new_MarginfiClient cfg prog w ro g bs ps luts pre meta ep None None)"
          "skipPreflightInSpam (new_MarginfiClient cfg prog w ro g bs ps luts pre meta ep None None)"
    by (simp_all add: new_MarginfiClient_def)
  have d: "opt_field co_spamSendTx clientOptions = None \<longrightarrow>
            processTransaction lb' env' 0 tx signers os ca \<lparr>this = cl, trace = tr\<rparr> \<noteq> None"
    using a single_shot_needs_no_fuel [of "\<lparr>this = cl, trace = tr\<rparr>"] by simp
  from a b c d show ?thesis by blast
qed

theorem fetch_defaults_to_single_shot_witness:
  "fst (fetch lib0 env0 config0 ''wallet'' connection0 None \<lparr>this = (), trace = []\<rparr>) = Inr fetched0 \<and>
   opt_field co_spamSendTx None = None \<and> opt_field co_skipPreflightInSpam None = None \<and>
   \<not> spamSendTx fetched0 \<and> \<not> skipPreflightInSpam fetched0 \<and>
   processTransaction lib0 env0 0 (Transaction [''ix'']) None None None (start fetched0) \<noteq> None"
proof -
  have none: "opt_field co_spamSendTx None = None" "opt_field co_skipPreflightInSpam None = None"
    by (simp_all add: opt_field_def)
  have run: "fst (fetch lib0 env0 config0 ''wallet'' connection0 None \<lparr>this = (), trace = []\<rparr>) =
      Inr fetched0"
    by (subst fetch_run0) simp
  from fetch_defaults_to_single_shot [OF fetch_run0, of "program fetched0" False
      "[]" "[]" "[]" None None None None lib0 env0 "Transaction [''ix'']" None None None "[]"]
  have "\<not> spamSendTx fetched0 \<and> \<not> skipPreflightInSpam fetched0 \<and>
      processTransaction lib0 env0 0 (Transaction [''ix'']) None None None (start fetched0) \<noteq> None"
    unfolding start_def using none by blast
  with none run show ?thesis by blast
qed

subsection \<open>What a method call leaves of the client object\<close>

lemma same_but_group_data_refl [simp]: "same_but_group_data cl cl"
  by (simp add: same_but_group_data_def)

lemma same_but_group_data_iff:
  "same_but_group_data a b \<longleftrightarrow>
     config b = config a \<and> program b = program a \<and> wallet b = wallet a \<and>
     isReadOnly b = isReadOnly a \<and> addressLookupTables b = addressLookupTables a \<and>
     preloadedBankAddresses b = preloadedBankAddresses a \<and>
     bankMetadataMap b = bankMetadataMap a \<and> sendEndpoint b = sendEndpoint a \<and>
     spamSendTx b = spamSendTx a \<and> skipPreflightInSpam b = skipPreflightInSpam a"
  by (cases a; cases b) (auto simp: same_but_group_data_def)

lemma same_but_group_data_trans:
  "same_but_group_data a b \<Longrightarrow> same_but_group_data b c \<Longrightarrow> same_but_group_data a c"
  by (simp add: same_but_group_data_iff)

lemma reload_this:
  "this (snd (reload lb env st)) =
     (case fst (fetchGroupData lb env (program (this st)) (groupPk (config (this st)))
                  (conn_commitment (connection (provider (program (this st)))))
                  (preloadedBankAddresses (this st)) None st) of
        Inl e \<Rightarrow> this st
      | Inr (g, bs, ps) \<Rightarrow> (this st)\<lparr>group := g, banks := bs, oraclePrices := ps\<rparr>)"
  unfolding reload_def
  by (auto split: prod.splits sum.splits dest!: fetchGroupData_continues continues_this)

lemma reload_trace:
  "trace (snd (reload lb env st)) =
     trace (snd (fetchGroupData lb env (program (this st)) (groupPk (config (this st)))
                  (conn_commitment (connection (provider (program (this st)))))
                  (preloadedBankAddresses (this st)) None st))"
  unfolding reload_def
  by (auto split: prod.splits sum.splits)

lemma reload_same_but_group_data: "same_but_group_data (this st) (this (snd (reload lb env st)))"
  unfolding reload_this
  by (simp add: same_but_group_data_def split: sum.splits prod.splits)

lemma invoke_keeps_this:
  assumes "invoke lb env call st = Some st'" and "call \<noteq> Call_reload"
  shows "this st' = this st"
proof (cases call)
  case Call_reload
  with assms show ?thesis by simp
next
  case (Call_processTransaction fuel tx signers os ca)
  with assms show ?thesis
    by (auto dest!: processTransaction_continues continues_this)
next
  case (Call_signTransaction tx signers ca)
  with assms show ?thesis
    by (cases "signTransaction lb env tx signers ca st")
      (auto dest!: signTransaction_continues continues_this)
next
  case (Call_sendAndConfirmTransaction fuel vtx os ca)
  with assms show ?thesis
    by (auto dest!: sendAndConfirmTransaction_continues continues_this)
next
  case (Call_signTranscationJito jitoTip instructions luts priorityFee)
  with assms show ?thesis
    by (cases "signTranscationJito lb env jitoTip instructions luts priorityFee st")
      (auto dest!: signTranscationJito_continues continues_this)
next
  case (Call_sendAndConfirmTrancationJito fuel vtx)
  with assms show ?thesis
    by (auto dest!: sendAndConfirmTrancationJito_continues continues_this)
next
  case (Call_simulateTransaction tx accs)
  with assms show ?thesis
    by (cases "simulateTransaction lb env tx accs st")
      (auto dest!: simulateTransaction_continues continues_this)
qed

lemma invoke_this:
  assumes "invoke lb env call st = Some st'"
  shows "same_but_group_data (this st) (this st')"
proof (cases "call = Call_reload")
  case True
  with assms show ?thesis using reload_same_but_group_data [of st lb env] by auto
next
  case False
  with invoke_keeps_this [OF assms] show ?thesis by simp
qed

lemma lifetime_this:
  "lifetime lb env calls st = Some st' \<Longrightarrow>
     same_but_group_data (this st) (this st') \<and> (Call_reload \<notin> set calls \<longrightarrow> this st' = this st)"
proof (induction calls arbitrary: st)
  case Nil
  then show ?case by simp
next
  case (Cons call calls)
  from Cons.prems obtain st1 where
    1: "invoke lb env call st = Some st1" and 2: "lifetime lb env calls st1 = Some st'"
    by (auto split: option.splits)
  from Cons.IH [OF 2] invoke_this [OF 1] invoke_keeps_this [OF 1] show ?case
    by (auto intro: same_but_group_data_trans)
qed

lemma fetch_lookup_tables_of_fetch:
  assumes "fetch lb env cfg w c clientOptions (st :: 'a state) = (Inr cl, st')"
  shows "\<exists>s :: 'a state. fst (fetch_lookup_tables env c
                  (case ADDRESS_LOOKUP_TABLE_FOR_GROUP lb (groupPk cfg) of
                     None \<Rightarrow> [] | Some addrs \<Rightarrow> addrs) s) = Inr (addressLookupTables cl)"
proof -
  from assms obtain s :: "'a state" and luts s' where
    "fetch_lookup_tables env c
       (case ADDRESS_LOOKUP_TABLE_FOR_GROUP lb (groupPk cfg) of None \<Rightarrow> [] | Some addrs \<Rightarrow> addrs) s =
     (Inr luts, s')" and "addressLookupTables cl = luts"
    unfolding fetch_def Let_def new_MarginfiClient_def
    by (auto split: prod.splits sum.splits)
  then have "fst (fetch_lookup_tables env c
       (case ADDRESS_LOOKUP_TABLE_FOR_GROUP lb (groupPk cfg) of None \<Rightarrow> [] | Some addrs \<Rightarrow> addrs) s) =
     Inr (addressLookupTables cl)" by simp
  then show ?thesis ..
qed

text \<open>
  C9. \<open>reload\<close> assigns \<open>group\<close>, \<open>banks\<close> and \<open>oraclePrices\<close> from a fresh
  \<open>fetchGroupData\<close> (and assigns nothing when that throws); whatever sequence of
  method calls a client lives through, its object differs from the initial one in at
  most these three fields, so \<open>addressLookupTables\<close>, fetched by \<open>fetch\<close> for the
  constructor, stays as constructed; with no \<open>reload\<close> among the calls the object does
  not change at all.
\<close>

theorem reload_replaces_only_group_data:
  "this (snd (reload lb env st)) =
     (case fst (fetchGroupData lb env (program (this st)) (groupPk (config (this st)))
                  (conn_commitment (connection (provider (program (this st)))))
                  (preloadedBankAddresses (this st)) None st) of
        Inl e \<Rightarrow> this st
      | Inr (g, bs, ps) \<Rightarrow> (this st)\<lparr>group := g, banks := bs, oraclePrices := ps\<rparr>) \<and>
   (lifetime lb env calls st = Some st' \<longrightarrow>
      same_but_group_data (this st) (this st') \<and>
      addressLookupTables (this st') = addressLookupTables (this st) \<and>
      (Call_reload \<notin> set calls \<longrightarrow> this st' = this st)) \<and>
   (fetch lb env cfg w c clientOptions (st0 :: 'a state) = (Inr cl, st0') \<longrightarrow>
      (\<exists>s :: 'a state. fst (fetch_lookup_tables env c
                  (case ADDRESS_LOOKUP_TABLE_FOR_GROUP lb (groupPk cfg) of
                     None \<Rightarrow> [] | Some addrs \<Rightarrow> addrs) s) = Inr (addressLookupTables cl)))"
proof -
  have "addressLookupTables (this st') = addressLookupTables (this st)"
    if "same_but_group_data (this st) (this st')"
    using that by (simp add: same_but_group_data_iff)
  with lifetime_this [of lb env calls st st'] reload_this [of lb env st]
    fetch_lookup_tables_of_fetch [of lb env cfg w c clientOptions st0 cl st0']
  show ?thesis by blast
qed


theorem reload_replaces_only_group_data_witness:
  "lifetime lib0 env0 calls0 (start fetched0) \<noteq> None \<and> Call_reload \<notin> set calls0 \<and>
   this (the (lifetime lib0 env0 calls0 (start fetched0))) = fetched0 \<and>
   fst (fetch lib0 env0 config0 ''wallet'' connection0 None \<lparr>this = (), trace = []\<rparr>) = Inr fetched0 \<and>
   this (snd (reload lib0 env0 (start fetched0))) =
     fetched0\<lparr>group := ''group'', banks := [(''bank1'', [])],
       oraclePrices := [(''bank1'', ''oracle'')]\<rparr> \<and>
   addressLookupTables (this (snd (reload lib0 env0 (start fetched0)))) = [''lut1'']"
proof -
  have run: "lifetime lib0 env0 calls0 (start fetched0) \<noteq> None"
    by (simp add: calls0_def signTransaction_def processTransaction_defs call_defs fixture_defs)
  then obtain st' where st': "lifetime lib0 env0 calls0 (start fetched0) = Some st'"
    by blast
  have no_reload: "Call_reload \<notin> set calls0"
    by (simp add: calls0_def)
  have fetched:
    "fetchGroupData lib0 env0 (program fetched0) (groupPk (config fetched0))
       (conn_commitment (connection (provider (program fetched0))))
       (preloadedBankAddresses fetched0) None (start fetched0) =
     (Inr (''group'', [(''bank1'', [])], [(''bank1'', ''oracle'')]),
      snd (fetchGroupData lib0 env0 (program fetched0) (groupPk (config fetched0))
       (conn_commitment (connection (provider (program fetched0))))
       (preloadedBankAddresses fetched0) None (start fetched0)))"
    by (simp add: fetch_defs call_defs fixture_defs)
  have f: "fst (fetch lib0 env0 config0 ''wallet'' connection0 None \<lparr>this = (), trace = []\<rparr>) =
      Inr fetched0"
    by (subst fetch_run0) simp
  from reload_replaces_only_group_data [of lib0 env0 "start fetched0" calls0 st' config0
      "''wallet''" connection0 None "\<lparr>this = (), trace = []\<rparr>" fetched0
      "snd (fetch lib0 env0 config0 ''wallet'' connection0 None \<lparr>this = (), trace = []\<rparr>)"]
    st' no_reload fetch_run0
  have a: "this st' = this (start fetched0)"
    and b: "this (snd (reload lib0 env0 (start fetched0))) =
      (case fst (fetchGroupData lib0 env0 (program (this (start fetched0)))
                  (groupPk (config (this (start fetched0))))
                  (conn_commitment (connection (provider (program (this (start fetched0))))))
                  (preloadedBankAddresses (this (start fetched0))) None (start fetched0)) of
        Inl e \<Rightarrow> this (start fetched0)
      | Inr (g, bs, ps) \<Rightarrow> (this (start fetched0))\<lparr>group := g, banks := bs, oraclePrices := ps\<rparr>)"
    by blast+
  have this0: "this (start fetched0) = fetched0"
    by (simp add: start_def)
  have c: "this (snd (reload lib0 env0 (start fetched0))) =
     fetched0\<lparr>group := ''group'', banks := [(''bank1'', [])],
       oraclePrices := [(''bank1'', ''oracle'')]\<rparr>"
    unfolding b this0 by (subst fetched) simp
  have d: "addressLookupTables (this (snd (reload lib0 env0 (start fetched0)))) = [''lut1'']"
    unfolding c by (simp add: fetched0_def)
  from run no_reload a st' this0 f c d show ?thesis by simp
qed

subsection \<open>Properties of every event a step adds\<close>

lemma only_added_continues: "only_added P st st' \<Longrightarrow> continues st st'"
  by (simp add: only_added_def)

lemma only_added_all: "only_added P st st' \<Longrightarrow> list_all P (added st st')"
  by (simp add: only_added_def)

lemma only_added_refl [simp]: "only_added P st st"
  by (simp add: only_added_def)

lemma only_added_trans:
  "only_added P st st1 \<Longrightarrow> only_added P st1 st2 \<Longrightarrow> only_added P st st2"
proof -
  assume a: "only_added P st st1" and b: "only_added P st1 st2"
  then have "added st st2 = added st st1 @ added st1 st2"
    by (simp add: only_added_def added_trans [of st st1 st2])
  with a b show ?thesis
    by (auto simp: only_added_def intro: continues_trans)
qed

lemma added_emit [simp]: "added st (emit ev st) = [ev]"
  by (simp add: added_def)

lemma only_added_emit [simp]: "only_added P st (emit ev st) = P ev"
  by (simp add: only_added_def)

lemma only_added_from_emit:
  "only_added P (emit ev st) st' \<Longrightarrow> P ev \<Longrightarrow> only_added P st st'"
  by (rule only_added_trans [of P st "emit ev st"]) simp_all

lemma only_added_from_sleep:
  "only_added P (sleep ms st) st' \<Longrightarrow> P (Sleep ms) \<Longrightarrow> only_added P st st'"
  unfolding sleep_def by (rule only_added_from_emit)

lemma only_added_mono:
  "only_added P st st' \<Longrightarrow> (\<And>ev. P ev \<Longrightarrow> Q ev) \<Longrightarrow> only_added Q st st'"
  unfolding only_added_def by (auto simp: list_all_iff)

lemma added_from_emit:
  "continues (emit ev st) st' \<Longrightarrow> added st st' = ev # added (emit ev st) st'"
  using added_trans [of st "emit ev st" st'] by simp

text \<open>What the first \<open>try\<close> block of \<open>processTransaction\<close> does to the trace and yields.\<close>

lemma processTransaction_build_trace:
  assumes "processTransaction_build lb env c tx signers st = (r, st1)"
  shows "st1 = emit (GetLatestBlockhashAndContext c (rpc_getLatestBlockhashAndContext env (trace st) c)) st"
    and "r = Inr (mcs, bh, lvbh, vtx) \<Longrightarrow>
           \<exists>snap. rpc_getLatestBlockhashAndContext env (trace st) c = Inr snap \<and>
             mcs = slot snap - 4 \<and> bh = blockhash snap \<and> lvbh = lastValidBlockHeight snap"
proof -
  from assms show "st1 = emit (GetLatestBlockhashAndContext c (rpc_getLatestBlockhashAndContext env (trace st) c)) st"
    unfolding processTransaction_build_def
    by (simp add: call_eqs split: prod.splits sum.splits option.splits)
  assume "r = Inr (mcs, bh, lvbh, vtx)"
  with assms show "\<exists>snap. rpc_getLatestBlockhashAndContext env (trace st) c = Inr snap \<and>
             mcs = slot snap - 4 \<and> bh = blockhash snap \<and> lvbh = lastValidBlockHeight snap"
    unfolding processTransaction_build_def
    by (simp add: call_eqs split: prod.splits sum.splits option.splits)
qed

lemma sub_poll_events:
  "sub_poll env cfg c sg n status st = (r, st') \<Longrightarrow> only_added (spam_event cfg sc c vtx) st st'"
proof (induction n arbitrary: st)
  case 0
  then show ?case by simp
next
  case (Suc n)
  let ?P = "spam_event cfg sc c vtx"
  let ?r = "rpc_getSignatureStatus env (trace st) c (Some sg) (Some False)"
  let ?st1 = "emit (GetSignatureStatus c (Some sg) (Some False) ?r) st"
  have q: "?P (GetSignatureStatus c (Some sg) (Some False) ?r)" and s: "?P (Sleep (spam_sleep cfg))"
    by (simp_all add: spam_event_def)
  have 1: "getSignatureStatus env c (Some sg) (Some False) st = (?r, ?st1)"
    by (simp add: call_eqs)
  show ?case
  proof (cases "\<exists>v. ?r = Inr v \<and> \<not> reached (spam_targets cfg) v")
    case True
    with Suc.prems 1 have "sub_poll env cfg c sg n status (sleep (spam_sleep cfg) ?st1) = (r, st')"
      by auto
    from Suc.IH [OF this] have "only_added ?P (sleep (spam_sleep cfg) ?st1) st'" .
    then have "only_added ?P ?st1 st'" using s by (rule only_added_from_sleep)
    then show ?thesis using q by (rule only_added_from_emit)
  next
    case False
    with Suc.prems 1 have "st' = ?st1"
      by (cases ?r) (auto split: if_splits)
    with q show ?thesis by simp
  qed
qed

lemma spam_iteration_events:
  assumes "spam_iteration env cfg sc c vtx lvbh status st = (out, st')"
  shows "only_added (spam_event cfg sc c vtx) st st'"
proof -
  obtain r1 st1 where 1: "sendTransaction env sc vtx (spam_sendOptions cfg) st = (r1, st1)"
    by (cases "sendTransaction env sc vtx (spam_sendOptions cfg) st")
  then have a: "only_added (spam_event cfg sc c vtx) st st1"
    by (auto simp: call_eqs spam_event_def)
  show ?thesis
  proof (cases r1)
    case (Inl e)
    with assms 1 a show ?thesis by (simp add: spam_iteration_def)
  next
    case (Inr sg)
    obtain r2 st2 where 2: "sub_poll env cfg c sg 5 status st1 = (r2, st2)"
      by (cases "sub_poll env cfg c sg 5 status st1")
    from sub_poll_events [OF 2] a have b: "only_added (spam_event cfg sc c vtx) st st2"
      by (rule only_added_trans [rotated])
    show ?thesis
    proof (cases r2)
      case (Inl e)
      with assms 1 2 Inr b show ?thesis by (simp add: spam_iteration_def)
    next
      case (Inr status')
      obtain r3 st3 where 3: "getBlockHeight env c None st2 = (r3, st3)"
        by (cases "getBlockHeight env c None st2")
      then have "only_added (spam_event cfg sc c vtx) st2 st3"
        by (auto simp: call_eqs spam_event_def)
      with b have c: "only_added (spam_event cfg sc c vtx) st st3"
        by (rule only_added_trans)
      from assms 1 2 3 \<open>r1 = Inr sg\<close> Inr have "st' = st3"
        by (auto simp: spam_iteration_def split: sum.splits if_splits)
      with c show ?thesis by simp
    qed
  qed
qed

lemma spam_loop_events:
  "spam_loop fuel env cfg sc c vtx lvbh status st = Some (r, st') \<Longrightarrow>
     only_added (spam_event cfg sc c vtx) st st'"
proof (induction fuel arbitrary: st status)
  case 0
  then show ?case by simp
next
  case (Suc fuel)
  then show ?case
    by (auto split: prod.splits iteration.splits dest!: spam_iteration_events Suc.IH
        intro: only_added_trans)
qed

lemma only_added_emit2: "only_added P st st1 \<Longrightarrow> P ev \<Longrightarrow> only_added P st (emit ev st1)"
  by (rule only_added_trans [of P st st1]) simp_all

lemma continues_emit_nested [simp]: "continues st st1 \<Longrightarrow> continues st (emit ev st1)"
  by (rule continues_emit2)

lemma only_added_emit_nested [simp]:
  "continues st st1 \<Longrightarrow> only_added P st (emit ev st1) = (only_added P st st1 \<and> P ev)"
  using added_trans [of st st1 "emit ev st1"]
  by (auto simp: only_added_def)

lemma spam_event_simulates_with: "spam_event cfg sc c vtx ev \<Longrightarrow> simulates_with a ev"
  by (cases ev)
    (simp_all add: spam_event_def simulates_with_def is_snapshot_fetch_def simulation_arg_def)

lemma spam_loop_simulates_with:
  "spam_loop fuel env cfg sc c vtx lvbh status st = Some (r, st') \<Longrightarrow>
     only_added (simulates_with a) st st'"
  by (rule only_added_mono [OF spam_loop_events]) (auto intro: spam_event_simulates_with)

lemma simulates_with_simps [simp]:
  "simulates_with a (SimulateTransaction c vtx a' r) = (a' = a)"
  "simulates_with a (WalletSignTransaction vtx r1)"
  "simulates_with a (SendTransaction c vtx so r2)"
  "simulates_with a (ConfirmTransaction c bh lvbh sg cm r3)"
  by (simp_all add: simulates_with_def is_snapshot_fetch_def simulation_arg_def)

lemma spam_precheck_simulates_with:
  "spam_precheck lb env c vtx os mcs st = (r, st') \<Longrightarrow>
     only_added (simulates_with (sim_arg_of os mcs)) st st'"
  unfolding spam_precheck_def
  by (auto simp: call_eqs split: outcome_splits)

lemma processTransaction_send_simulates_with:
  assumes "processTransaction_send lb env fuel c sc os mcs bh lvbh vtx st = Some (r, st')"
  shows "only_added (simulates_with (sim_arg_of os mcs)) st st'"
proof (cases "wants_dryRun os \<or> isReadOnly (this st)")
  case True
  with assms show ?thesis
    unfolding processTransaction_send_def
    by (auto simp: call_eqs split: outcome_splits)
next
  case False
  let ?P = "simulates_with (sim_arg_of os mcs)"
  obtain r1 st1 where 1: "wallet_sign env vtx st = (r1, st1)"
    by (cases "wallet_sign env vtx st")
  then have a: "only_added ?P st st1" by (auto simp: call_eqs)
  show ?thesis
  proof (cases r1)
    case (Inl e)
    with assms False 1 a show ?thesis by (simp add: processTransaction_send_def)
  next
    case (Inr vtx')
    show ?thesis
    proof (cases "spamSendTx (this st1)")
      case True
      obtain r2 st2 where 2: "spam_precheck lb env c vtx' os mcs st1 = (r2, st2)"
        by (cases "spam_precheck lb env c vtx' os mcs st1")
      from a spam_precheck_simulates_with [OF 2] have b: "only_added ?P st st2"
        by (rule only_added_trans)
      show ?thesis
      proof (cases r2)
        case (Inl e)
        with assms False 1 2 True \<open>r1 = Inr vtx'\<close> b show ?thesis
          by (simp add: processTransaction_send_def)
      next
        case (Inr u)
        with assms False 1 2 True \<open>r1 = Inr vtx'\<close>
        have "spam_loop fuel env processTransaction_spam sc c vtx' lvbh ''pending'' st2 =
            Some (r, st')"
          by (simp add: processTransaction_send_def)
        from b spam_loop_simulates_with [OF this] show ?thesis
          by (rule only_added_trans)
      qed
    next
      case no_spam: False
      with assms False 1 Inr have "only_added ?P st1 st'"
        unfolding processTransaction_send_def
        by (auto simp: call_eqs split: outcome_splits)
      with a show ?thesis by (rule only_added_trans)
    qed
  qed
qed

subsection \<open>The minimum context slot\<close>

lemma snapshot_then_fetched:
  assumes "only_added (simulates_with (f (slot snap - 4)))
             (emit (GetLatestBlockhashAndContext c (Inr snap)) st) st'"
  shows "snapshot_then f c (added st st')"
proof -
  from assms have "added st st' =
      GetLatestBlockhashAndContext c (Inr snap) #
        added (emit (GetLatestBlockhashAndContext c (Inr snap)) st) st'"
    by (simp add: added_from_emit only_added_def)
  with assms show ?thesis
    by (simp add: snapshot_then_def only_added_def)
qed

lemma snapshot_then_failed [simp]:
  "snapshot_then f c (added st (emit (GetLatestBlockhashAndContext c (Inl e)) st))"
  by (simp add: snapshot_then_def)

lemma processTransaction_snapshot_then:
  assumes "processTransaction lb env fuel tx signers os ca st = Some (r, st')"
  shows "snapshot_then (sim_arg_of os) (pick_connection (this st) ca) (added st st')"
proof -
  let ?c = "pick_connection (this st) ca"
  obtain r1 st1 where 1: "processTransaction_build lb env ?c tx signers st = (r1, st1)"
    by (cases "processTransaction_build lb env ?c tx signers st")
  note shape = processTransaction_build_trace [OF 1]
  show ?thesis
  proof (cases r1)
    case (Inl e)
    with assms 1 have "st' = st1"
      by (simp add: processTransaction_def Let_def)
    with shape(1) show ?thesis
      by (cases "rpc_getLatestBlockhashAndContext env (trace st) ?c")
         (simp_all add: snapshot_then_def simulates_with_def)
  next
    case (Inr quad)
    obtain mcs bh lvbh vtx where quad: "quad = (mcs, bh, lvbh, vtx)"
      by (cases quad)
    from shape(2) [of mcs bh lvbh vtx] Inr quad obtain snap where
      snap: "rpc_getLatestBlockhashAndContext env (trace st) ?c = Inr snap" "mcs = slot snap - 4"
      by auto
    from assms 1 Inr quad obtain r2 where
      "processTransaction_send lb env fuel ?c (send_connection (this st) ?c) os mcs bh lvbh vtx st1 =
         Some (r2, st')"
      by (auto simp: processTransaction_def Let_def split: option.splits sum.splits prod.splits)
    from processTransaction_send_simulates_with [OF this]
    have "only_added (simulates_with (sim_arg_of os mcs)) st1 st'" .
    with shape(1) snap show ?thesis
      by (intro snapshot_then_fetched [where snap = snap]) simp
  qed
qed

lemma sendAndConfirmTransaction_body_snapshot_then:
  assumes "sendAndConfirmTransaction_body lb env fuel c sc vtx os st = Some (r, st')"
  shows "snapshot_then (sim_arg_of os) c (added st st')"
proof -
  let ?rr = "rpc_getLatestBlockhashAndContext env (trace st) c"
  let ?st1 = "emit (GetLatestBlockhashAndContext c ?rr) st"
  have 1: "getLatestBlockhashAndContext env c st = (?rr, ?st1)"
    by (simp add: call_eqs)
  show ?thesis
  proof (cases ?rr)
    case (Inl e)
    with assms 1 have "st' = ?st1"
      by (simp add: sendAndConfirmTransaction_body_def)
    with Inl show ?thesis by (simp add: snapshot_then_def)
  next
    case (Inr snap)
    let ?P = "simulates_with (sim_arg_of os (slot snap - 4))"
    have "only_added ?P ?st1 st'"
    proof (cases "spamSendTx (this ?st1)")
      case True
      obtain r2 st2 where 2: "spam_precheck lb env c vtx os (slot snap - 4) ?st1 = (r2, st2)"
        by (cases "spam_precheck lb env c vtx os (slot snap - 4) ?st1")
      note b = spam_precheck_simulates_with [OF 2]
      show ?thesis
      proof (cases r2)
        case (Inl e)
        with assms 1 2 True Inr b show ?thesis
          by (simp add: sendAndConfirmTransaction_body_def)
      next
        case u: (Inr u)
        with assms 1 2 True Inr
        have "spam_loop fuel env sendAndConfirmTransaction_spam sc c vtx
                (lastValidBlockHeight snap) ''pending'' st2 = Some (r, st')"
          by (simp add: sendAndConfirmTransaction_body_def)
        from b spam_loop_simulates_with [OF this] show ?thesis
          by (rule only_added_trans)
      qed
    next
      case False
      with assms 1 Inr show ?thesis
        unfolding sendAndConfirmTransaction_body_def
        by (auto simp: call_eqs split: outcome_splits)
    qed
    with Inr show ?thesis
      by (intro snapshot_then_fetched [where snap = snap]) simp
  qed
qed

lemma sendAndConfirmTransaction_snapshot_then:
  assumes "sendAndConfirmTransaction lb env fuel vtx os ca st = Some (r, st')"
  shows "snapshot_then (sim_arg_of os) (pick_connection (this st) ca) (added st st')"
  using assms unfolding sendAndConfirmTransaction_def Let_def
  by (auto split: option.splits sum.splits prod.splits
      dest!: sendAndConfirmTransaction_body_snapshot_then)

lemma signTranscationJito_snapshot_then:
  assumes "signTranscationJito lb env jitoTip instructions luts priorityFee st = (r, st')"
  shows "added st st' = [] \<or>
         snapshot_then jito_sim_arg (connection (provider (program (this st)))) (added st st')"
proof -
  let ?c = "connection (provider (program (this st)))"
  let ?rr = "rpc_getLatestBlockhashAndContext env (trace st) ?c"
  let ?st1 = "emit (GetLatestBlockhashAndContext ?c ?rr) st"
  have 1: "getLatestBlockhashAndContext env ?c st = (?rr, ?st1)"
    by (simp add: call_eqs)
  show ?thesis
  proof (cases "st' = st")
    case True
    then show ?thesis by simp
  next
    case False
    with assms 1 obtain ixs where
      ixs: "jitoTip \<noteq> 0"
        "jito_instructions lb (publicKey (provider (program (this st)))) jitoTip priorityFee
           instructions = Inr ixs"
      by (auto simp: signTranscationJito_def split: sum.splits if_splits)
    show ?thesis
    proof (cases ?rr)
      case (Inl e)
      with assms 1 ixs have "st' = ?st1"
        by (simp add: signTranscationJito_def)
      with Inl show ?thesis by (simp add: snapshot_then_def)
    next
      case (Inr snap)
      let ?P = "simulates_with (jito_sim_arg (slot snap - 4))"
      from assms 1 ixs Inr have "only_added ?P ?st1 st'"
        unfolding signTranscationJito_def Let_def jito_sim_arg_def
        by (auto simp: call_eqs split: outcome_splits)
      with Inr have "snapshot_then jito_sim_arg ?c (added st st')"
        by (intro snapshot_then_fetched [where snap = snap]) simp
      then show ?thesis ..
    qed
  qed
qed

lemmas fixture_defs2 =
  rpc0_def vtx0_def status_finalized_def env_final_def spam1_def dry_opts_def

lemmas loop_defs =
  spam_iteration_def processTransaction_spam_def sendAndConfirmTransaction_spam_def reached_def
  timeout_message_def

lemmas sendAndConfirmTransaction_defs =
  sendAndConfirmTransaction_def sendAndConfirmTransaction_body_def pick_connection_def
  send_connection_def Connection_at_def sim_arg_of_def simulation_failure_def spam_precheck_def
  rethrow_def Let_def

lemmas signTranscationJito_defs =
  signTranscationJito_def jito_instructions_def simulation_failure_def message_serialize_def
  rethrow_def Let_def

text \<open>
  C7, as the code has it. Each of the three methods fetches one snapshot and derives the
  minimum context slot as its slot minus 4. \<open>signTranscationJito\<close> always configures
  its simulation with that value; \<open>processTransaction\<close> and \<open>sendAndConfirmTransaction\<close>
  do so when the caller gave no options, and otherwise hand the caller's options object
  to the simulation as it is. No other call of a run receives the value.
\<close>

theorem simulations_use_slot_minus_4:
  "(processTransaction lb env fuel tx signers os ca st = Some (r1, st1) \<longrightarrow>
      snapshot_then (sim_arg_of os) (pick_connection (this st) ca) (added st st1)) \<and>
   (sendAndConfirmTransaction lb env fuel vtx os ca st = Some (r2, st2) \<longrightarrow>
      snapshot_then (sim_arg_of os) (pick_connection (this st) ca) (added st st2)) \<and>
   (signTranscationJito lb env jitoTip instructions luts priorityFee st = (r3, st3) \<longrightarrow>
      added st st3 = [] \<or>
      snapshot_then jito_sim_arg (connection (provider (program (this st)))) (added st st3)) \<and>
   arg_minContextSlot (jito_sim_arg mcs) = Some mcs \<and>
   arg_minContextSlot (sim_arg_of None mcs) = Some mcs \<and>
   arg_minContextSlot (sim_arg_of (Some p) mcs) = minContextSlot p"
  using processTransaction_snapshot_then [of lb env fuel tx signers os ca st r1 st1]
    sendAndConfirmTransaction_snapshot_then [of lb env fuel vtx os ca st r2 st2]
    signTranscationJito_snapshot_then [of lb env jitoTip instructions luts priorityFee st r3 st3]
  by (simp add: jito_sim_arg_def sim_arg_of_def)

lemma processTransaction_spam1_run:
  "processTransaction lib0 env_final 1 (Transaction [''ix'']) None None None (start spam1) =
     Some (Inr ''sig'',
       \<lparr>this = spam1,
        trace =
          [GetLatestBlockhashAndContext rpc0 (Inr snapshot0),
           WalletSignTransaction vtx0 (Inr (vtx0\<lparr>signatures := [''walletsig'']\<rparr>)),
           SimulateTransaction rpc0 (vtx0\<lparr>signatures := [''walletsig'']\<rparr>) (jito_sim_arg 96)
             (Inr sim_ok),
           SendTransaction rpc0 (vtx0\<lparr>signatures := [''walletsig'']\<rparr>)
             (spam_sendOptions processTransaction_spam) (Inr ''sig''),
           GetSignatureStatus rpc0 (Some ''sig'') (Some False) (Inr status_finalized),
           GetBlockHeight rpc0 None (Inr 5)]\<rparr>)"
  by (simp add: numeral_eq_Suc processTransaction_defs loop_defs call_defs fixture_defs
      fixture_defs2 jito_sim_arg_def)

theorem simulations_use_slot_minus_4_witness:
  "processTransaction lib0 env_final 1 (Transaction [''ix'']) None None None (start spam1) \<noteq> None \<and>
   sendAndConfirmTransaction lib0 env_final 1 vtx0 None None (start spam1) \<noteq> None \<and>
   snapshot_then (sim_arg_of None) rpc0
     (added (start spam1)
        (snd (the (processTransaction lib0 env_final 1 (Transaction [''ix'']) None None None
                     (start spam1))))) \<and>
   snapshot_then (sim_arg_of None) rpc0
     (added (start spam1)
        (snd (the (sendAndConfirmTransaction lib0 env_final 1 vtx0 None None (start spam1))))) \<and>
   snapshot_then jito_sim_arg connection0
     (added (start spam1) (snd (signTranscationJito lib0 env_final 1 [''ix''] None None (start spam1))))"
proof -
  have a: "processTransaction lib0 env_final 1 (Transaction [''ix'']) None None None (start spam1) \<noteq> None"
    using processTransaction_spam1_run by simp
  have b: "sendAndConfirmTransaction lib0 env_final 1 vtx0 None None (start spam1) \<noteq> None"
    by (simp add: numeral_eq_Suc sendAndConfirmTransaction_defs loop_defs call_defs fixture_defs
      fixture_defs2)
  have c: "added (start spam1)
      (snd (signTranscationJito lib0 env_final 1 [''ix''] None None (start spam1))) \<noteq> []"
    by (simp add: signTranscationJito_defs call_defs fixture_defs fixture_defs2 added_def)
  have pc: "pick_connection (this (start spam1)) None = rpc0"
    "connection (provider (program (this (start spam1)))) = connection0"
    by (simp_all add: pick_connection_def Connection_at_def fixture_defs fixture_defs2)
  from a obtain r1 st1 where 1:
    "processTransaction lib0 env_final 1 (Transaction [''ix'']) None None None (start spam1) = Some (r1, st1)"
    by auto
  from b obtain r2 st2 where 2:
    "sendAndConfirmTransaction lib0 env_final 1 vtx0 None None (start spam1) = Some (r2, st2)"
    by auto
  obtain r3 st3 where 3:
    "signTranscationJito lib0 env_final 1 [''ix''] None None (start spam1) = (r3, st3)"
    by (cases "signTranscationJito lib0 env_final 1 [''ix''] None None (start spam1)")
  from simulations_use_slot_minus_4 [of lib0 env_final 1 "Transaction [''ix'']" None None None
      "start spam1" r1 st1 vtx0 r2 st2 1 "[''ix'']" None None r3 st3] 1 2 3 c pc a b
  show ?thesis by simp
qed

text \<open>
  As stated, C7 fails: a dry run requested through the options hands these options, which
  carry no minimum context slot, to the simulation, although the slot fetched was 100.
\<close>

theorem dry_run_ignores_derived_slot:
  "processTransaction lib0 env0 0 (Transaction [''ix'']) None (Some dry_opts) None (start fetched0) =
     Some (Inr ''unsigned'',
       \<lparr>this = fetched0,
        trace =
          [GetLatestBlockhashAndContext rpc0 (Inr snapshot0),
           SimulateTransaction rpc0 vtx0 (PassedOpts dry_opts) (Inr sim_ok)]\<rparr>) \<and>
   slot snapshot0 - 4 = 96 \<and> arg_minContextSlot (PassedOpts dry_opts) = None"
  by (simp add: processTransaction_defs call_defs fixture_defs fixture_defs2)

lemmas fixture_defs3 = sim_failed_def env_sim_failed_def

subsection \<open>\<open>simulateTransaction\<close> and a simulation that reports an error\<close>

lemma added_emit_nested [simp]:
  "continues st st1 \<Longrightarrow> added st (emit ev st1) = added st st1 @ [ev]"
  using added_trans [of st st1 "emit ev st1"] by simp

lemma simulateTransaction_body_outcome:
  assumes "simulateTransaction_body lb env c vtx accs st = (r, st')"
    and "SimulateTransaction c' v a (Inr response) \<in> set (added st st')"
  shows "(case r of Inl e \<Rightarrow> Inl (Error (String_of_error lb e)) | Inr buffers \<Rightarrow> Inr buffers) =
           simulation_outcome lb response"
  using assms unfolding simulateTransaction_body_def simulation_outcome_def
  by (auto simp: call_eqs split: prod.splits sum.splits option.splits if_splits)

text \<open>
  C4, as the code has it. When the simulation completes, \<open>simulateTransaction\<close> throws
  an \<open>Error\<close> made from the JSON text of \<open>err\<close> if the response carries a (truthy)
  \<open>err\<close>; otherwise it returns the decoded account snapshots, \<open>null\<close> for a missing
  account, and nothing else: neither the units consumed nor the logs are in the result.
\<close>

theorem simulateTransaction_throws_on_err:
  assumes "simulateTransaction lb env tx accs st = (r, st')"
    and "SimulateTransaction c v a (Inr response) \<in> set (added st st')"
  shows "r = simulation_outcome lb response"
proof -
  let ?c = "Connection_at (rpcEndpoint (connection (provider (program (this st)))))
              (opts (provider (program (this st))))"
  let ?rr = "rpc_getLatestBlockhashAndContext env (trace st) ?c"
  let ?st1 = "emit (GetLatestBlockhashAndContext ?c ?rr) st"
  have 1: "getLatestBlockhashAndContext env ?c st = (?rr, ?st1)"
    by (simp add: call_eqs)
  from assms 1 obtain snap vtx where
    snap: "?rr = Inr snap"
    and vtx: "to_versioned lb (publicKey (provider (program (this ?st1)))) (blockhash snap)
                (addressLookupTables (this ?st1)) tx = Inr vtx"
    by (auto simp: simulateTransaction_def Let_def split: sum.splits)
  obtain r2 st2 where 2: "simulateTransaction_body lb env ?c vtx accs ?st1 = (r2, st2)"
    by (cases "simulateTransaction_body lb env ?c vtx accs ?st1")
  from assms(1) 1 snap vtx 2 have st': "st' = st2"
    and r: "r = (case r2 of Inl e \<Rightarrow> Inl (Error (String_of_error lb e)) | Inr buffers \<Rightarrow> Inr buffers)"
    by (auto simp: simulateTransaction_def Let_def split: sum.splits)
  from simulateTransaction_body_continues [OF 2]
  have "added st st2 = GetLatestBlockhashAndContext ?c ?rr # added ?st1 st2"
    by (rule added_from_emit)
  with assms(2) st' have "SimulateTransaction c v a (Inr response) \<in> set (added ?st1 st2)"
    by auto
  from simulateTransaction_body_outcome [OF 2 this] r show ?thesis by simp
qed

lemma simulateTransaction_failed_run:
  "simulateTransaction lib0 env_sim_failed (Transaction [''ix'']) [''account''] (start fetched0) =
     (Inl (Error ''Error: InstructionError''),
      \<lparr>this = fetched0,
       trace =
         [GetLatestBlockhashAndContext rpc0 (Inr snapshot0),
          SimulateTransaction rpc0 vtx0
            (Config \<lparr>sc_minContextSlot = None, sc_sigVerify = Some False,
                     sc_accounts = Some [''account'']\<rparr>)
            (Inr sim_failed)]\<rparr>)"
  by (simp add: simulateTransaction_def simulateTransaction_body_def to_versioned_def
      Connection_at_def Let_def call_defs fixture_defs fixture_defs2 fixture_defs3)

theorem simulateTransaction_throws_on_err_witness:
  "fst (simulateTransaction lib0 env_sim_failed (Transaction [''ix'']) [''account'']
          (start fetched0)) = simulation_outcome lib0 sim_failed \<and>
   simulation_outcome lib0 sim_failed = Inl (Error ''Error: InstructionError'')"
proof -
  have "SimulateTransaction rpc0 vtx0
          (Config \<lparr>sc_minContextSlot = None, sc_sigVerify = Some False,
                   sc_accounts = Some [''account'']\<rparr>) (Inr sim_failed)
        \<in> set (added (start fetched0)
                 (snd (simulateTransaction lib0 env_sim_failed (Transaction [''ix''])
                         [''account''] (start fetched0))))"
    by (simp add: simulateTransaction_failed_run) (simp add: added_def start_def)
  from simulateTransaction_throws_on_err [OF prod.collapse [symmetric] this]
  show ?thesis
    by (simp add: simulateTransaction_failed_run)
qed

text \<open>
  As stated, C4 fails: the simulation completes and reports an error together with
  logs, units consumed and an account, and \<open>simulateTransaction\<close> throws.
\<close>

theorem simulateTransaction_err_is_thrown:
  "simulateTransaction lib0 env_sim_failed (Transaction [''ix'']) [''account''] (start fetched0) =
     (Inl (Error ''Error: InstructionError''),
      \<lparr>this = fetched0,
       trace =
         [GetLatestBlockhashAndContext rpc0 (Inr snapshot0),
          SimulateTransaction rpc0 vtx0
            (Config \<lparr>sc_minContextSlot = None, sc_sigVerify = Some False,
                     sc_accounts = Some [''account'']\<rparr>)
            (Inr sim_failed)]\<rparr>) \<and>
   sim_err sim_failed \<noteq> None \<and> unitsConsumed sim_failed = Some 5000"
  using simulateTransaction_failed_run by (simp add: sim_failed_def)

subsection \<open>Nothing that fails is passed over\<close>

lemma ends_with_snoc:
  "ends_with rs x (evs @ [ev]) = (list_all (\<lambda>ev. rs ev = None) evs \<and> (rs ev = None \<or> rs ev = x))"
  by (induction rs x evs rule: ends_with.induct) auto

lemma ends_with_None: "ends_with rs None evs = list_all (\<lambda>ev. rs ev = None) evs"
  by (induction rs "None :: exn option" evs rule: ends_with.induct) auto

lemma ends_with_append:
  "list_all (\<lambda>ev. rs ev = None) evs1 \<Longrightarrow> ends_with rs x evs2 \<Longrightarrow> ends_with rs x (evs1 @ evs2)"
proof (induction evs1)
  case Nil
  then show ?case by simp
next
  case (Cons ev evs1)
  then show ?case by (cases "evs1 @ evs2") auto
qed

lemma ends_with_weaken: "ends_with rs None evs \<Longrightarrow> ends_with rs x evs"
  by (induction rs x evs rule: ends_with.induct) auto

lemma ends_with_raise:
  "ends_with rs x evs \<Longrightarrow> ev \<in> set evs \<Longrightarrow> rs ev = Some e \<Longrightarrow> x = Some e \<and> ev = last evs"
  by (induction rs x evs rule: ends_with.induct) auto

lemma ends_with_quiet:
  "ends_with rs x evs \<Longrightarrow> list_all (\<lambda>ev. rs ev = None) (butlast evs)"
  by (induction rs x evs rule: ends_with.induct) auto

lemma raised_simps [simp]: "raised (Inl e) = Some e" "raised (Inr v) = None"
  by (simp_all add: raised_def)

lemma thrown_simps [simp]:
  "thrown (Throw e) = Some e" "thrown (Break sg) = None" "thrown (Continue s) = None"
  by (simp_all add: thrown_def)

lemma surfaced_continues: "surfaced rs x st st' \<Longrightarrow> continues st st'"
  by (simp add: surfaced_def)

lemma surfaced_refl [simp]: "surfaced rs x st st"
  by (simp add: surfaced_def)

lemma surfaced_seq:
  assumes "surfaced rs None st st1" and "surfaced rs x st1 st2"
  shows "surfaced rs x st st2"
proof -
  from assms have "added st st2 = added st st1 @ added st1 st2"
    by (simp add: surfaced_def added_trans [of st st1 st2])
  with assms show ?thesis
    by (auto simp: surfaced_def ends_with_None intro: continues_trans ends_with_append)
qed

lemma surfaced_weaken: "surfaced rs None st st' \<Longrightarrow> surfaced rs x st st'"
  by (auto simp: surfaced_def intro: ends_with_weaken)

lemma surfaced_emit [simp]: "surfaced rs x st (emit ev st) = (rs ev = None \<or> rs ev = x)"
  by (simp add: surfaced_def)

lemma surfaced_emit_nested [simp]:
  "continues st st1 \<Longrightarrow>
     surfaced rs x st (emit ev st1) = (surfaced rs None st st1 \<and> (rs ev = None \<or> rs ev = x))"
  by (simp add: surfaced_def ends_with_snoc ends_with_None)

lemma surfaced_from_emit:
  "surfaced rs x (emit ev st) st' \<Longrightarrow> rs ev = None \<Longrightarrow> surfaced rs x st st'"
  by (rule surfaced_seq [of rs st "emit ev st"]) simp_all

lemma surfaced_from_sleep: "surfaced rs x (sleep ms st) st' \<Longrightarrow> rs (Sleep ms) = None \<Longrightarrow> surfaced rs x st st'"
  unfolding sleep_def by (rule surfaced_from_emit)

lemma raises_simps [simp]:
  "raises lb lvbh (SimulateTransaction c vtx a (Inr response)) = simulation_failure lb response"
  "raises lb lvbh (SimulateTransaction c vtx a (Inl e)) = Some e"
  "raises lb lvbh (GetBlockHeight c cm (Inr h)) =
     (if lvbh < h then Some (ProcessTransactionError timeout_message TimeoutError None) else None)"
  "raises lb lvbh (GetBlockHeight c cm (Inl e)) = Some e"
  "raises lb lvbh (GetLatestBlockhashAndContext c r1) = raised r1"
  "raises lb lvbh (WalletSignTransaction vtx r2) = raised r2"
  "raises lb lvbh (SendTransaction c vtx so r3) = raised r3"
  "raises lb lvbh (GetSignatureStatus c sg search r4) = raised r4"
  "raises lb lvbh (ConfirmTransaction c bh l sg' cm' r5) = raised r5"
  "raises lb lvbh (Sleep ms) = None"
  by (simp_all add: raises_def failure_def raised_def split: sum.splits)

lemma sub_poll_surfaced:
  "sub_poll env cfg c sg n status st = (r, st') \<Longrightarrow> surfaced (raises lb lvbh) (raised r) st st'"
proof (induction n arbitrary: st)
  case 0
  then show ?case by simp
next
  case (Suc n)
  let ?rs = "raises lb lvbh"
  let ?r = "rpc_getSignatureStatus env (trace st) c (Some sg) (Some False)"
  let ?st1 = "emit (GetSignatureStatus c (Some sg) (Some False) ?r) st"
  have 1: "getSignatureStatus env c (Some sg) (Some False) st = (?r, ?st1)"
    by (simp add: call_eqs)
  show ?case
  proof (cases "\<exists>v. ?r = Inr v \<and> \<not> reached (spam_targets cfg) v")
    case True
    with Suc.prems 1 have "sub_poll env cfg c sg n status (sleep (spam_sleep cfg) ?st1) = (r, st')"
      by auto
    from Suc.IH [OF this] have "surfaced ?rs (raised r) (sleep (spam_sleep cfg) ?st1) st'" .
    then have "surfaced ?rs (raised r) ?st1 st'" by (rule surfaced_from_sleep) simp
    moreover from True have "?rs (GetSignatureStatus c (Some sg) (Some False) ?r) = None"
      by auto
    ultimately show ?thesis by (rule surfaced_from_emit)
  next
    case False
    with Suc.prems 1 have "st' = ?st1 \<and> (raised ?r = None \<or> raised ?r = raised r)"
      by (cases ?r) (auto split: if_splits)
    then show ?thesis by simp
  qed
qed

lemma spam_iteration_surfaced:
  assumes "spam_iteration env cfg sc c vtx lvbh status st = (out, st')"
  shows "surfaced (raises lb lvbh) (thrown out) st st'"
proof -
  let ?rs = "raises lb lvbh"
  obtain r1 st1 where 1: "sendTransaction env sc vtx (spam_sendOptions cfg) st = (r1, st1)"
    by (cases "sendTransaction env sc vtx (spam_sendOptions cfg) st")
  then have a: "surfaced ?rs (raised r1) st st1"
    by (auto simp: call_eqs)
  show ?thesis
  proof (cases r1)
    case (Inl e)
    with assms 1 a show ?thesis by (auto simp: spam_iteration_def)
  next
    case (Inr sg)
    obtain r2 st2 where 2: "sub_poll env cfg c sg 5 status st1 = (r2, st2)"
      by (cases "sub_poll env cfg c sg 5 status st1")
    from a Inr sub_poll_surfaced [OF 2] have b: "surfaced ?rs (raised r2) st st2"
      by (auto intro: surfaced_seq)
    show ?thesis
    proof (cases r2)
      case (Inl e)
      with assms 1 2 Inr b show ?thesis by (auto simp: spam_iteration_def)
    next
      case (Inr status')
      obtain r3 st3 where 3: "getBlockHeight env c None st2 = (r3, st3)"
        by (cases "getBlockHeight env c None st2")
      from assms 1 2 3 \<open>r1 = Inr sg\<close> Inr
      have "st' = st3" and "?rs (GetBlockHeight c None r3) = thrown out"
        by (auto simp: spam_iteration_def split: sum.splits if_splits)
      with 3 have "surfaced ?rs (thrown out) st2 st'"
        by (auto simp: call_eqs)
      with b Inr show ?thesis by (auto intro: surfaced_seq)
    qed
  qed
qed

lemma spam_loop_surfaced:
  "spam_loop fuel env cfg sc c vtx lvbh status st = Some (r, st') \<Longrightarrow>
     surfaced (raises lb lvbh) (raised r) st st'"
proof (induction fuel arbitrary: st status)
  case 0
  then show ?case by simp
next
  case (Suc fuel)
  obtain out st1 where 1: "spam_iteration env cfg sc c vtx lvbh status st = (out, st1)"
    by (cases "spam_iteration env cfg sc c vtx lvbh status st")
  note a = spam_iteration_surfaced [OF 1, of lb]
  show ?case
  proof (cases out)
    case (Break sg)
    with Suc.prems 1 a show ?thesis by auto
  next
    case (Throw e)
    with Suc.prems 1 a show ?thesis by auto
  next
    case (Continue status')
    with Suc.prems 1 have "spam_loop fuel env cfg sc c vtx lvbh status' st1 = Some (r, st')"
      by simp
    from Suc.IH [OF this] a Continue show ?thesis by (auto intro: surfaced_seq)
  qed
qed

subsection \<open>The calls of the spam loop\<close>

lemma sub_poll_polls:
  "sub_poll env cfg c sg n status st = (r, st') \<Longrightarrow>
     (case r of
        Inl e \<Rightarrow> polls cfg c sg n (added st st')
      | Inr s \<Rightarrow> (\<forall>rest. height_read c rest \<longrightarrow> polls cfg c sg n (added st st' @ rest)))"
proof (induction n arbitrary: st)
  case 0
  then show ?case by (auto simp: added_def)
next
  case (Suc n)
  let ?r = "rpc_getSignatureStatus env (trace st) c (Some sg) (Some False)"
  let ?ev = "GetSignatureStatus c (Some sg) (Some False) ?r"
  let ?st1 = "emit ?ev st"
  let ?st2 = "sleep (spam_sleep cfg) ?st1"
  have 1: "getSignatureStatus env c (Some sg) (Some False) st = (?r, ?st1)"
    by (simp add: call_eqs)
  show ?case
  proof (cases ?r)
    case (Inl e')
    with 1 Suc.prems have "st' = ?st1" "r = Inl e'" by simp_all
    with Inl show ?thesis by simp
  next
    case (Inr v)
    show ?thesis
    proof (cases "reached (spam_targets cfg) v")
      case True
      with 1 Inr Suc.prems have "st' = ?st1" "r = Inr (spam_label cfg)" by simp_all
      with Inr True show ?thesis by simp
    next
      case False
      with Inr Suc.prems 1 have a: "sub_poll env cfg c sg n status ?st2 = (r, st')"
        by simp
      from sub_poll_continues [OF a] have "continues ?st2 st'" .
      then have "added ?st1 st' = Sleep (spam_sleep cfg) # added ?st2 st'" "continues ?st1 st'"
        unfolding sleep_def by (simp_all add: added_from_emit continues_from_emit)
      then have "added st st' = ?ev # Sleep (spam_sleep cfg) # added ?st2 st'"
        by (simp add: added_from_emit)
      with Suc.IH [OF a] Inr False show ?thesis
        by (simp add: slept_def split: sum.splits)
    qed
  qed
qed

lemma spam_iteration_shape:
  assumes "spam_iteration env cfg sc c vtx lvbh status st = (out, st')"
  shows "iteration_shape cfg sc c vtx (added st st')"
proof -
  let ?r1 = "rpc_sendTransaction env (trace st) sc vtx (spam_sendOptions cfg)"
  let ?ev = "SendTransaction sc vtx (spam_sendOptions cfg) ?r1"
  let ?st1 = "emit ?ev st"
  have 1: "sendTransaction env sc vtx (spam_sendOptions cfg) st = (?r1, ?st1)"
    by (simp add: call_eqs)
  show ?thesis
  proof (cases ?r1)
    case (Inl e)
    with assms 1 have "st' = ?st1" by (simp add: spam_iteration_def)
    with Inl show ?thesis by simp
  next
    case (Inr sg)
    obtain r2 st2 where 2: "sub_poll env cfg c sg 5 status ?st1 = (r2, st2)"
      by (cases "sub_poll env cfg c sg 5 status ?st1")
    note p = sub_poll_polls [OF 2]
    note c2 = sub_poll_continues [OF 2]
    show ?thesis
    proof (cases r2)
      case (Inl e)
      with assms 1 2 Inr have "st' = st2" by (simp add: spam_iteration_def)
      with p Inl Inr added_from_emit [OF c2] show ?thesis by simp
    next
      case inr: (Inr status')
      let ?r3 = "rpc_getBlockHeight env (trace st2) c None"
      let ?st3 = "emit (GetBlockHeight c None ?r3) st2"
      have 3: "getBlockHeight env c None st2 = (?r3, ?st3)"
        by (simp add: call_eqs)
      with assms 1 2 Inr inr have st': "st' = ?st3"
        by (auto simp: spam_iteration_def split: sum.splits if_splits)
      from c2 have "continues ?st1 ?st3" by simp
      from added_from_emit [OF this] c2
      have "added st ?st3 = ?ev # added ?st1 st2 @ [GetBlockHeight c None ?r3]"
        by simp
      with p inr Inr st' show ?thesis by simp
    qed
  qed
qed

lemma is_send_simps [simp]:
  "is_send (SendTransaction c vtx so r)"
  "\<not> is_send (GetSignatureStatus c sg search r1)"
  "\<not> is_send (Sleep ms)"
  "\<not> is_send (GetBlockHeight c cm r2)"
  by (simp_all add: is_send_def)

lemma is_status_query_simps [simp]:
  "\<not> is_status_query (SendTransaction c vtx so r)"
  "is_status_query (GetSignatureStatus c sg search r1)"
  "\<not> is_status_query (Sleep ms)"
  "\<not> is_status_query (GetBlockHeight c cm r2)"
  by (simp_all add: is_status_query_def)







lemma no_send_no_poll_simps [simp]:
  "no_send_no_poll (GetLatestBlockhashAndContext c r)"
  "no_send_no_poll (WalletSignTransaction vtx r1)"
  "no_send_no_poll (SimulateTransaction c vtx a r2)"
  by (simp_all add: no_send_no_poll_def is_send_def is_status_query_def)





subsection \<open>Each pass sends once and polls at most five times\<close>




subsection \<open>The order of the status queries and the expiry check\<close>

lemma height_read_iff: "height_read c evs \<longleftrightarrow> (\<exists>r. evs = [GetBlockHeight c None r])"
  by (induction c evs rule: height_read.induct) auto

lemma is_height_simps [simp]:
  "\<not> is_height (SendTransaction c vtx so r)"
  "\<not> is_height (GetSignatureStatus c sg search r1)"
  "\<not> is_height (Sleep ms)"
  "is_height (GetBlockHeight c cm r2)"
  by (simp_all add: is_height_def)

lemma observed_status_simps [simp]:
  "\<not> observed_status ts (SendTransaction c vtx so r)"
  "observed_status ts (GetSignatureStatus c sg search r1) =
     (case r1 of Inl e \<Rightarrow> False | Inr v \<Rightarrow> reached ts v)"
  "\<not> observed_status ts (Sleep ms)"
  "\<not> observed_status ts (GetBlockHeight c cm r2)"
  by (simp_all add: observed_status_def split: sum.splits)

lemma polls_order:
  "polls cfg c sg n evs \<Longrightarrow>
     list_all (\<lambda>ev. \<not> is_height ev) (butlast evs) \<and>
     (list_ex (observed_status (spam_targets cfg)) evs \<longrightarrow> evs \<noteq> [] \<and> is_height (last evs))"
proof (induction cfg c sg n evs rule: polls.induct)
  case (1 cfg c sg evs)
  then show ?case by (auto simp: height_read_iff)
next
  case (2 cfg c sg n c' sg' search e rest)
  then show ?case by simp
next
  case (3 cfg c sg n c' sg' search v rest)
  show ?case
  proof (cases "reached (spam_targets cfg) v")
    case True
    with 3 show ?thesis by (auto simp: height_read_iff)
  next
    case False
    with 3 obtain ms rest' where rest: "rest = Sleep ms # rest'" "polls cfg c sg n rest'"
      by (auto simp: slept_def split: list.splits event.splits)
    with 3 False have "list_all (\<lambda>ev. \<not> is_height ev) (butlast rest') \<and>
        (list_ex (observed_status (spam_targets cfg)) rest' \<longrightarrow> rest' \<noteq> [] \<and> is_height (last rest'))"
      by (simp add: slept_def)
    with rest False show ?thesis by auto
  qed
qed simp_all

lemma iteration_shape_order:
  "iteration_shape cfg sc c vtx evs \<Longrightarrow>
     list_all (\<lambda>ev. \<not> is_height ev) (butlast evs) \<and>
     (list_ex (observed_status (spam_targets cfg)) evs \<longrightarrow> is_height (last evs))"
proof (induction cfg sc c vtx evs rule: iteration_shape.induct)
  case (2 cfg sc c vtx c' vtx' so sg rest)
  then have "polls cfg c sg 5 rest" by simp
  from polls_order [OF this] show ?case by auto
qed simp_all

lemma expired_raises:
  "expired lvbh ev \<Longrightarrow> raises lb lvbh ev = Some timeout_error"
  by (cases ev) (auto simp: expired_def timeout_error_def split: sum.splits)

lemma ends_with_butlast:
  "ends_with rs x evs \<Longrightarrow> list_all (\<lambda>ev. rs ev = None) (butlast evs)"
  by (induction rs x evs rule: ends_with.induct) auto

lemma ends_with_expired:
  assumes "ends_with (raises lb lvbh) x evs" and "list_ex (expired lvbh) evs"
  shows "x = Some timeout_error" and "expired lvbh (last evs)"
    and "\<not> list_ex (expired lvbh) (butlast evs)"
proof -
  from assms(2) obtain ev where ev: "ev \<in> set evs" "expired lvbh ev"
    by (auto simp: list_ex_iff)
  from ends_with_raise [OF assms(1) ev(1) expired_raises [OF ev(2)]]
  show "x = Some timeout_error" and "expired lvbh (last evs)"
    using ev(2) by simp_all
  from ends_with_butlast [OF assms(1)] show "\<not> list_ex (expired lvbh) (butlast evs)"
    by (auto simp: list_ex_iff list_all_iff dest: expired_raises [where lb = lb])
qed

lemma thrown_Some: "thrown out = Some e \<longleftrightarrow> out = Throw e"
  by (cases out) simp_all

lemma raised_Some: "raised r = Some e \<longleftrightarrow> r = Inl e"
  by (cases r) simp_all

lemma spam_iteration_run_final:
  "spam_iteration env_final processTransaction_spam rpc0 rpc0 signed0 1 ''pending'' (start spam1) =
     (Throw timeout_error,
      \<lparr>this = spam1,
       trace =
         [SendTransaction rpc0 signed0 (spam_sendOptions processTransaction_spam) (Inr ''sig''),
          GetSignatureStatus rpc0 (Some ''sig'') (Some False) (Inr status_finalized),
          GetBlockHeight rpc0 None (Inr 2)]\<rparr>)"
  by (simp add: numeral_eq_Suc loop_defs call_defs fixture_defs fixture_defs2 signed0_def
      timeout_error_def Let_def)

text \<open>
  C6. In a pass of the spam loop the block height is read last, after the status
  queries; it is read also when a query has reported a target status; and a pass that
  reads a height above \<open>lastValidBlockHeight\<close> throws the \<open>TimeoutError\<close>, whatever the
  status queries reported, and does not leave the loop with the signature.
\<close>

theorem expiry_check_follows_polls:
  "spam_iteration env cfg sc c vtx lvbh status st = (out, st') \<longrightarrow>
     list_all (\<lambda>ev. \<not> is_height ev) (butlast (added st st')) \<and>
     (list_ex (observed_status (spam_targets cfg)) (added st st') \<longrightarrow>
        is_height (last (added st st'))) \<and>
     (list_ex (expired lvbh) (added st st') \<longrightarrow>
        out = Throw (ProcessTransactionError timeout_message TimeoutError None))"
proof
  assume run: "spam_iteration env cfg sc c vtx lvbh status st = (out, st')"
  from iteration_shape_order [OF spam_iteration_shape [OF run]]
  have "list_all (\<lambda>ev. \<not> is_height ev) (butlast (added st st'))"
    and "list_ex (observed_status (spam_targets cfg)) (added st st') \<longrightarrow>
        is_height (last (added st st'))"
    by simp_all
  moreover from spam_iteration_surfaced [OF run, where lb = undefined]
  have "ends_with (raises undefined lvbh) (thrown out) (added st st')"
    by (simp add: surfaced_def)
  then have "list_ex (expired lvbh) (added st st') \<longrightarrow>
      out = Throw (ProcessTransactionError timeout_message TimeoutError None)"
    using ends_with_expired(1) [of undefined lvbh "thrown out" "added st st'"]
    by (auto simp: thrown_Some timeout_error_def)
  ultimately show "list_all (\<lambda>ev. \<not> is_height ev) (butlast (added st st')) \<and>
     (list_ex (observed_status (spam_targets cfg)) (added st st') \<longrightarrow>
        is_height (last (added st st'))) \<and>
     (list_ex (expired lvbh) (added st st') \<longrightarrow>
        out = Throw (ProcessTransactionError timeout_message TimeoutError None))"
    by simp
qed

theorem expiry_check_follows_polls_witness:
  "spam_iteration env_final processTransaction_spam rpc0 rpc0 signed0 1 ''pending'' (start spam1) =
     (Throw timeout_error,
      \<lparr>this = spam1,
       trace =
         [SendTransaction rpc0 signed0 (spam_sendOptions processTransaction_spam) (Inr ''sig''),
          GetSignatureStatus rpc0 (Some ''sig'') (Some False) (Inr status_finalized),
          GetBlockHeight rpc0 None (Inr 2)]\<rparr>) \<and>
   list_ex (observed_status (spam_targets processTransaction_spam))
     [SendTransaction rpc0 signed0 (spam_sendOptions processTransaction_spam) (Inr ''sig''),
      GetSignatureStatus rpc0 (Some ''sig'') (Some False) (Inr status_finalized),
      GetBlockHeight rpc0 None (Inr 2)] \<and>
   list_ex (expired 1)
     [SendTransaction rpc0 signed0 (spam_sendOptions processTransaction_spam) (Inr ''sig''),
      GetSignatureStatus rpc0 (Some ''sig'') (Some False) (Inr status_finalized),
      GetBlockHeight rpc0 None (Inr 2)] \<and>
   is_height (GetBlockHeight rpc0 None (Inr 2)) \<and>
   timeout_error = ProcessTransactionError timeout_message TimeoutError None"
  using expiry_check_follows_polls [of env_final processTransaction_spam rpc0 rpc0 signed0 1
      "''pending''" "start spam1" "Throw timeout_error"
      "\<lparr>this = spam1,
       trace =
         [SendTransaction rpc0 signed0 (spam_sendOptions processTransaction_spam) (Inr ''sig''),
          GetSignatureStatus rpc0 (Some ''sig'') (Some False) (Inr status_finalized),
          GetBlockHeight rpc0 None (Inr 2)]\<rparr>"]
    spam_iteration_run_final
  by (simp add: added_def start_def expired_def timeout_error_def reached_def
      processTransaction_spam_def status_finalized_def)

subsection \<open>The loop ends when the block height has passed the limit\<close>

lemma continues_length: "continues st st' \<Longrightarrow> length (trace st) \<le> length (trace st')"
  by (simp add: continues_def)

lemma spam_iteration_Continue:
  assumes "spam_iteration env cfg sc c vtx lvbh status st = (Continue s, st')"
  shows "\<exists>st2 height. continues st st2 \<and> rpc_getBlockHeight env (trace st2) c None = Inr height \<and>
           \<not> lvbh < height \<and> st' = emit (GetBlockHeight c None (Inr height)) st2"
proof -
  obtain r1 st1 where 1: "sendTransaction env sc vtx (spam_sendOptions cfg) st = (r1, st1)"
    by (cases "sendTransaction env sc vtx (spam_sendOptions cfg) st")
  with assms obtain sg where r1: "r1 = Inr sg"
    by (cases r1) (simp_all add: spam_iteration_def)
  obtain r2 st2 where 2: "sub_poll env cfg c sg 5 status st1 = (r2, st2)"
    by (cases "sub_poll env cfg c sg 5 status st1")
  with assms 1 r1 obtain status' where r2: "r2 = Inr status'"
    by (cases r2) (simp_all add: spam_iteration_def)
  from 1 have "continues st st1" by (auto simp: call_eqs)
  with sub_poll_continues [OF 2] have c: "continues st st2" by (rule continues_trans [rotated])
  let ?r3 = "rpc_getBlockHeight env (trace st2) c None"
  have 3: "getBlockHeight env c None st2 = (?r3, emit (GetBlockHeight c None ?r3) st2)"
    by (simp add: call_eqs)
  with assms 1 2 r1 r2 obtain height where "?r3 = Inr height" "\<not> lvbh < height"
    "st' = emit (GetBlockHeight c None (Inr height)) st2"
    by (cases ?r3) (auto simp: spam_iteration_def split: if_splits)
  with c show ?thesis by blast
qed

lemma spam_loop_returns:
  assumes "\<And>h. length (trace st) + k \<le> length h \<Longrightarrow>
             \<exists>height. rpc_getBlockHeight env h c None = Inr height \<and> lvbh < height"
  shows "spam_loop (Suc k) env cfg sc c vtx lvbh status st \<noteq> None"
  using assms
proof (induction k arbitrary: st status)
  case 0
  obtain out st' where 1: "spam_iteration env cfg sc c vtx lvbh status st = (out, st')"
    by (cases "spam_iteration env cfg sc c vtx lvbh status st")
  show ?case
  proof (cases out)
    case (Continue s)
    with spam_iteration_Continue [of env cfg sc c vtx lvbh status st s st'] 1
    obtain st2 height where "continues st st2"
      "rpc_getBlockHeight env (trace st2) c None = Inr height" "\<not> lvbh < height"
      by blast
    with 0 [of "trace st2"] continues_length [of st st2] show ?thesis by auto
  qed (simp_all add: 1)
next
  case (Suc k)
  obtain out st' where 1: "spam_iteration env cfg sc c vtx lvbh status st = (out, st')"
    by (cases "spam_iteration env cfg sc c vtx lvbh status st")
  show ?case
  proof (cases out)
    case (Continue s)
    with spam_iteration_Continue [of env cfg sc c vtx lvbh status st s st'] 1
    obtain st2 height where "continues st st2"
      "st' = emit (GetBlockHeight c None (Inr height)) st2"
      by blast
    with continues_length [of st st2] have "length (trace st) < length (trace st')"
      by simp
    with Suc.prems have "\<And>h. length (trace st') + k \<le> length h \<Longrightarrow>
        \<exists>height. rpc_getBlockHeight env h c None = Inr height \<and> lvbh < height"
      by simp
    from Suc.IH [OF this] 1 Continue show ?thesis by simp
  qed (simp_all add: 1)
qed

text \<open>With no failing call and no target status reported, a pass throws the timeout or
  goes round again.\<close>

lemma sub_poll_unconfirmed:
  assumes "\<And>h sg. \<exists>v. rpc_getSignatureStatus env h c sg (Some False) = Inr v \<and>
             \<not> reached (spam_targets cfg) v"
  shows "fst (sub_poll env cfg c sg n status st) = Inr status"
proof (induction n arbitrary: st)
  case 0
  then show ?case by simp
next
  case (Suc n)
  from assms [of "trace st" "Some sg"] obtain v where
    "rpc_getSignatureStatus env (trace st) c (Some sg) (Some False) = Inr v"
    "\<not> reached (spam_targets cfg) v"
    by blast
  with Suc.IH show ?case
    by (simp add: getSignatureStatus_def Let_def)
qed

lemma spam_iteration_unconfirmed:
  assumes "\<And>h. \<exists>height. rpc_getBlockHeight env h c None = Inr height"
    and "\<And>h. \<exists>sg. rpc_sendTransaction env h sc vtx (spam_sendOptions cfg) = Inr sg"
    and "\<And>h sg. \<exists>v. rpc_getSignatureStatus env h c sg (Some False) = Inr v \<and>
             \<not> reached (spam_targets cfg) v"
    and "status \<noteq> spam_label cfg"
  shows "fst (spam_iteration env cfg sc c vtx lvbh status st) \<in> {Throw timeout_error, Continue status}"
proof -
  from assms(2) [of "trace st"] obtain sg where
    1: "rpc_sendTransaction env (trace st) sc vtx (spam_sendOptions cfg) = Inr sg"
    by blast
  let ?st1 = "emit (SendTransaction sc vtx (spam_sendOptions cfg) (Inr sg)) st"
  obtain r2 st2 where 2: "sub_poll env cfg c sg 5 status ?st1 = (r2, st2)"
    by (cases "sub_poll env cfg c sg 5 status ?st1")
  with sub_poll_unconfirmed [of env c cfg sg 5 status ?st1, OF assms(3)]
  have r2: "r2 = Inr status" by simp
  from assms(1) [of "trace st2"] obtain height where
    3: "rpc_getBlockHeight env (trace st2) c None = Inr height"
    by blast
  from 1 2 r2 3 assms(4) show ?thesis
    by (simp add: spam_iteration_def sendTransaction_def getBlockHeight_def Let_def
        timeout_error_def)
qed

lemma spam_loop_unconfirmed:
  assumes "\<And>h. \<exists>height. rpc_getBlockHeight env h c None = Inr height"
    and "\<And>h. \<exists>sg. rpc_sendTransaction env h sc vtx (spam_sendOptions cfg) = Inr sg"
    and "\<And>h sg. \<exists>v. rpc_getSignatureStatus env h c sg (Some False) = Inr v \<and>
             \<not> reached (spam_targets cfg) v"
    and "status \<noteq> spam_label cfg"
  shows "spam_loop fuel env cfg sc c vtx lvbh status st = Some (r, st') \<Longrightarrow> r = Inl timeout_error"
proof (induction fuel arbitrary: st)
  case 0
  then show ?case by simp
next
  case (Suc fuel)
  obtain out st1 where 1: "spam_iteration env cfg sc c vtx lvbh status st = (out, st1)"
    by (cases "spam_iteration env cfg sc c vtx lvbh status st")
  with spam_iteration_unconfirmed [of env c sc vtx cfg status lvbh st, OF assms]
  have "out = Throw timeout_error \<or> out = Continue status" by simp
  with Suc 1 show ?case by auto
qed

lemma spam_loop_run_expired:
  "spam_loop 17 env0 processTransaction_spam rpc0 rpc0 signed0 15 ''pending'' (start spam1) =
     Some (Inl timeout_error,
           \<lparr>this = spam1, trace = unconfirmed_pass 11 @ unconfirmed_pass 23\<rparr>)"
  by (simp add: numeral_eq_Suc loop_defs call_defs fixture_defs fixture_defs2 signed0_def
      timeout_error_def Let_def unconfirmed_pass_def)

text \<open>
  What a caller of \<open>processTransaction\<close> sees of this: the \<open>catch\<close> block of the method
  receives the error of the expiry check and throws a \<open>FallthroughError\<close> with its message.
\<close>

lemma processTransaction_rethrows_timeout:
  "fst (the (processTransaction lib0 env_expired 1 (Transaction [''ix'']) None None None
               (start spam1))) =
     Inl (ProcessTransactionError timeout_message FallthroughError None)"
  by (simp add: numeral_eq_Suc processTransaction_defs loop_defs call_defs fixture_defs
      fixture_defs2 env_expired_def)

text \<open>
  C2. The spam loop of \<open>processTransaction\<close> and \<open>sendAndConfirmTransaction\<close>: a run in
  which a block height above \<open>lastValidBlockHeight\<close> is read ends with the
  \<open>ProcessTransactionError\<close> of kind \<open>TimeoutError\<close>, and that read is its last call. The
  loop ends: once the network reports such heights from some length \<open>length (trace st) + k\<close>
  of the history of calls on, \<open>k + 1\<close> passes are enough. And when moreover no call fails
  and no status query ever reports a target status, it ends with that error.
\<close>

theorem spam_loop_times_out:
  "(spam_loop fuel env cfg sc c vtx lvbh status st = Some (r, st') \<and>
    list_ex (expired lvbh) (added st st') \<longrightarrow>
      r = Inl (ProcessTransactionError timeout_message TimeoutError None) \<and>
      expired lvbh (last (added st st')) \<and>
      \<not> list_ex (expired lvbh) (butlast (added st st'))) \<and>
   ((\<forall>h. length (trace st) + k \<le> length h \<longrightarrow>
          (\<exists>height. rpc_getBlockHeight env h c None = Inr height \<and> lvbh < height)) \<longrightarrow>
      spam_loop (Suc k) env cfg sc c vtx lvbh status st \<noteq> None) \<and>
   ((\<forall>h. length (trace st) + k \<le> length h \<longrightarrow>
          (\<exists>height. rpc_getBlockHeight env h c None = Inr height \<and> lvbh < height)) \<and>
    (\<forall>h. \<exists>height. rpc_getBlockHeight env h c None = Inr height) \<and>
    (\<forall>h. \<exists>sg. rpc_sendTransaction env h sc vtx (spam_sendOptions cfg) = Inr sg) \<and>
    (\<forall>h sg. \<exists>v. rpc_getSignatureStatus env h c sg (Some False) = Inr v \<and>
               \<not> reached (spam_targets cfg) v) \<and>
    status \<noteq> spam_label cfg \<longrightarrow>
      (\<exists>st''. spam_loop (Suc k) env cfg sc c vtx lvbh status st =
         Some (Inl (ProcessTransactionError timeout_message TimeoutError None), st'')))"
proof -
  have a: "r = Inl (ProcessTransactionError timeout_message TimeoutError None) \<and>
      expired lvbh (last (added st st')) \<and> \<not> list_ex (expired lvbh) (butlast (added st st'))"
    if run: "spam_loop fuel env cfg sc c vtx lvbh status st = Some (r, st')"
      and seen: "list_ex (expired lvbh) (added st st')"
  proof -
    from spam_loop_surfaced [OF run, where lb = undefined]
    have "ends_with (raises undefined lvbh) (raised r) (added st st')"
      by (simp add: surfaced_def)
    from ends_with_expired [OF this seen] show ?thesis
      by (simp add: raised_Some timeout_error_def)
  qed
  have b: "spam_loop (Suc k) env cfg sc c vtx lvbh status st \<noteq> None"
    if "\<forall>h. length (trace st) + k \<le> length h \<longrightarrow>
          (\<exists>height. rpc_getBlockHeight env h c None = Inr height \<and> lvbh < height)"
    using that by (intro spam_loop_returns) blast
  have c: "\<exists>st''. spam_loop (Suc k) env cfg sc c vtx lvbh status st =
         Some (Inl (ProcessTransactionError timeout_message TimeoutError None), st'')"
    if late: "\<forall>h. length (trace st) + k \<le> length h \<longrightarrow>
          (\<exists>height. rpc_getBlockHeight env h c None = Inr height \<and> lvbh < height)"
      and h: "\<forall>h. \<exists>height. rpc_getBlockHeight env h c None = Inr height"
      and s: "\<forall>h. \<exists>sg. rpc_sendTransaction env h sc vtx (spam_sendOptions cfg) = Inr sg"
      and q: "\<forall>h sg. \<exists>v. rpc_getSignatureStatus env h c sg (Some False) = Inr v \<and>
               \<not> reached (spam_targets cfg) v"
      and l: "status \<noteq> spam_label cfg"
  proof -
    from b [OF late] obtain r0 st0 where
      run: "spam_loop (Suc k) env cfg sc c vtx lvbh status st = Some (r0, st0)"
      by auto
    from h s q have "r0 = Inl timeout_error"
      by (intro spam_loop_unconfirmed [OF _ _ _ l run]) blast+
    with run show ?thesis by (simp add: timeout_error_def)
  qed
  from a b c show ?thesis by blast
qed

theorem spam_loop_times_out_witness:
  "spam_loop 17 env0 processTransaction_spam rpc0 rpc0 signed0 15 ''pending'' (start spam1) =
     Some (Inl timeout_error,
           \<lparr>this = spam1, trace = unconfirmed_pass 11 @ unconfirmed_pass 23\<rparr>) \<and>
   list_ex (expired 15) (unconfirmed_pass 11 @ unconfirmed_pass 23) \<and>
   last (unconfirmed_pass 11 @ unconfirmed_pass 23) = GetBlockHeight rpc0 None (Inr 23) \<and>
   expired 15 (GetBlockHeight rpc0 None (Inr 23)) \<and>
   \<not> list_ex (expired 15) (butlast (unconfirmed_pass 11 @ unconfirmed_pass 23)) \<and>
   spam_loop (Suc 16) env0 processTransaction_spam rpc0 rpc0 signed0 15 ''pending'' (start spam1) \<noteq>
     None \<and>
   (\<exists>st''. spam_loop (Suc 16) env0 processTransaction_spam rpc0 rpc0 signed0 15 ''pending''
              (start spam1) =
            Some (Inl (ProcessTransactionError timeout_message TimeoutError None), st'')) \<and>
   timeout_error = ProcessTransactionError timeout_message TimeoutError None"
proof -
  have late: "\<forall>h. length (trace (start spam1)) + 16 \<le> length h \<longrightarrow>
        (\<exists>height. rpc_getBlockHeight env0 h rpc0 None = Inr height \<and> 15 < height)"
    by (simp add: env0_def start_def)
  have quiet: "\<forall>h. \<exists>height. rpc_getBlockHeight env0 h rpc0 None = Inr height"
    "\<forall>h. \<exists>sg. rpc_sendTransaction env0 h rpc0 signed0 (spam_sendOptions processTransaction_spam) =
              Inr sg"
    "\<forall>h sg. \<exists>v. rpc_getSignatureStatus env0 h rpc0 sg (Some False) = Inr v \<and>
              \<not> reached (spam_targets processTransaction_spam) v"
    "''pending'' \<noteq> spam_label processTransaction_spam"
    by (simp_all add: env0_def reached_def processTransaction_spam_def)
  have seen: "list_ex (expired 15) (unconfirmed_pass 11 @ unconfirmed_pass 23)"
    "last (unconfirmed_pass 11 @ unconfirmed_pass 23) = GetBlockHeight rpc0 None (Inr 23)"
    by (simp_all add: unconfirmed_pass_def expired_def)
  from spam_loop_times_out [of 17 env0 processTransaction_spam rpc0 rpc0 signed0 15 "''pending''"
      "start spam1" "Inl timeout_error"
      "\<lparr>this = spam1, trace = unconfirmed_pass 11 @ unconfirmed_pass 23\<rparr>" 16]
    spam_loop_run_expired late quiet seen
  show ?thesis
    by (simp add: added_def start_def timeout_error_def)
qed

subsection \<open>The loop of \<open>sendAndConfirmTrancationJito\<close>\<close>



lemma confirmation_simps [simp]:
  "\<not> confirmation (SendRawTransaction c raw so r)"
  "confirmation (GetSignatureStatus c sg search (Inr v)) = confirmed_status v"
  "\<not> confirmation (GetSignatureStatus c sg search (Inl e))"
  "\<not> confirmation (GetBlockHeight c cm r2)"
  "\<not> confirmation (Sleep ms)"
  "\<not> confirmation (GetLatestBlockhash c r3)"
  "\<not> confirmation (JitoPost tx r4)"
  by (simp_all add: confirmation_def observed_status_def confirmed_status_def)

lemma succeeded_simps [simp]:
  "succeeded (SendRawTransaction c raw so r) = (raised r = None)"
  "succeeded (GetSignatureStatus c sg search r1) = (raised r1 = None)"
  "succeeded (GetBlockHeight c cm r2) = (raised r2 = None)"
  "succeeded (GetLatestBlockhash c r3) = (raised r3 = None)"
  "succeeded (JitoPost tx r4) = (raised r4 = None)"
  "succeeded (Sleep ms)"
  by (simp_all add: succeeded_def failure_def raised_def split: sum.splits)




subsection \<open>The outcome of \<open>sendAndConfirmTrancationJito\<close>\<close>










subsection \<open>The size limits of a message\<close>

lemma within_limits_simps [simp]:
  "within_limits lb luts (SimulateTransaction c vtx a r) =
     (encoding_length lb (message vtx) \<le> 1232 \<and> account_keys_length lb (message vtx) luts < 64)"
  "within_limits lb luts (WalletSignTransaction vtx r') =
     (encoding_length lb (message vtx) \<le> 1232 \<and> account_keys_length lb (message vtx) luts < 64)"
  "within_limits lb luts (GetLatestBlockhashAndContext c r'')"
  by (simp_all add: within_limits_def is_send_def handled_transaction_def)

lemma signTranscationJito_within_limits:
  assumes "signTranscationJito lb env jitoTip instructions luts priorityFee st = (r, st')"
  shows "list_all (within_limits lb luts) (added st st')"
proof -
  from assms have "only_added (within_limits lb luts) st st'"
    unfolding signTranscationJito_def message_serialize_def Let_def
    by (auto simp: call_eqs split: outcome_splits)
  then show ?thesis by (rule only_added_all)
qed

text \<open>
  A message of 64 or more account keys that serializes: \<open>signTranscationJito\<close> returns
  \<open>false\<close> after the blockhash fetch.
\<close>

lemma signTranscationJito_returns_false:
  assumes "jitoTip \<noteq> 0"
    and "jito_instructions lb (publicKey (provider (program (this st)))) jitoTip priorityFee
        instructions = Inr ixs"
    and "rpc_getLatestBlockhashAndContext env (trace st)
        (connection (provider (program (this st)))) = Inr snap"
    and "compileToV0Message lb (publicKey (provider (program (this st)))) ixs (blockhash snap)
        (case luts of None \<Rightarrow> [] | Some ls \<Rightarrow> ls) = Inr m"
    and "encoding_length lb m \<le> 1232"
    and "64 \<le> account_keys_length lb m luts"
  shows "signTranscationJito lb env jitoTip instructions luts priorityFee st =
      (Inr ReturnedFalse,
       emit (GetLatestBlockhashAndContext (connection (provider (program (this st)))) (Inr snap))
         st)"
  using assms unfolding signTranscationJito_def message_serialize_def Let_def
  by (auto simp: getLatestBlockhashAndContext_def Let_def)

text \<open>
  A message of more than 1232 bytes does not serialize: \<open>signTranscationJito\<close> throws the
  error of \<open>serialize\<close> after the blockhash fetch, and its comparison of the size with 1232
  is not reached.
\<close>

lemma signTranscationJito_throws_on_size:
  assumes "jitoTip \<noteq> 0"
    and "jito_instructions lb (publicKey (provider (program (this st)))) jitoTip priorityFee
        instructions = Inr ixs"
    and "rpc_getLatestBlockhashAndContext env (trace st)
        (connection (provider (program (this st)))) = Inr snap"
    and "compileToV0Message lb (publicKey (provider (program (this st)))) ixs (blockhash snap)
        (case luts of None \<Rightarrow> [] | Some ls \<Rightarrow> ls) = Inr m"
    and "1232 < encoding_length lb m"
  shows "signTranscationJito lb env jitoTip instructions luts priorityFee st =
      (Inl (Error ''encoding overruns Uint8Array''),
       emit (GetLatestBlockhashAndContext (connection (provider (program (this st)))) (Inr snap))
         st)"
  using assms unfolding signTranscationJito_def message_serialize_def Let_def
  by (auto simp: getLatestBlockhashAndContext_def Let_def)

subsection \<open>The other two submission methods do not read the number of account keys\<close>

lemmas keys_congs =
  sum.case_cong option.case_cong prod.case_cong transaction.case_cong list.case_cong if_cong

lemma rethrow_keys [simp]:
  "rethrow (lb\<lparr>account_keys_length := f\<rparr>) type error = rethrow lb type error"
  by (simp add: rethrow_def cong: keys_congs)

lemma catch_send_keys [simp]:
  "catch_send (lb\<lparr>account_keys_length := f\<rparr>) pid error = catch_send lb pid error"
  by (cases "(lb, pid, error)" rule: catch_send.cases) simp_all

lemma simulation_failure_keys [simp]:
  "simulation_failure (lb\<lparr>account_keys_length := f\<rparr>) response = simulation_failure lb response"
  by (simp add: simulation_failure_def cong: keys_congs)

lemma message_serialize_keys [simp]:
  "message_serialize (lb\<lparr>account_keys_length := f\<rparr>) m = message_serialize lb m"
  by (simp add: message_serialize_def cong: keys_congs)

lemma to_versioned_keys [simp]:
  "to_versioned (lb\<lparr>account_keys_length := f\<rparr>) payer bh luts tx = to_versioned lb payer bh luts tx"
  by (simp add: to_versioned_def cong: keys_congs)

lemma mergedOpts_keys [simp]:
  "mergedOpts (lb\<lparr>account_keys_length := f\<rparr>) c mcs os = mergedOpts lb c mcs os"
  by (simp add: mergedOpts_def cong: keys_congs)

lemma spam_precheck_keys [simp]:
  "spam_precheck (lb\<lparr>account_keys_length := f\<rparr>) env c vtx os mcs st =
     spam_precheck lb env c vtx os mcs st"
  by (simp add: spam_precheck_def cong: keys_congs)

lemma processTransaction_build_keys [simp]:
  "processTransaction_build (lb\<lparr>account_keys_length := f\<rparr>) env c tx signers st =
     processTransaction_build lb env c tx signers st"
  by (simp add: processTransaction_build_def cong: keys_congs)

lemma processTransaction_send_keys [simp]:
  "processTransaction_send (lb\<lparr>account_keys_length := f\<rparr>) env fuel c sc os mcs bh lvbh vtx st =
     processTransaction_send lb env fuel c sc os mcs bh lvbh vtx st"
  by (simp add: processTransaction_send_def cong: keys_congs)

lemma processTransaction_keys:
  "processTransaction (lb\<lparr>account_keys_length := f\<rparr>) env fuel tx signers os ca st =
     processTransaction lb env fuel tx signers os ca st"
  by (simp add: processTransaction_def cong: keys_congs)

lemma sendAndConfirmTransaction_body_keys [simp]:
  "sendAndConfirmTransaction_body (lb\<lparr>account_keys_length := f\<rparr>) env fuel c sc vtx os st =
     sendAndConfirmTransaction_body lb env fuel c sc vtx os st"
  by (simp add: sendAndConfirmTransaction_body_def cong: keys_congs)

lemma sendAndConfirmTransaction_keys:
  "sendAndConfirmTransaction (lb\<lparr>account_keys_length := f\<rparr>) env fuel vtx os ca st =
     sendAndConfirmTransaction lb env fuel vtx os ca st"
  by (simp add: sendAndConfirmTransaction_def cong: keys_congs)

text \<open>
  C1, as the code has it. Of the three submission methods only \<open>signTranscationJito\<close>
  looks at the limits. When the compiled message serializes and resolves 64 or more
  account keys, it returns \<open>false\<close> at once: of the run only the blockhash fetch is left
  in the trace. In every run, each transaction it simulates or hands to the wallet takes
  at most 1232 bytes and resolves fewer than 64 account keys, and it sends nothing.
  \<open>processTransaction\<close> and \<open>sendAndConfirmTransaction\<close> do not read the number of account
  keys: with any other count \<open>f\<close> for every message they run as before.
\<close>

theorem signTranscationJito_alone_checks_limits:
  "(jitoTip \<noteq> 0 \<and>
    jito_instructions lb (publicKey (provider (program (this st)))) jitoTip priorityFee
      instructions = Inr ixs \<and>
    rpc_getLatestBlockhashAndContext env (trace st) (connection (provider (program (this st)))) =
      Inr snap \<and>
    compileToV0Message lb (publicKey (provider (program (this st)))) ixs (blockhash snap)
      (case luts of None \<Rightarrow> [] | Some ls \<Rightarrow> ls) = Inr m \<and>
    encoding_length lb m \<le> 1232 \<and> 64 \<le> account_keys_length lb m luts \<longrightarrow>
    signTranscationJito lb env jitoTip instructions luts priorityFee st =
      (Inr ReturnedFalse,
       emit (GetLatestBlockhashAndContext (connection (provider (program (this st)))) (Inr snap))
         st)) \<and>
   (signTranscationJito lb env jitoTip instructions luts priorityFee st = (r, st') \<longrightarrow>
      list_all (within_limits lb luts) (added st st')) \<and>
   MarginfiClient_processTransaction (lb\<lparr>account_keys_length := f\<rparr>) env fuel tx signers os
       connection_args st =
     MarginfiClient_processTransaction lb env fuel tx signers os connection_args st \<and>
   MarginfiClient_sendAndConfirmTransaction (lb\<lparr>account_keys_length := f\<rparr>) env fuel vtx os
       connection_args st =
     MarginfiClient_sendAndConfirmTransaction lb env fuel vtx os connection_args st"
proof (intro conjI impI)
  assume "jitoTip \<noteq> 0 \<and>
    jito_instructions lb (publicKey (provider (program (this st)))) jitoTip priorityFee
      instructions = Inr ixs \<and>
    rpc_getLatestBlockhashAndContext env (trace st) (connection (provider (program (this st)))) =
      Inr snap \<and>
    compileToV0Message lb (publicKey (provider (program (this st)))) ixs (blockhash snap)
      (case luts of None \<Rightarrow> [] | Some ls \<Rightarrow> ls) = Inr m \<and>
    encoding_length lb m \<le> 1232 \<and> 64 \<le> account_keys_length lb m luts"
  then show "signTranscationJito lb env jitoTip instructions luts priorityFee st =
      (Inr ReturnedFalse,
       emit (GetLatestBlockhashAndContext (connection (provider (program (this st)))) (Inr snap))
         st)"
    by (intro signTranscationJito_returns_false [where ixs = ixs and m = m]) simp_all
next
  assume "signTranscationJito lb env jitoTip instructions luts priorityFee st = (r, st')"
  then show "list_all (within_limits lb luts) (added st st')"
    by (rule signTranscationJito_within_limits)
next
  show "MarginfiClient_processTransaction (lb\<lparr>account_keys_length := f\<rparr>) env fuel tx signers os
       connection_args st =
     MarginfiClient_processTransaction lb env fuel tx signers os connection_args st"
    by (simp add: MarginfiClient_processTransaction_def processTransaction_keys cong: keys_congs)
next
  show "MarginfiClient_sendAndConfirmTransaction (lb\<lparr>account_keys_length := f\<rparr>) env fuel vtx os
       connection_args st =
     MarginfiClient_sendAndConfirmTransaction lb env fuel vtx os connection_args st"
    by (simp add: MarginfiClient_sendAndConfirmTransaction_def sendAndConfirmTransaction_keys
        cong: keys_congs)
qed

theorem signTranscationJito_alone_checks_limits_witness:
  "signTranscationJito lib0 env0 1 [''wide''] None None (start fetched0) =
     (Inr ReturnedFalse,
      \<lparr>this = fetched0, trace = [GetLatestBlockhashAndContext connection0 (Inr snapshot0)]\<rparr>) \<and>
   encoding_length lib0 ''widetip'' = 200 \<and>
   account_keys_length lib0 ''widetip'' None = 64 \<and>
   list_all (within_limits lib0 None)
     (added (start fetched0)
        (snd (signTranscationJito lib0 env0 1 [''wide''] None None (start fetched0)))) \<and>
   MarginfiClient_processTransaction (lib0\<lparr>account_keys_length := (\<lambda>m luts. 10)\<rparr>) env0 0
       (Transaction [''wide'']) None None None (start fetched0) =
     MarginfiClient_processTransaction lib0 env0 0 (Transaction [''wide'']) None None None
       (start fetched0) \<and>
   MarginfiClient_sendAndConfirmTransaction (lib0\<lparr>account_keys_length := (\<lambda>m luts. 10)\<rparr>) env0 0
       wide_vtx None None (start fetched0) =
     MarginfiClient_sendAndConfirmTransaction lib0 env0 0 wide_vtx None None (start fetched0)"
proof -
  have size: "encoding_length lib0 ''widetip'' = 200" "account_keys_length lib0 ''widetip'' None = 64"
    by (simp_all add: lib0_def)
  have st: "emit (GetLatestBlockhashAndContext
                   (connection (provider (program (this (start fetched0))))) (Inr snapshot0))
              (start fetched0) =
      \<lparr>this = fetched0, trace = [GetLatestBlockhashAndContext connection0 (Inr snapshot0)]\<rparr>"
    by (simp add: emit_def start_def fetched0_def)
  from signTranscationJito_alone_checks_limits [of 1 lib0 "start fetched0" None "[''wide'']"
      "[''wide'', ''tip'']" env0 snapshot0 None "''widetip''"
      "fst (signTranscationJito lib0 env0 1 [''wide''] None None (start fetched0))"
      "snd (signTranscationJito lib0 env0 1 [''wide''] None None (start fetched0))"
      "\<lambda>m luts. 10" 0 "Transaction [''wide'']" None None None wide_vtx]
  have "signTranscationJito lib0 env0 1 [''wide''] None None (start fetched0) =
      (Inr ReturnedFalse,
       emit (GetLatestBlockhashAndContext
               (connection (provider (program (this (start fetched0))))) (Inr snapshot0))
         (start fetched0))"
    and "list_all (within_limits lib0 None)
     (added (start fetched0)
        (snd (signTranscationJito lib0 env0 1 [''wide''] None None (start fetched0))))"
    and "MarginfiClient_processTransaction (lib0\<lparr>account_keys_length := (\<lambda>m luts. 10)\<rparr>) env0 0
       (Transaction [''wide'']) None None None (start fetched0) =
     MarginfiClient_processTransaction lib0 env0 0 (Transaction [''wide'']) None None None
       (start fetched0)"
    and "MarginfiClient_sendAndConfirmTransaction (lib0\<lparr>account_keys_length := (\<lambda>m luts. 10)\<rparr>) env0 0
       wide_vtx None None (start fetched0) =
     MarginfiClient_sendAndConfirmTransaction lib0 env0 0 wide_vtx None None (start fetched0)"
    by (simp_all add: jito_instructions_def fixture_defs)
  with size st show ?thesis by simp
qed

text \<open>
  As stated, C1 fails: \<open>processTransaction\<close> does not count the account keys of the
  message it compiled. Here the message takes 200 bytes and resolves 64 account keys,
  and the transaction is signed by the wallet, sent and confirmed.
\<close>

theorem processTransaction_sends_wide_message:
  "encoding_length lib0 (message wide_vtx) = 200 \<and>
   account_keys_length lib0 (message wide_vtx) (Some [''lut1'']) = 64 \<and>
   MarginfiClient_processTransaction lib0 env0 0 (Transaction [''wide'']) None None None
     (start fetched0) =
     Some (Inr ''sig'',
       \<lparr>this = fetched0,
        trace =
          [GetLatestBlockhashAndContext rpc0 (Inr snapshot0),
           WalletSignTransaction wide_vtx (Inr (wide_vtx\<lparr>signatures := [''walletsig'']\<rparr>)),
           SendTransaction rpc0 (wide_vtx\<lparr>signatures := [''walletsig'']\<rparr>)
             \<lparr>so_skipPreflight = Some False, so_preflightCommitment = Some ''processed'',
              so_maxRetries = None\<rparr>
             (Inr ''sig''),
           ConfirmTransaction rpc0 ''hash'' 50 ''sig'' ''finalized'' (Inr ())]\<rparr>)"
  by (simp add: MarginfiClient_processTransaction_def new_sendConnection_def
      processTransaction_defs call_defs fixture_defs fixture_defs2 wide_vtx_def)

subsection \<open>The failing step of a run\<close>

lemma reported_failure_eq [simp]:
  "reported_failure lb (sim_err response) (sim_logs response) = simulation_failure lb response"
  by (cases "(lb, sim_err response, sim_logs response)" rule: reported_failure.cases)
     (simp_all add: simulation_failure_def)

lemma failing_step_simps [simp]:
  "failing_step lb k build dry lvbh (GetLatestBlockhashAndContext c (Inl e)) = Some (k, e)"
  "failing_step lb k build dry lvbh (GetLatestBlockhashAndContext c (Inr snap)) =
     map_option (Pair k) (build snap)"
  "failing_step lb k build dry lvbh (SimulateTransaction c vtx a (Inr response)) =
     map_option (Pair Sending)
       (if dry then dry_run_failure lb vtx response else simulation_failure lb response)"
  "failing_step lb k build dry lvbh (SimulateTransaction c vtx a (Inl e)) = Some (Sending, e)"
  "failing_step lb k build dry lvbh (GetBlockHeight c cm (Inr h)) =
     (if lvbh < h then Some (Sending, timeout_error) else None)"
  "failing_step lb k build dry lvbh (GetBlockHeight c cm (Inl e)) = Some (Sending, e)"
  "failing_step lb k build dry lvbh (WalletSignTransaction vtx r2) =
     map_option (Pair Sending) (raised r2)"
  "failing_step lb k build dry lvbh (SendTransaction c vtx so r3) =
     map_option (Pair Sending) (raised r3)"
  "failing_step lb k build dry lvbh (GetSignatureStatus c sg search r4) =
     map_option (Pair Sending) (raised r4)"
  "failing_step lb k build dry lvbh (ConfirmTransaction c bh l sg' cm' r5) =
     map_option (Pair Sending) (raised r5)"
  "failing_step lb k build dry lvbh (Sleep ms) = None"
  by (simp_all add: failing_step_def failure_def raised_def split: sum.splits)

lemma list_all_butlast_last:
  "xs \<noteq> [] \<Longrightarrow> list_all P xs = (list_all P (butlast xs) \<and> P (last xs))"
  by (induction xs) auto

lemma stopped_by_None:
  "stopped_by rs None st st' = (continues st st' \<and> list_all (\<lambda>ev. rs ev = None) (added st st'))"
  by (cases "added st st'" rule: rev_cases) (auto simp: stopped_by_def)

lemma stopped_by_continues: "stopped_by rs x st st' \<Longrightarrow> continues st st'"
  by (simp add: stopped_by_def)

lemma stopped_by_refl [simp]: "stopped_by rs x st st = (x = None)"
  by (auto simp: stopped_by_def)

lemma stopped_by_emit [simp]: "stopped_by rs x st (emit ev st) = (rs ev = x)"
  by (simp add: stopped_by_def)

lemma stopped_by_seq:
  assumes "stopped_by rs None st st1" and "stopped_by rs x st1 st2"
  shows "stopped_by rs x st st2"
proof -
  from assms have "added st st2 = added st st1 @ added st1 st2"
    by (simp add: stopped_by_def added_trans [of st st1 st2])
  with assms(2) assms(1) [unfolded stopped_by_None] show ?thesis
    by (cases "added st1 st2" rule: rev_cases)
       (auto simp: stopped_by_def butlast_append list_all_butlast_last intro: continues_trans)
qed

lemma stopped_by_emit_nested [simp]:
  "continues st st1 \<Longrightarrow>
     stopped_by rs x st (emit ev st1) = (stopped_by rs None st st1 \<and> rs ev = x)"
  by (auto simp: stopped_by_def stopped_by_None continues_emit2 list_all_butlast_last)

lemma stopped_by_from_emit:
  "stopped_by rs x (emit ev st) st' \<Longrightarrow> rs ev = None \<Longrightarrow> stopped_by rs x st st'"
  by (rule stopped_by_seq [of rs st "emit ev st"]) simp_all

lemma stopped_by_from_sleep:
  "stopped_by rs x (sleep ms st) st' \<Longrightarrow> rs (Sleep ms) = None \<Longrightarrow> stopped_by rs x st st'"
  unfolding sleep_def by (rule stopped_by_from_emit)

lemma sub_poll_stopped:
  "sub_poll env cfg c sg n status st = (r, st') \<Longrightarrow>
     stopped_by (failing_step lb k build dry lvbh) (map_option (Pair Sending) (raised r)) st st'"
proof (induction n arbitrary: st)
  case 0
  then show ?case by auto
next
  case (Suc n)
  let ?rs = "failing_step lb k build dry lvbh"
  let ?r = "rpc_getSignatureStatus env (trace st) c (Some sg) (Some False)"
  let ?st1 = "emit (GetSignatureStatus c (Some sg) (Some False) ?r) st"
  have 1: "getSignatureStatus env c (Some sg) (Some False) st = (?r, ?st1)"
    by (simp add: call_eqs)
  show ?case
  proof (cases "\<exists>v. ?r = Inr v \<and> \<not> reached (spam_targets cfg) v")
    case True
    with Suc.prems 1 have "sub_poll env cfg c sg n status (sleep (spam_sleep cfg) ?st1) = (r, st')"
      by auto
    from Suc.IH [OF this]
    have "stopped_by ?rs (map_option (Pair Sending) (raised r)) (sleep (spam_sleep cfg) ?st1) st'" .
    then have "stopped_by ?rs (map_option (Pair Sending) (raised r)) ?st1 st'"
      by (rule stopped_by_from_sleep) simp
    moreover from True have "?rs (GetSignatureStatus c (Some sg) (Some False) ?r) = None"
      by auto
    ultimately show ?thesis by (rule stopped_by_from_emit)
  next
    case False
    with Suc.prems 1 have "st' = ?st1 \<and> raised ?r = raised r"
      by (cases ?r) (auto split: if_splits)
    then show ?thesis by simp
  qed
qed

lemma spam_iteration_stopped:
  assumes "spam_iteration env cfg sc c vtx lvbh status st = (out, st')"
  shows "stopped_by (failing_step lb k build dry lvbh) (map_option (Pair Sending) (thrown out))
           st st'"
proof -
  let ?rs = "failing_step lb k build dry lvbh"
  obtain r1 st1 where 1: "sendTransaction env sc vtx (spam_sendOptions cfg) st = (r1, st1)"
    by (cases "sendTransaction env sc vtx (spam_sendOptions cfg) st")
  then have a: "stopped_by ?rs (map_option (Pair Sending) (raised r1)) st st1"
    by (auto simp: call_eqs)
  show ?thesis
  proof (cases r1)
    case (Inl e)
    with assms 1 a show ?thesis by (auto simp: spam_iteration_def)
  next
    case (Inr sg)
    obtain r2 st2 where 2: "sub_poll env cfg c sg 5 status st1 = (r2, st2)"
      by (cases "sub_poll env cfg c sg 5 status st1")
    from a Inr sub_poll_stopped [OF 2, of lb k build dry lvbh]
    have b: "stopped_by ?rs (map_option (Pair Sending) (raised r2)) st st2"
      by (auto intro: stopped_by_seq)
    show ?thesis
    proof (cases r2)
      case (Inl e)
      with assms 1 2 Inr b show ?thesis by (auto simp: spam_iteration_def)
    next
      case (Inr status')
      obtain r3 st3 where 3: "getBlockHeight env c None st2 = (r3, st3)"
        by (cases "getBlockHeight env c None st2")
      from assms 1 2 3 \<open>r1 = Inr sg\<close> Inr
      have "st' = st3"
        and "?rs (GetBlockHeight c None r3) = map_option (Pair Sending) (thrown out)"
        by (auto simp: spam_iteration_def timeout_error_def split: sum.splits if_splits)
      with 3 have "stopped_by ?rs (map_option (Pair Sending) (thrown out)) st2 st'"
        by (auto simp: call_eqs)
      with b Inr show ?thesis by (auto intro: stopped_by_seq)
    qed
  qed
qed

lemma spam_loop_stopped:
  "spam_loop fuel env cfg sc c vtx lvbh status st = Some (r, st') \<Longrightarrow>
     stopped_by (failing_step lb k build dry lvbh) (map_option (Pair Sending) (raised r)) st st'"
proof (induction fuel arbitrary: st status)
  case 0
  then show ?case by simp
next
  case (Suc fuel)
  obtain out st1 where 1: "spam_iteration env cfg sc c vtx lvbh status st = (out, st1)"
    by (cases "spam_iteration env cfg sc c vtx lvbh status st")
  note a = spam_iteration_stopped [OF 1, of lb k build dry]
  show ?case
  proof (cases out)
    case (Break sg)
    with Suc.prems 1 a show ?thesis by auto
  next
    case (Throw e)
    with Suc.prems 1 a show ?thesis by auto
  next
    case (Continue status')
    with Suc.prems 1 have "spam_loop fuel env cfg sc c vtx lvbh status' st1 = Some (r, st')"
      by simp
    from Suc.IH [OF this] a Continue show ?thesis by (auto intro: stopped_by_seq)
  qed
qed

lemma raised_InrI: "Inr v = r \<Longrightarrow> raised r = None"
  by auto

lemma spam_precheck_stopped:
  "spam_precheck lb env c vtx os mcs st = (r, st') \<Longrightarrow>
     stopped_by (failing_step lb k build False lvbh) (map_option (Pair Sending) (raised r)) st st'"
  unfolding spam_precheck_def
  by (auto simp: call_eqs split: outcome_splits)

lemma processTransaction_send_stopped:
  assumes "processTransaction_send lb env fuel c sc os mcs bh lvbh vtx st = Some (r, st')"
  shows "stopped_by (failing_step lb k build (simulates_only (this st) os) lvbh)
           (map_option (Pair Sending) (raised r)) st st'"
proof (cases "wants_dryRun os \<or> isReadOnly (this st)")
  case True
  then have dry: "simulates_only (this st) os"
    by (simp add: simulates_only_def wants_dryRun_def)
  from assms True show ?thesis
    unfolding processTransaction_send_def
    by (auto simp: dry call_eqs dry_run_failure_def message_serialize_def split: outcome_splits)
next
  case False
  then have dry: "simulates_only (this st) os = False"
    by (simp add: simulates_only_def wants_dryRun_def)
  let ?rs = "failing_step lb k build False lvbh"
  obtain r1 st1 where 1: "wallet_sign env vtx st = (r1, st1)"
    by (cases "wallet_sign env vtx st")
  then have a: "stopped_by ?rs (map_option (Pair Sending) (raised r1)) st st1"
    by (auto simp: call_eqs)
  have "stopped_by ?rs (map_option (Pair Sending) (raised r)) st st'"
  proof (cases r1)
    case (Inl e)
    with assms False 1 a show ?thesis by (auto simp: processTransaction_send_def)
  next
    case (Inr vtx')
    with a have a': "stopped_by ?rs None st st1" by simp
    show ?thesis
    proof (cases "spamSendTx (this st1)")
      case True
      obtain r2 st2 where 2: "spam_precheck lb env c vtx' os mcs st1 = (r2, st2)"
        by (cases "spam_precheck lb env c vtx' os mcs st1")
      from a' spam_precheck_stopped [OF 2, of k build lvbh]
      have b: "stopped_by ?rs (map_option (Pair Sending) (raised r2)) st st2"
        by (rule stopped_by_seq)
      show ?thesis
      proof (cases r2)
        case (Inl e)
        with assms False 1 2 True \<open>r1 = Inr vtx'\<close> b show ?thesis
          by (auto simp: processTransaction_send_def)
      next
        case (Inr u)
        with assms False 1 2 True \<open>r1 = Inr vtx'\<close>
        have "spam_loop fuel env processTransaction_spam sc c vtx' lvbh ''pending'' st2 =
            Some (r, st')"
          by (simp add: processTransaction_send_def)
        from spam_loop_stopped [OF this, of lb k build False] b Inr show ?thesis
          by (auto intro: stopped_by_seq)
      qed
    next
      case no_spam: False
      with assms False 1 Inr
      have "stopped_by ?rs (map_option (Pair Sending) (raised r)) st1 st'"
        unfolding processTransaction_send_def
        by (auto simp: call_eqs split: outcome_splits intro: raised_InrI)
      with a' show ?thesis by (rule stopped_by_seq)
    qed
  qed
  then show ?thesis unfolding dry .
qed

subsection \<open>What the \<open>catch\<close> blocks throw\<close>

lemma rethrow_typed:
  "typed_error lb pid Building e = Some e' \<Longrightarrow> rethrow lb TransactionBuildingError e = e'"
  by (cases e) (auto simp: typed_error_def rethrow_def)

lemma catch_send_typed:
  "typed_error lb pid Sending e = Some e' \<Longrightarrow> catch_send lb pid e = e'"
  by (cases "(lb, pid, e)" rule: catch_send.cases)
     (auto simp: typed_error_def rethrow_def split: option.splits)

lemma typed_outcomeI:
  assumes "stopped_by step x st st'"
    and "case x of
           None \<Rightarrow> raised r = None
         | Some (k, e) \<Rightarrow>
             (case typed_error lb pid k e of None \<Rightarrow> raised r \<noteq> None | Some e' \<Rightarrow> r = Inl e')"
  shows "typed_outcome lb pid step (added st st') r"
  using assms by (simp add: stopped_by_def typed_outcome_def)

lemma processTransaction_build_fails:
  assumes "processTransaction_build lb env c tx signers st = (Inl e, st1)"
  shows "failing_step lb Building (build_failure lb (this st) tx signers) dry lvbh
           (GetLatestBlockhashAndContext c (rpc_getLatestBlockhashAndContext env (trace st) c)) =
         Some (Building, e)"
  using assms unfolding processTransaction_build_def to_versioned_def build_failure_def
  by (auto simp: call_eqs split: outcome_splits transaction.splits)

lemma processTransaction_build_passes:
  assumes "processTransaction_build lb env c tx signers st = (Inr quad, st1)"
  shows "failing_step lb Building (build_failure lb (this st) tx signers) dry lvbh
           (GetLatestBlockhashAndContext c (rpc_getLatestBlockhashAndContext env (trace st) c)) =
         None"
  using assms unfolding processTransaction_build_def to_versioned_def build_failure_def
  by (auto simp: call_eqs split: outcome_splits transaction.splits)

lemma processTransaction_typed:
  assumes "processTransaction lb env fuel tx signers os ca st = Some (r, st')"
  shows "typed_outcome lb (programId (config (this st)))
           (failing_step lb Building (build_failure lb (this st) tx signers)
              (simulates_only (this st) os) (snapshot_limit (added st st')))
           (added st st') r"
proof -
  let ?c = "pick_connection (this st) ca"
  let ?pid = "programId (config (this st))"
  let ?ev = "GetLatestBlockhashAndContext ?c (rpc_getLatestBlockhashAndContext env (trace st) ?c)"
  let ?step = "failing_step lb Building (build_failure lb (this st) tx signers)
                 (simulates_only (this st) os)"
  obtain r1 st1 where 1: "processTransaction_build lb env ?c tx signers st = (r1, st1)"
    by (cases "processTransaction_build lb env ?c tx signers st")
  note shape = processTransaction_build_trace [OF 1]
  show ?thesis
  proof (cases r1)
    case (Inl e)
    with assms 1 have r: "r = Inl (rethrow lb TransactionBuildingError e)" and st': "st' = st1"
      by (simp_all add: processTransaction_def Let_def)
    from 1 Inl have "?step (snapshot_limit (added st st')) ?ev = Some (Building, e)"
      by (simp add: processTransaction_build_fails)
    then have "stopped_by (?step (snapshot_limit (added st st'))) (Some (Building, e)) st st'"
      unfolding st' shape(1) by simp
    then show ?thesis
      by (rule typed_outcomeI) (auto simp: r rethrow_typed split: option.splits)
  next
    case (Inr quad)
    obtain mcs bh lvbh vtx where quad: "quad = (mcs, bh, lvbh, vtx)"
      by (cases quad)
    from shape(2) [of mcs bh lvbh vtx] Inr quad obtain snap where
      snap: "rpc_getLatestBlockhashAndContext env (trace st) ?c = Inr snap"
        "lvbh = lastValidBlockHeight snap"
      by auto
    from assms 1 Inr quad obtain r2 where
      2: "processTransaction_send lb env fuel ?c (send_connection (this st) ?c) os mcs bh lvbh vtx st1 =
         Some (r2, st')"
      and r: "r = (case r2 of Inl e \<Rightarrow> Inl (catch_send lb (programId (config (this st'))) e)
                   | Inr sg \<Rightarrow> Inr sg)"
      by (auto simp: processTransaction_def Let_def split: option.splits sum.splits prod.splits)
    from shape(1) have this1: "this st1 = this st" by simp
    note s = processTransaction_send_stopped [OF 2, of Building "build_failure lb (this st) tx signers",
        unfolded this1]
    from processTransaction_send_continues [OF 2] shape(1)
    have this': "this st' = this st"
      by (auto dest!: continues_this)
    from s shape(1) snap
    have added: "added st st' = GetLatestBlockhashAndContext ?c (Inr snap) # added st1 st'"
      by (simp add: added_from_emit stopped_by_def)
    then have limit: "snapshot_limit (added st st') = lvbh"
      by (simp add: snapshot_limit_def snap)
    from 1 Inr have "?step lvbh ?ev = None"
      by (simp add: processTransaction_build_passes)
    with s have "stopped_by (?step lvbh) (map_option (Pair Sending) (raised r2)) st st'"
      unfolding shape(1) by (rule stopped_by_from_emit)
    then show ?thesis
      unfolding limit
      by (rule typed_outcomeI) (cases r2; auto simp: r this' catch_send_typed split: option.splits)
  qed
qed

lemma sendAndConfirmTransaction_body_stopped:
  assumes "sendAndConfirmTransaction_body lb env fuel c sc vtx os st = Some (r, st')"
  shows "stopped_by (failing_step lb Sending (\<lambda>snap. None) False (snapshot_limit (added st st')))
           (map_option (Pair Sending) (raised r)) st st'"
proof -
  let ?rr = "rpc_getLatestBlockhashAndContext env (trace st) c"
  let ?ev = "GetLatestBlockhashAndContext c ?rr"
  let ?st1 = "emit ?ev st"
  let ?step = "failing_step lb Sending (\<lambda>snap. None) False"
  have 1: "getLatestBlockhashAndContext env c st = (?rr, ?st1)"
    by (simp add: call_eqs)
  show ?thesis
  proof (cases ?rr)
    case (Inl e)
    with assms 1 have "r = Inl e" "st' = ?st1"
      by (simp_all add: sendAndConfirmTransaction_body_def)
    with Inl show ?thesis by simp
  next
    case (Inr snap)
    let ?lvbh = "lastValidBlockHeight snap"
    let ?rs = "?step ?lvbh"
    have s: "stopped_by ?rs (map_option (Pair Sending) (raised r)) ?st1 st'"
    proof (cases "spamSendTx (this ?st1)")
      case True
      obtain r2 st2 where 2: "spam_precheck lb env c vtx os (slot snap - 4) ?st1 = (r2, st2)"
        by (cases "spam_precheck lb env c vtx os (slot snap - 4) ?st1")
      note b = spam_precheck_stopped [OF 2, of Sending "\<lambda>snap. None" ?lvbh]
      show ?thesis
      proof (cases r2)
        case (Inl e)
        with assms 1 2 True Inr b show ?thesis
          by (auto simp: sendAndConfirmTransaction_body_def)
      next
        case inr: (Inr u)
        with assms 1 2 True Inr
        have "spam_loop fuel env sendAndConfirmTransaction_spam sc c vtx ?lvbh ''pending'' st2 =
            Some (r, st')"
          by (simp add: sendAndConfirmTransaction_body_def)
        from spam_loop_stopped [OF this, of lb Sending "\<lambda>snap. None" False] b inr show ?thesis
          by (auto intro: stopped_by_seq)
      qed
    next
      case False
      with assms 1 Inr show ?thesis
        unfolding sendAndConfirmTransaction_body_def
        by (auto simp: call_eqs split: outcome_splits intro: raised_InrI)
    qed
    then have added: "added st st' = ?ev # added ?st1 st'"
      by (simp add: added_from_emit stopped_by_def)
    with Inr have limit: "snapshot_limit (added st st') = ?lvbh"
      by (simp add: snapshot_limit_def)
    from s have "stopped_by ?rs (map_option (Pair Sending) (raised r)) st st'"
      by (rule stopped_by_from_emit) (simp add: Inr)
    with limit show ?thesis by simp
  qed
qed

lemma sendAndConfirmTransaction_typed:
  assumes "sendAndConfirmTransaction lb env fuel vtx os ca st = Some (r, st')"
  shows "typed_outcome lb (programId (config (this st)))
           (failing_step lb Sending (\<lambda>snap. None) False (snapshot_limit (added st st')))
           (added st st') r"
proof -
  let ?c = "pick_connection (this st) ca"
  from assms obtain r1 where
    1: "sendAndConfirmTransaction_body lb env fuel ?c (send_connection (this st) ?c) vtx os st =
          Some (r1, st')"
    and r: "r = (case r1 of Inl e \<Rightarrow> Inl (catch_send lb (programId (config (this st'))) e)
                 | Inr sg \<Rightarrow> Inr sg)"
    by (auto simp: sendAndConfirmTransaction_def Let_def split: option.splits sum.splits prod.splits)
  from sendAndConfirmTransaction_body_continues [OF 1] have this': "this st' = this st"
    by (auto dest!: continues_this)
  from sendAndConfirmTransaction_body_stopped [OF 1] show ?thesis
    by (rule typed_outcomeI) (cases r1; auto simp: r this' catch_send_typed split: option.splits)
qed

subsection \<open>The construction of the send connection\<close>

lemma new_sendConnection_accepted:
  "sendEndpoint_accepted cl \<Longrightarrow> new_sendConnection cl c = Inr (send_connection cl c)"
  by (auto simp: sendEndpoint_accepted_def new_sendConnection_def send_connection_def
      new_Connection_def endpoint_ok_def split: option.splits)

text \<open>With such an endpoint the whole method is its \<open>try\<close> blocks.\<close>

lemma accepted_endpoint_enters_try:
  assumes "sendEndpoint_accepted (this st)"
  shows "MarginfiClient_processTransaction lb env fuel tx signers os ca st =
           processTransaction lb env fuel tx signers os ca st"
    and "MarginfiClient_sendAndConfirmTransaction lb env fuel vtx os ca st =
           sendAndConfirmTransaction lb env fuel vtx os ca st"
  using assms
  by (simp_all add: MarginfiClient_processTransaction_def
      MarginfiClient_sendAndConfirmTransaction_def new_sendConnection_accepted)

text \<open>
  An endpoint that is no URL: both methods throw the \<open>TypeError\<close> of \<open>new Connection\<close> as
  it is, before any call.
\<close>

lemma new_sendConnection_refused:
  "\<not> sendEndpoint_accepted cl \<Longrightarrow> new_sendConnection cl c = Inl endpoint_error"
  by (auto simp: sendEndpoint_accepted_def new_sendConnection_def new_Connection_def
      endpoint_ok_def split: option.splits)

lemma refused_endpoint_is_thrown_raw:
  assumes "\<not> sendEndpoint_accepted (this st)"
  shows "MarginfiClient_processTransaction lb env fuel tx signers os ca st =
           Some (Inl endpoint_error, st)"
    and "MarginfiClient_sendAndConfirmTransaction lb env fuel vtx os ca st =
           Some (Inl endpoint_error, st)"
  using assms
  by (simp_all add: MarginfiClient_processTransaction_def
      MarginfiClient_sendAndConfirmTransaction_def new_sendConnection_refused)

lemma misconfigured_endpoint_run:
  "MarginfiClient_processTransaction lib0 env0 0 (Transaction [''ix'']) None None None
     (start misconfigured0) =
     Some (Inl endpoint_error, start misconfigured0)"
  by (rule refused_endpoint_is_thrown_raw)
     (simp add: sendEndpoint_accepted_def misconfigured0_def start_def)

text \<open>
  A wallet that rejects with \<open>undefined\<close>: the last \<open>catch\<close> block fails to read the
  message, and the method throws the \<open>TypeError\<close> of that read.
\<close>

lemma undefined_rejection_is_thrown_raw:
  "MarginfiClient_processTransaction lib0 env_rejecting 0 (Transaction [''ix'']) None None None
     (start fetched0) =
     Some (Inl (unreadable js_undefined),
       \<lparr>this = fetched0,
        trace =
          [GetLatestBlockhashAndContext rpc0 (Inr snapshot0),
           WalletSignTransaction vtx0 (Inl (Nullish js_undefined))]\<rparr>)"
  by (simp add: MarginfiClient_processTransaction_def new_sendConnection_def
      processTransaction_defs call_defs fixture_defs fixture_defs2 env_rejecting_def)

text \<open>
  C3, as the code has it, for a client whose send endpoint \<open>new Connection\<close> accepts. In
  a finished run of \<open>processTransaction\<close> or \<open>sendAndConfirmTransaction\<close> no step before
  the last one fails, and the run returns a signature exactly when the last does not
  fail either. Otherwise it throws; when the exception of the failing step has a
  message, what is thrown is a \<open>ProcessTransactionError\<close> with that message and: kind
  \<open>TransactionBuildingError\<close> when the step is the fetch of the snapshot, the compilation
  or the local signing in \<open>processTransaction\<close>; kind \<open>SimulationError\<close>, with the parsed
  description in place of the message when there is one, and the logs, when the
  exception is a \<open>SendTransactionError\<close> with logs; kind \<open>FallthroughError\<close> in every other
  case.
\<close>

theorem failures_are_typed_by_their_catch:
  "(sendEndpoint_accepted (this st) \<and>
    MarginfiClient_processTransaction lb env fuel tx signers os connection_args st =
      Some (r, st') \<longrightarrow>
      typed_outcome lb (programId (config (this st)))
        (failing_step lb Building (build_failure lb (this st) tx signers)
           (simulates_only (this st) os) (snapshot_limit (added st st')))
        (added st st') r) \<and>
   (sendEndpoint_accepted (this st) \<and>
    MarginfiClient_sendAndConfirmTransaction lb env fuel vtx os connection_args st =
      Some (r', st'') \<longrightarrow>
      typed_outcome lb (programId (config (this st)))
        (failing_step lb Sending (\<lambda>snap. None) False (snapshot_limit (added st st'')))
        (added st st'') r')"
  by (auto simp: MarginfiClient_processTransaction_def MarginfiClient_sendAndConfirmTransaction_def
      new_sendConnection_accepted processTransaction_typed sendAndConfirmTransaction_typed)

subsection \<open>Runs that fail, and one that does not\<close>

lemmas whole_method_defs =
  MarginfiClient_processTransaction_def MarginfiClient_sendAndConfirmTransaction_def
  new_sendConnection_def

lemma processTransaction_sim_failed_run:
  "MarginfiClient_processTransaction lib0 env_sim_failed 1 (Transaction [''ix'']) None None None
     (start spam1) =
     Some (Inl simulation_error0,
       \<lparr>this = spam1,
        trace =
          [GetLatestBlockhashAndContext rpc0 (Inr snapshot0),
           WalletSignTransaction vtx0 (Inr signed0),
           SimulateTransaction rpc0 signed0 (jito_sim_arg 96) (Inr sim_failed)]\<rparr>)"
  by (simp add: whole_method_defs numeral_eq_Suc processTransaction_defs loop_defs call_defs
      fixture_defs fixture_defs2 fixture_defs3 jito_sim_arg_def signed0_def simulation_error0_def)

lemma sendAndConfirmTransaction_sim_failed_run:
  "MarginfiClient_sendAndConfirmTransaction lib0 env_sim_failed 1 signed0 None None (start spam1) =
     Some (Inl simulation_error0,
       \<lparr>this = spam1,
        trace =
          [GetLatestBlockhashAndContext rpc0 (Inr snapshot0),
           SimulateTransaction rpc0 signed0 (jito_sim_arg 96) (Inr sim_failed)]\<rparr>)"
  by (simp add: whole_method_defs numeral_eq_Suc sendAndConfirmTransaction_defs loop_defs
      call_defs fixture_defs fixture_defs2 fixture_defs3 jito_sim_arg_def signed0_def
      simulation_error0_def)

lemma processTransaction_uncompilable_run:
  "MarginfiClient_processTransaction lib_uncompilable env0 0 (Transaction [''ix'']) None None None
     (start fetched0) =
     Some (Inl (ProcessTransactionError ''cannot compile'' TransactionBuildingError None),
       \<lparr>this = fetched0, trace = [GetLatestBlockhashAndContext rpc0 (Inr snapshot0)]\<rparr>)"
  by (simp add: whole_method_defs processTransaction_defs call_defs fixture_defs fixture_defs2
      lib_uncompilable_def)

lemma sendAndConfirmTransaction_plain_run:
  "MarginfiClient_sendAndConfirmTransaction lib_uncompilable env0 0 signed0 None None
     (start fetched0) =
     Some (Inr ''sig'',
       \<lparr>this = fetched0,
        trace =
          [GetLatestBlockhashAndContext rpc0 (Inr snapshot0),
           SendTransaction rpc0 signed0
             \<lparr>so_skipPreflight = None, so_preflightCommitment = Some ''processed'',
              so_maxRetries = None\<rparr>
             (Inr ''sig''),
           ConfirmTransaction rpc0 ''hash'' 50 ''sig'' ''processed'' (Inr ())]\<rparr>)"
  by (simp add: whole_method_defs sendAndConfirmTransaction_defs call_defs fixture_defs
      fixture_defs2 lib_uncompilable_def signed0_def)

lemma accepted0: "sendEndpoint_accepted spam1" "sendEndpoint_accepted fetched0"
  by (simp_all add: sendEndpoint_accepted_def spam1_def fetched0_def)

theorem failures_are_typed_by_their_catch_witness:
  "sendEndpoint_accepted spam1 \<and>
   MarginfiClient_processTransaction lib0 env_sim_failed 1 (Transaction [''ix'']) None None None
     (start spam1) =
     Some (Inl simulation_error0,
       \<lparr>this = spam1,
        trace =
          [GetLatestBlockhashAndContext rpc0 (Inr snapshot0),
           WalletSignTransaction vtx0 (Inr signed0),
           SimulateTransaction rpc0 signed0 (jito_sim_arg 96) (Inr sim_failed)]\<rparr>) \<and>
   typed_outcome lib0 (programId (config spam1))
     (failing_step lib0 Building (build_failure lib0 spam1 (Transaction [''ix'']) None)
        (simulates_only spam1 None) 50)
     [GetLatestBlockhashAndContext rpc0 (Inr snapshot0),
      WalletSignTransaction vtx0 (Inr signed0),
      SimulateTransaction rpc0 signed0 (jito_sim_arg 96) (Inr sim_failed)]
     (Inl simulation_error0) \<and>
   MarginfiClient_sendAndConfirmTransaction lib0 env_sim_failed 1 signed0 None None (start spam1) =
     Some (Inl simulation_error0,
       \<lparr>this = spam1,
        trace =
          [GetLatestBlockhashAndContext rpc0 (Inr snapshot0),
           SimulateTransaction rpc0 signed0 (jito_sim_arg 96) (Inr sim_failed)]\<rparr>) \<and>
   typed_outcome lib0 (programId (config spam1))
     (failing_step lib0 Sending (\<lambda>snap. None) False 50)
     [GetLatestBlockhashAndContext rpc0 (Inr snapshot0),
      SimulateTransaction rpc0 signed0 (jito_sim_arg 96) (Inr sim_failed)]
     (Inl simulation_error0) \<and>
   sendEndpoint_accepted fetched0 \<and>
   MarginfiClient_processTransaction lib_uncompilable env0 0 (Transaction [''ix'']) None None None
     (start fetched0) =
     Some (Inl (ProcessTransactionError ''cannot compile'' TransactionBuildingError None),
       \<lparr>this = fetched0, trace = [GetLatestBlockhashAndContext rpc0 (Inr snapshot0)]\<rparr>) \<and>
   typed_outcome lib_uncompilable (programId (config fetched0))
     (failing_step lib_uncompilable Building
        (build_failure lib_uncompilable fetched0 (Transaction [''ix'']) None)
        (simulates_only fetched0 None) 50)
     [GetLatestBlockhashAndContext rpc0 (Inr snapshot0)]
     (Inl (ProcessTransactionError ''cannot compile'' TransactionBuildingError None)) \<and>
   MarginfiClient_sendAndConfirmTransaction lib_uncompilable env0 0 signed0 None None
     (start fetched0) =
     Some (Inr ''sig'',
       \<lparr>this = fetched0,
        trace =
          [GetLatestBlockhashAndContext rpc0 (Inr snapshot0),
           SendTransaction rpc0 signed0
             \<lparr>so_skipPreflight = None, so_preflightCommitment = Some ''processed'',
              so_maxRetries = None\<rparr>
             (Inr ''sig''),
           ConfirmTransaction rpc0 ''hash'' 50 ''sig'' ''processed'' (Inr ())]\<rparr>) \<and>
   typed_outcome lib_uncompilable (programId (config fetched0))
     (failing_step lib_uncompilable Sending (\<lambda>snap. None) False 50)
     [GetLatestBlockhashAndContext rpc0 (Inr snapshot0),
      SendTransaction rpc0 signed0
        \<lparr>so_skipPreflight = None, so_preflightCommitment = Some ''processed'',
         so_maxRetries = None\<rparr>
        (Inr ''sig''),
      ConfirmTransaction rpc0 ''hash'' 50 ''sig'' ''processed'' (Inr ())]
     (Inr ''sig'')"
  using failures_are_typed_by_their_catch [where st = "start spam1" and lb = lib0
      and env = env_sim_failed and fuel = 1 and tx = "Transaction [''ix'']" and signers = None
      and os = None and connection_args = None and r = "Inl simulation_error0"
      and st' = "\<lparr>this = spam1,
        trace =
          [GetLatestBlockhashAndContext rpc0 (Inr snapshot0),
           WalletSignTransaction vtx0 (Inr signed0),
           SimulateTransaction rpc0 signed0 (jito_sim_arg 96) (Inr sim_failed)]\<rparr>"
      and vtx = signed0 and r' = "Inl simulation_error0"
      and st'' = "\<lparr>this = spam1,
        trace =
          [GetLatestBlockhashAndContext rpc0 (Inr snapshot0),
           SimulateTransaction rpc0 signed0 (jito_sim_arg 96) (Inr sim_failed)]\<rparr>"]
    failures_are_typed_by_their_catch [where st = "start fetched0" and lb = lib_uncompilable
      and env = env0 and fuel = 0 and tx = "Transaction [''ix'']" and signers = None
      and os = None and connection_args = None
      and r = "Inl (ProcessTransactionError ''cannot compile'' TransactionBuildingError None)"
      and st' = "\<lparr>this = fetched0, trace = [GetLatestBlockhashAndContext rpc0 (Inr snapshot0)]\<rparr>"
      and vtx = signed0 and r' = "Inr ''sig''"
      and st'' = "\<lparr>this = fetched0,
        trace =
          [GetLatestBlockhashAndContext rpc0 (Inr snapshot0),
           SendTransaction rpc0 signed0
             \<lparr>so_skipPreflight = None, so_preflightCommitment = Some ''processed'',
              so_maxRetries = None\<rparr>
             (Inr ''sig''),
           ConfirmTransaction rpc0 ''hash'' 50 ''sig'' ''processed'' (Inr ())]\<rparr>"]
    processTransaction_sim_failed_run sendAndConfirmTransaction_sim_failed_run
    processTransaction_uncompilable_run sendAndConfirmTransaction_plain_run accepted0
  by (simp add: added_def start_def snapshot_limit_def snapshot0_def)

text \<open>
  As stated, C3 fails: an error caught by the first \<open>catch\<close> block of
  \<open>processTransaction\<close> is no \<open>SendTransactionError\<close> with logs, and yet it is not thrown as
  a \<open>FallthroughError\<close>. Here the fetch of the snapshot fails, and the method throws a
  \<open>ProcessTransactionError\<close> of kind \<open>TransactionBuildingError\<close>.
\<close>

theorem building_error_is_not_fallthrough:
  "MarginfiClient_processTransaction lib0 env_down 0 (Transaction [''ix'']) None None None
     (start fetched0) =
     Some (Inl (ProcessTransactionError ''fetch failed'' TransactionBuildingError None),
       \<lparr>this = fetched0,
        trace = [GetLatestBlockhashAndContext rpc0 (Inl (Error ''fetch failed''))]\<rparr>)"
  by (simp add: whole_method_defs processTransaction_defs call_defs fixture_defs fixture_defs2
      env_down_def)

end
